(* ===== verification/Prelude.thy ===== *)
theory Prelude
  imports Main
begin

text \<open>
  Shared vocabulary of the httpx development: the representation of a Go panic, Go slice
  indexing with its bounds check, the ``first match along a list'' combinator that the
  standard library's \<open>errors.As\<close> loop computes, and ASCII case conversion on
  characters. Everything here is generic; the component theories import it.
\<close>

named_theorems go_run
  "equations that evaluate the model on concrete inputs"

section \<open>Panics\<close>

text \<open>
  A Go panic (a nil dereference, an index out of range, an explicit \<open>panic(..)\<close>)
  aborts the goroutine. The model returns it as \<open>Inl\<close> of a sum, carrying the panic
  message; the normal result is \<open>Inr\<close>.
\<close>

type_synonym panic = string

type_synonym 'a go = "panic + 'a"

text \<open>Sequencing: the first panic aborts the rest.\<close>

fun go_bind :: "'a go \<Rightarrow> ('a \<Rightarrow> 'b go) \<Rightarrow> 'b go" where
  "go_bind (Inl p) f = Inl p"
| "go_bind (Inr x) f = f x"

lemma go_bind_Inr_iff: "go_bind m f = Inr y \<longleftrightarrow> (\<exists>x. m = Inr x \<and> f x = Inr y)"
  by (cases m) auto

definition go_index :: "'a list \<Rightarrow> nat \<Rightarrow> 'a go" where
  "go_index xs i =
     (if i < length xs then Inr (xs ! i) else Inl ''runtime error: index out of range'')"

lemma go_index_in_range [simp]: "i < length xs \<Longrightarrow> go_index xs i = Inr (xs ! i)"
  by (simp add: go_index_def)

lemma go_index_out_of_range [simp]: "length xs \<le> i \<Longrightarrow> go_index xs i = Inl ''runtime error: index out of range''"
  by (simp add: go_index_def)

lemma go_index_Cons_0 [simp, go_run]: "go_index (x # xs) 0 = Inr x"
  by (simp add: go_index_def)

lemma go_index_Cons_Suc [simp, go_run]: "go_index (x # xs) (Suc i) = go_index xs i"
  by (simp add: go_index_def)

lemma go_index_Nil [simp, go_run]: "go_index [] i = Inl ''runtime error: index out of range''"
  by (simp add: go_index_def)

section \<open>First match along a list\<close>

fun find_map :: "('a \<Rightarrow> 'b option) \<Rightarrow> 'a list \<Rightarrow> 'b option" where
  "find_map f [] = None"
| "find_map f (x # xs) = (case f x of Some y \<Rightarrow> Some y | None \<Rightarrow> find_map f xs)"

lemma find_map_None_iff: "find_map f xs = None \<longleftrightarrow> (\<forall>x \<in> set xs. f x = None)"
  by (induction xs) (auto split: option.splits)

lemma find_map_append:
  "find_map f (xs @ ys) = (case find_map f xs of Some y \<Rightarrow> Some y | None \<Rightarrow> find_map f ys)"
  by (induction xs) (auto split: option.splits)

lemma find_map_SomeD: "find_map f xs = Some y \<Longrightarrow> \<exists>x \<in> set xs. f x = Some y"
  by (induction xs) (auto split: option.splits)

lemma Cons_split_ex:
  "(\<exists>us x vs. a # xs = us @ x # vs \<and> P us x) \<longleftrightarrow> P [] a \<or> (\<exists>us x vs. xs = us @ x # vs \<and> P (a # us) x)"
proof
  assume "\<exists>us x vs. a # xs = us @ x # vs \<and> P us x"
  then obtain us x vs where eq: "a # xs = us @ x # vs" and p: "P us x" by blast
  then show "P [] a \<or> (\<exists>us x vs. xs = us @ x # vs \<and> P (a # us) x)"
    by (cases us) auto
next
  assume "P [] a \<or> (\<exists>us x vs. xs = us @ x # vs \<and> P (a # us) x)"
  then show "\<exists>us x vs. a # xs = us @ x # vs \<and> P us x"
  proof
    assume "P [] a"
    then show ?thesis by (intro exI [of _ "[]"]) auto
  next
    assume "\<exists>us x vs. xs = us @ x # vs \<and> P (a # us) x"
    then obtain us x vs where "xs = us @ x # vs" "P (a # us) x" by blast
    then show ?thesis by (intro exI [of _ "a # us"]) auto
  qed
qed

lemma find_map_Some_iff:
  "find_map f xs = Some y \<longleftrightarrow>
     (\<exists>us x vs. xs = us @ x # vs \<and> (\<forall>u \<in> set us. f u = None) \<and> f x = Some y)"
proof (induction xs)
  case (Cons a xs)
  have "(\<exists>us x vs. a # xs = us @ x # vs \<and> (\<forall>u \<in> set us. f u = None) \<and> f x = Some y) \<longleftrightarrow>
        f a = Some y \<or> (f a = None \<and> (\<exists>us x vs. xs = us @ x # vs \<and> (\<forall>u \<in> set us. f u = None) \<and> f x = Some y))"
    using Cons_split_ex [of a xs "\<lambda>us x. (\<forall>u \<in> set us. f u = None) \<and> f x = Some y"] by (simp; blast)
  with Cons.IH show ?case by (auto split: option.splits)
qed simp
section \<open>ASCII case conversion\<close>

text \<open>
  Go strings are byte strings; \<open>char\<close> is a byte here. \<open>unicode.ToUpper\<close> and
  \<open>strings.ToLower\<close> restricted to ASCII letters, as the header code uses them.
\<close>

definition is_ascii_lower :: "char \<Rightarrow> bool" where
  "is_ascii_lower c \<longleftrightarrow> (97::nat) \<le> of_char c \<and> of_char c \<le> (122::nat)"

definition is_ascii_upper :: "char \<Rightarrow> bool" where
  "is_ascii_upper c \<longleftrightarrow> (65::nat) \<le> of_char c \<and> of_char c \<le> (90::nat)"

definition ascii_upper :: "char \<Rightarrow> char" where
  "ascii_upper c = (if is_ascii_lower c then char_of (of_char c - (32::nat)) else c)"

definition ascii_lower :: "char \<Rightarrow> char" where
  "ascii_lower c = (if is_ascii_upper c then char_of (of_char c + (32::nat)) else c)"

lemmas ascii_case_defs [go_run] =
  is_ascii_lower_def is_ascii_upper_def ascii_upper_def ascii_lower_def

lemma char_eq_of_char: "(c = d) \<longleftrightarrow> (of_char c :: nat) = of_char d"
  by (metis char_of_char)

lemma ascii_upper_dash_iff [simp]: "ascii_upper c = CHR ''-'' \<longleftrightarrow> c = CHR ''-''"
  unfolding char_eq_of_char [of _ "CHR ''-''"] by (auto simp: ascii_case_defs)

lemma ascii_lower_dash_iff [simp]: "ascii_lower c = CHR ''-'' \<longleftrightarrow> c = CHR ''-''"
  unfolding char_eq_of_char [of _ "CHR ''-''"] by (auto simp: ascii_case_defs)

lemma of_char_less_256: "of_char c < (256::nat)"
  using of_char_mod_256 [of c] by (metis mod_less_divisor zero_less_numeral)

lemma upper_of_lower: "is_ascii_lower c \<Longrightarrow> is_ascii_upper (ascii_upper c)"
  by (auto simp: ascii_case_defs)

lemma lower_of_upper: "is_ascii_upper c \<Longrightarrow> is_ascii_lower (ascii_lower c)"
  using of_char_less_256 [of c] by (auto simp: ascii_case_defs)

lemma ascii_upper_not_lower [simp]: "\<not> is_ascii_lower (ascii_upper c)"
  by (auto simp: ascii_case_defs)

lemma ascii_lower_not_upper [simp]: "\<not> is_ascii_upper (ascii_lower c)"
  by (auto simp: ascii_case_defs)

lemma ascii_upper_idem [simp]: "ascii_upper (ascii_upper c) = ascii_upper c"
  by (metis ascii_upper_def ascii_upper_not_lower)

lemma ascii_lower_idem [simp]: "ascii_lower (ascii_lower c) = ascii_lower c"
  by (metis ascii_lower_def ascii_lower_not_upper)

lemma ascii_lower_upper [simp]: "ascii_lower (ascii_upper c) = ascii_lower c"
  by (auto simp: ascii_case_defs)

lemma ascii_upper_lower [simp]: "ascii_upper (ascii_lower c) = ascii_upper c"
  by (auto simp: ascii_case_defs)

end
