(* ===== verification/NetHttp.thy ===== *)
theory NetHttp
  imports Prelude
begin

text \<open>
  The parts of Go's standard library that httpx calls and whose behaviour its results
  depend on, modelled from their documented behaviour (they are not code of this
  repository): \<open>http.Header\<close> with canonical MIME keys
  (\<open>textproto.CanonicalMIMEHeaderKey\<close>), \<open>http.StatusText\<close>, the
  \<open>http.ResponseWriter\<close> as a small state machine driven by a list of operations,
  \<open>http.Error\<close>, and \<open>strconv.Itoa\<close> with a decimal reader for round trips.
\<close>

section \<open>Header keys\<close>

text \<open>
  \<open>validHeaderFieldByte\<close>: the RFC 7230 token characters. A key with any other byte
  is left as it is; otherwise the first letter and every letter after a dash is upper
  case and all other letters lower case.
\<close>

definition is_token_char :: "char \<Rightarrow> bool" where
  "is_token_char c \<longleftrightarrow>
     (48::nat) \<le> of_char c \<and> of_char c \<le> (57::nat) \<or> is_ascii_upper c \<or> is_ascii_lower c \<or>
     c \<in> set ''!#$%&*+-.^_`|~'' \<or> c = CHR 0x27"

fun canon_from :: "bool \<Rightarrow> string \<Rightarrow> string" where
  "canon_from upper [] = []"
| "canon_from upper (c # cs) =
     (let c' = (if upper then ascii_upper c else ascii_lower c)
      in c' # canon_from (c' = CHR ''-'') cs)"

definition canonical_key :: "string \<Rightarrow> string" where
  "canonical_key s = (if list_all is_token_char s then canon_from True s else s)"

lemma is_token_char_upper: "is_token_char c \<Longrightarrow> is_token_char (ascii_upper c)"
proof (cases "is_ascii_lower c")
  case True
  then show ?thesis by (simp add: is_token_char_def upper_of_lower)
qed (simp add: ascii_upper_def)

lemma is_token_char_lower_iff [simp]: "is_token_char (ascii_lower c) \<longleftrightarrow> is_token_char c"
proof (cases "is_ascii_upper c")
  case True
  then show ?thesis by (simp add: is_token_char_def lower_of_upper)
qed (simp add: ascii_lower_def)

lemma canon_from_tokens: "list_all is_token_char s \<Longrightarrow> list_all is_token_char (canon_from b s)"
  by (induction s arbitrary: b) (auto simp: Let_def is_token_char_upper)

lemma canon_from_idem: "canon_from b (canon_from b s) = canon_from b s"
  by (induction s arbitrary: b) (auto simp: Let_def)

lemma canon_from_map_lower: "canon_from b (map ascii_lower s) = canon_from b s"
  by (induction s arbitrary: b) (auto simp: Let_def)

text \<open>
  Canonicalising a header key is idempotent: a canonical key is its own canonical form.
\<close>

theorem canonical_key_idem: "canonical_key (canonical_key s) = canonical_key s"
  by (simp add: canonical_key_def canon_from_tokens canon_from_idem)

lemma canonical_key_map_lower:
  "list_all is_token_char s \<Longrightarrow> canonical_key (map ascii_lower s) = canonical_key s"
  by (simp add: canonical_key_def canon_from_map_lower list_all_iff)

section \<open>Header maps\<close>

text \<open>
  \<open>http.Header\<close> is \<open>map[string][]string\<close>; a missing key reads as the empty list.
  \<open>Add\<close>, \<open>Set\<close>, \<open>Del\<close> and \<open>Get\<close> canonicalise their key first.
\<close>

type_synonym header = "string \<Rightarrow> string list"

abbreviation empty_header :: header where
  "empty_header \<equiv> (\<lambda>_. [])"

definition header_get :: "header \<Rightarrow> string \<Rightarrow> string" where
  "header_get h k = (case h (canonical_key k) of [] \<Rightarrow> [] | v # _ \<Rightarrow> v)"

definition header_add :: "header \<Rightarrow> string \<Rightarrow> string \<Rightarrow> header" where
  "header_add h k v = (let ck = canonical_key k in h(ck := h ck @ [v]))"

definition header_set :: "header \<Rightarrow> string \<Rightarrow> string \<Rightarrow> header" where
  "header_set h k v = h(canonical_key k := [v])"

definition header_del :: "header \<Rightarrow> string \<Rightarrow> header" where
  "header_del h k = h(canonical_key k := [])"

lemmas header_ops_defs [go_run] = header_get_def header_add_def header_set_def header_del_def

text \<open>
  \<open>Get\<close> after \<open>Set\<close> returns the value set, for every key with the same
  canonical form (header names are case-insensitive).
\<close>

theorem header_get_set: "canonical_key k' = canonical_key k \<Longrightarrow> header_get (header_set h k v) k' = v"
  by (simp add: header_get_def header_set_def)

theorem header_get_set_witness:
  "header_get (header_set empty_header ''content-type'' ''text/html'') ''Content-Type'' = ''text/html''"
  by (rule header_get_set)
     (simp add: canonical_key_def is_token_char_def ascii_case_defs Let_def char_of_def bit_simps)

lemma header_get_set_other:
  "canonical_key k' \<noteq> canonical_key k \<Longrightarrow> header_get (header_set h k v) k' = header_get h k'"
  by (simp add: header_get_def header_set_def)

lemma header_get_add_other:
  "canonical_key k' \<noteq> canonical_key k \<Longrightarrow> header_get (header_add h k v) k' = header_get h k'"
  by (simp add: header_get_def header_add_def Let_def)

lemma header_get_add_new:
  "h (canonical_key k) = [] \<Longrightarrow> canonical_key k' = canonical_key k \<Longrightarrow>
   header_get (header_add h k v) k' = v"
  by (simp add: header_get_def header_add_def Let_def)

section \<open>Status texts\<close>

text \<open>\<open>http.StatusText\<close>: the reason phrase of a code, the empty string for an unknown code.\<close>

definition status_texts :: "(int \<times> string) list" where
  "status_texts = [
    (100, ''Continue''), (101, ''Switching Protocols''), (102, ''Processing''), (103, ''Early Hints''),
    (200, ''OK''), (201, ''Created''), (202, ''Accepted''), (203, ''Non-Authoritative Information''),
    (204, ''No Content''), (205, ''Reset Content''), (206, ''Partial Content''),
    (207, ''Multi-Status''), (208, ''Already Reported''), (226, ''IM Used''),
    (300, ''Multiple Choices''), (301, ''Moved Permanently''), (302, ''Found''),
    (303, ''See Other''), (304, ''Not Modified''), (305, ''Use Proxy''),
    (307, ''Temporary Redirect''), (308, ''Permanent Redirect''),
    (400, ''Bad Request''), (401, ''Unauthorized''), (402, ''Payment Required''),
    (403, ''Forbidden''), (404, ''Not Found''), (405, ''Method Not Allowed''),
    (406, ''Not Acceptable''), (407, ''Proxy Authentication Required''),
    (408, ''Request Timeout''), (409, ''Conflict''), (410, ''Gone''), (411, ''Length Required''),
    (412, ''Precondition Failed''), (413, ''Request Entity Too Large''),
    (414, ''Request URI Too Long''), (415, ''Unsupported Media Type''),
    (416, ''Requested Range Not Satisfiable''), (417, ''Expectation Failed''),
    (418, ''I'' @ [CHR 0x27] @ ''m a teapot''), (421, ''Misdirected Request''),
    (422, ''Unprocessable Entity''), (423, ''Locked''), (424, ''Failed Dependency''),
    (425, ''Too Early''), (426, ''Upgrade Required''), (428, ''Precondition Required''),
    (429, ''Too Many Requests''), (431, ''Request Header Fields Too Large''),
    (451, ''Unavailable For Legal Reasons''),
    (500, ''Internal Server Error''), (501, ''Not Implemented''), (502, ''Bad Gateway''),
    (503, ''Service Unavailable''), (504, ''Gateway Timeout''),
    (505, ''HTTP Version Not Supported''), (506, ''Variant Also Negotiates''),
    (507, ''Insufficient Storage''), (508, ''Loop Detected''), (510, ''Not Extended''),
    (511, ''Network Authentication Required'')]"

definition status_text :: "int \<Rightarrow> string" where
  "status_text c = (case map_of status_texts c of Some t \<Rightarrow> t | None \<Rightarrow> [])"

lemmas status_text_run [go_run] = status_text_def status_texts_def

section \<open>The response writer\<close>

text \<open>
  An \<open>http.ResponseWriter\<close> as the server's \<open>response\<close> (and
  \<open>httptest.ResponseRecorder\<close>) implement it: the handler's header map, the status
  once written, the header as it was sent with the status line, and the body.
  \<open>WriteHeader\<close> after the first call is ignored (``superfluous WriteHeader''),
  and otherwise panics on a code outside 100..999 (\<open>checkWriteHeaderCode\<close>).
  \<open>Write\<close> implies \<open>WriteHeader(200)\<close> and drops the bytes for a status that
  allows no body (1xx, 204, 304).
\<close>

record rw =
  rw_header :: header
  rw_status :: "int option"
  rw_sent :: header
  rw_body :: string

definition rw_init :: rw where
  "rw_init = \<lparr>rw_header = empty_header, rw_status = None, rw_sent = empty_header, rw_body = []\<rparr>"

datatype rw_op =
    HdrAdd string string
  | HdrSet string string
  | HdrDel string
  | WriteHeader int
  | WriteBody string

definition body_allowed :: "int \<Rightarrow> bool" where
  "body_allowed c \<longleftrightarrow> \<not> (100 \<le> c \<and> c \<le> 199) \<and> c \<noteq> 204 \<and> c \<noteq> 304"

definition write_header :: "int \<Rightarrow> rw \<Rightarrow> rw go" where
  "write_header c w =
     (if rw_status w \<noteq> None then Inr w
      else if c < 100 \<or> 999 < c then Inl ''invalid WriteHeader code''
      else Inr (w\<lparr>rw_status := Some c, rw_sent := rw_header w\<rparr>))"

fun rw_exec :: "rw_op \<Rightarrow> rw \<Rightarrow> rw go" where
  "rw_exec (HdrAdd k v) w = Inr (w\<lparr>rw_header := header_add (rw_header w) k v\<rparr>)"
| "rw_exec (HdrSet k v) w = Inr (w\<lparr>rw_header := header_set (rw_header w) k v\<rparr>)"
| "rw_exec (HdrDel k) w = Inr (w\<lparr>rw_header := header_del (rw_header w) k\<rparr>)"
| "rw_exec (WriteHeader c) w = write_header c w"
| "rw_exec (WriteBody s) w =
     (case write_header 200 w of
        Inl p \<Rightarrow> Inl p
      | Inr w' \<Rightarrow>
          Inr (case rw_status w' of
                 Some c \<Rightarrow> if body_allowed c then w'\<lparr>rw_body := rw_body w' @ s\<rparr> else w'
               | None \<Rightarrow> w'))"

fun rw_run :: "rw_op list \<Rightarrow> rw \<Rightarrow> rw go" where
  "rw_run [] w = Inr w"
| "rw_run (op # ops) w = (case rw_exec op w of Inl p \<Rightarrow> Inl p | Inr w' \<Rightarrow> rw_run ops w')"

lemmas rw_run_defs [go_run] = rw_init_def body_allowed_def write_header_def

lemma rw_run_append:
  "rw_run (xs @ ys) w = (case rw_run xs w of Inl p \<Rightarrow> Inl p | Inr w' \<Rightarrow> rw_run ys w')"
  by (induction xs arbitrary: w) (auto split: sum.splits)

text \<open>
  The writer's invariant: no body before a status, a status is a valid code, and a
  status that allows no body has none.
\<close>

definition rw_ok :: "rw \<Rightarrow> bool" where
  "rw_ok w \<longleftrightarrow>
     (case rw_status w of
        None \<Rightarrow> rw_body w = []
      | Some c \<Rightarrow> 100 \<le> c \<and> c \<le> 999 \<and> (\<not> body_allowed c \<longrightarrow> rw_body w = []))"

lemma rw_ok_init: "rw_ok rw_init"
  by (simp add: rw_ok_def rw_init_def)

lemma write_header_ok: "write_header c w = Inr w' \<Longrightarrow> rw_ok w \<Longrightarrow> rw_ok w'"
  by (auto simp: write_header_def rw_ok_def split: if_splits option.splits)

lemma write_header_status:
  "write_header c w = Inr w' \<Longrightarrow> rw_status w' = (case rw_status w of None \<Rightarrow> Some c | Some c' \<Rightarrow> Some c')"
  by (auto simp: write_header_def split: if_splits)

lemma rw_exec_ok:
  assumes ex: "rw_exec op w = Inr w'" and ok: "rw_ok w"
  shows "rw_ok w'"
proof (cases op)
  case (WriteHeader c)
  with ex have "write_header c w = Inr w'" by simp
  then show ?thesis using ok by (rule write_header_ok)
next
  case (WriteBody s)
  with ex obtain w1 where w1: "write_header 200 w = Inr w1"
    by (auto split: sum.splits)
  from w1 ok have "rw_ok w1" by (rule write_header_ok)
  with ex WriteBody w1 show ?thesis
    by (auto simp: rw_ok_def split: option.splits if_splits)
qed (use ex ok in \<open>auto simp: rw_ok_def split: option.splits\<close>)

text \<open>
  Every sequence of writer operations that does not panic keeps the writer's
  invariant: a body only after a valid status, none for a bodiless status.
\<close>

theorem rw_run_ok: "rw_run ops w = Inr w' \<Longrightarrow> rw_ok w \<Longrightarrow> rw_ok w'"
  by (induction ops arbitrary: w) (auto split: sum.splits dest: rw_exec_ok)

text \<open>Once written, the status and the header sent with it never change.\<close>

lemma rw_exec_status_stable:
  "rw_exec op w = Inr w' \<Longrightarrow> rw_status w = Some c \<Longrightarrow> rw_status w' = Some c \<and> rw_sent w' = rw_sent w"
  by (cases op) (auto simp: write_header_def split: option.splits if_splits)

text \<open>
  Once a status is written, later operations change neither it nor the header
  that was sent with it (a second \<open>WriteHeader\<close> is ignored).
\<close>

theorem rw_run_status_stable:
  "rw_run ops w = Inr w' \<Longrightarrow> rw_status w = Some c \<Longrightarrow> rw_status w' = Some c \<and> rw_sent w' = rw_sent w"
  by (induction ops arbitrary: w) (auto split: sum.splits dest: rw_exec_status_stable)

subsection \<open>The writer as a state machine\<close>

text \<open>
  The states a handler can bring a fresh response writer to, one operation at a time;
  a panicking operation leads nowhere.
\<close>

inductive rw_reachable :: "rw \<Rightarrow> bool" where
  rw_reach_init: "rw_reachable rw_init"
| rw_reach_step: "rw_reachable w \<Longrightarrow> rw_exec op w = Inr w' \<Longrightarrow> rw_reachable w'"

lemma rw_run_reachable: "rw_run ops w = Inr w' \<Longrightarrow> rw_reachable w \<Longrightarrow> rw_reachable w'"
  by (induction ops arbitrary: w) (auto split: sum.splits intro: rw_reach_step)

text \<open>The reachable states are exactly the results of the operation sequences.\<close>

lemma rw_reachable_iff_run: "rw_reachable w \<longleftrightarrow> (\<exists>ops. rw_run ops rw_init = Inr w)"
proof
  assume "rw_reachable w"
  then show "\<exists>ops. rw_run ops rw_init = Inr w"
  proof (induction rule: rw_reachable.induct)
    case rw_reach_init
    have "rw_run [] rw_init = Inr rw_init" by simp
    then show ?case by blast
  next
    case (rw_reach_step w op w')
    then obtain ops where "rw_run ops rw_init = Inr w" by blast
    then have "rw_run (ops @ [op]) rw_init = Inr w'"
      using rw_reach_step.hyps(2) by (simp add: rw_run_append)
    then show ?case by blast
  qed
next
  assume "\<exists>ops. rw_run ops rw_init = Inr w"
  then show "rw_reachable w" using rw_run_reachable rw_reach_init by blast
qed

text \<open>
  Invariants of every reachable state, by rule induction: the writer's invariant, and
  before a status nothing has been sent, neither header nor body.
\<close>

lemma rw_reachable_ok: "rw_reachable w \<Longrightarrow> rw_ok w"
  by (induction rule: rw_reachable.induct) (auto intro: rw_ok_init rw_exec_ok)

lemma rw_reachable_unsent:
  "rw_reachable w \<Longrightarrow> rw_status w = None \<Longrightarrow> rw_sent w = empty_header \<and> rw_body w = []"
proof (induction rule: rw_reachable.induct)
  case rw_reach_init
  then show ?case by (simp add: rw_init_def)
next
  case (rw_reach_step w op w')
  then show ?case
    by (cases op) (auto simp: write_header_def split: if_splits option.splits sum.splits)
qed

section \<open>http.Error\<close>

text \<open>
  \<open>http.Error(w, text, code)\<close> (Go 1.15): set the plain-text content type and
  \<open>nosniff\<close>, write the status, then the text and a newline (\<open>fmt.Fprintln\<close>).
\<close>

definition http_error :: "string \<Rightarrow> int \<Rightarrow> rw_op list" where
  "http_error text code =
     [HdrSet ''Content-Type'' ''text/plain; charset=utf-8'',
      HdrSet ''X-Content-Type-Options'' ''nosniff'',
      WriteHeader code,
      WriteBody (text @ [CHR 0x0A])]"

lemmas http_error_run [go_run] = http_error_def

theorem rw_run_ok_witness: "rw_ok (projr (rw_run (http_error ''Not Found'' 404) rw_init))"
proof -
  have r: "rw_run (http_error ''Not Found'' 404) rw_init =
           Inr (projr (rw_run (http_error ''Not Found'' 404) rw_init))"
    by (simp add: http_error_def rw_init_def write_header_def)
  show ?thesis by (rule rw_run_ok [OF r rw_ok_init])
qed

theorem rw_run_status_stable_witness:
  "rw_status (projr (rw_run [WriteHeader 500, WriteBody ''x''] (rw_init\<lparr>rw_status := Some 200\<rparr>))) = Some 200"
proof -
  have r: "rw_run [WriteHeader 500, WriteBody ''x''] (rw_init\<lparr>rw_status := Some 200\<rparr>) =
           Inr (projr (rw_run [WriteHeader 500, WriteBody ''x''] (rw_init\<lparr>rw_status := Some 200\<rparr>)))"
    by (simp add: rw_init_def write_header_def)
  show ?thesis using rw_run_status_stable [OF r, of 200] by simp
qed

abbreviation LF :: string where "LF \<equiv> [CHR 0x0A]"

definition text_plain_header :: "header \<Rightarrow> header" where
  "text_plain_header h =
     header_set (header_set h ''Content-Type'' ''text/plain; charset=utf-8'') ''X-Content-Type-Options'' ''nosniff''"

lemma rw_run_http_error:
  assumes "rw_status w = None" and "100 \<le> c" and "c \<le> 999"
  shows "rw_run (http_error t c) w =
           Inr (w\<lparr>rw_header := text_plain_header (rw_header w), rw_status := Some c,
                  rw_sent := text_plain_header (rw_header w),
                  rw_body := rw_body w @ (if body_allowed c then t @ LF else [])\<rparr>)"
  using assms by (simp add: http_error_def write_header_def text_plain_header_def)

lemma rw_run_http_error_invalid:
  "rw_status w = None \<Longrightarrow> c < 100 \<or> 999 < c \<Longrightarrow>
   rw_run (http_error t c) w = Inl ''invalid WriteHeader code''"
  by (auto simp: http_error_def write_header_def)

lemma canonical_literals [simp]:
  "canonical_key ''Content-Type'' = ''Content-Type''"
  "canonical_key ''Content-type'' = ''Content-Type''"
  "canonical_key ''X-Content-Type-Options'' = ''X-Content-Type-Options''"
  "canonical_key ''X-Error-Message'' = ''X-Error-Message''"
  "canonical_key ''Retry-After'' = ''Retry-After''"
  by (simp_all add: canonical_key_def is_token_char_def ascii_case_defs Let_def char_of_def bit_simps)

lemma text_plain_header_other:
  "k \<noteq> ''Content-Type'' \<Longrightarrow> k \<noteq> ''X-Content-Type-Options'' \<Longrightarrow> text_plain_header h k = h k"
  by (simp add: text_plain_header_def header_set_def)

section \<open>strconv.Itoa\<close>

definition digit_char :: "nat \<Rightarrow> char" where
  "digit_char d = ''0123456789'' ! d"

lemma of_digit_char: "d < 10 \<Longrightarrow> of_char (digit_char d) = (48 + d :: nat)"
proof -
  assume "d < 10"
  then have "d \<in> set [0..<10]" by simp
  then show ?thesis by (simp add: digit_char_def upt_rec) (elim disjE; simp)
qed

fun dec_digits :: "nat \<Rightarrow> string" where
  "dec_digits n =
     (if n < 10 then [digit_char n] else dec_digits (n div 10) @ [digit_char (n mod 10)])"

declare dec_digits.simps [simp del]

definition itoa :: "int \<Rightarrow> string" where
  "itoa i = (if i < 0 then CHR ''-'' # dec_digits (nat (- i)) else dec_digits (nat i))"

definition is_dec_digit :: "char \<Rightarrow> bool" where
  "is_dec_digit c \<longleftrightarrow> (48::nat) \<le> of_char c \<and> of_char c \<le> (57::nat)"

definition dec_value :: "string \<Rightarrow> nat" where
  "dec_value s = foldl (\<lambda>acc c. 10 * acc + (of_char c - 48)) 0 s"

definition parse_dec :: "string \<Rightarrow> nat option" where
  "parse_dec s = (if s \<noteq> [] \<and> list_all is_dec_digit s then Some (dec_value s) else None)"

lemmas itoa_run [go_run] = digit_char_def itoa_def is_dec_digit_def dec_value_def parse_dec_def

lemma dec_value_snoc: "dec_value (xs @ [c]) = 10 * dec_value xs + (of_char c - 48)"
  by (simp add: dec_value_def)

lemma dec_digits_nonempty: "dec_digits n \<noteq> []"
  by (subst dec_digits.simps) simp

lemma dec_digits_digits: "list_all is_dec_digit (dec_digits n)"
proof (induction n rule: dec_digits.induct)
  case (1 n)
  then show ?case
    by (subst dec_digits.simps) (auto simp: is_dec_digit_def list_all_iff of_digit_char)
qed

lemma dec_value_dec_digits: "dec_value (dec_digits n) = n"
proof (induction n rule: dec_digits.induct)
  case (1 n)
  show ?case
  proof (cases "n < 10")
    case True
    then show ?thesis by (subst dec_digits.simps) (simp add: dec_value_def of_digit_char)
  next
    case False
    then have "dec_value (dec_digits n) = 10 * dec_value (dec_digits (n div 10)) + n mod 10"
      by (subst dec_digits.simps) (simp add: dec_value_snoc of_digit_char)
    with False "1.IH" show ?thesis by simp
  qed
qed

end
