(* ===== verification/Errors.thy ===== *)
theory Errors
  imports NetHttp
begin

text \<open>
  The error values of package \<open>httperr\<close> and the capability lookups on them:
  \<open>errorWithStatus\<close> (wrap.go), \<open>errorWithPublic\<close> (public.go), the
  \<open>TooManyRequests\<close> and \<open>Response\<close> error types, the constructors \<open>Wrap\<close>,
  \<open>Wrapf\<close>, \<open>WrapPublic\<close>, \<open>WrapPrivate\<close>, \<open>Publicf\<close>, \<open>Code\<close> and the
  package-level code errors, and the two lookups \<open>StatusCode\<close> and \<open>IsPublic\<close>.
  Go's \<open>error\<close> interface becomes one datatype whose constructors are the dynamic types
  the package meets; the standard library's \<open>errors.As\<close> loop and the
  \<open>pkg/errors\<close> wrapper and \<open>Cause\<close> that the tests and \<open>Write\<close> use are
  modelled from their documentation.
\<close>

section \<open>Error values\<close>

text \<open>
  \<^item> \<open>Nil\<close>: the nil interface value;
  \<^item> \<open>Errorf m\<close>: an error with no \<open>Unwrap\<close> (\<open>fmt.Errorf\<close> without \<open>%w\<close>,
    \<open>errors.New\<close>) and message \<open>m\<close>, the format already applied;
  \<^item> \<open>WithStatus c e\<close>: \<open>errorWithStatus{statusCode: c, err: e}\<close>;
  \<^item> \<open>WithPublic p e\<close>: \<open>errorWithPublic{public: p, err: e}\<close>;
  \<^item> \<open>PkgWrap m e\<close>: \<open>pkg/errors.Wrap(e, m)\<close>, a \<open>withStack\<close> around a
    \<open>withMessage\<close> (both unwrap; neither has a capability of this package);
  \<^item> \<open>TooManyRequests r\<close>: \<open>TooManyRequests{RetryAfter: r}\<close>, the time as
    nanoseconds since the epoch, \<open>None\<close> for a nil pointer;
  \<^item> \<open>Response st h\<close>: \<open>httperr.Response\<close> with its \<open>Status\<close> line and \<open>Header\<close>;
  \<^item> \<open>Custom m sc ip rw\<close>: an error type of the package's user with message \<open>m\<close>
    that implements \<open>StatusCoder\<close> (\<open>sc\<close>), \<open>IsPublicer\<close> (\<open>ip\<close>) or
    \<open>ResponseWriter\<close> (\<open>rw\<close>, the writer operations its \<open>WriteResponse\<close> performs)
    when the option is \<open>Some\<close>; it has no \<open>Unwrap\<close>.
\<close>

datatype goerr =
    Nil
  | Errorf string
  | WithStatus int goerr
  | WithPublic bool goerr
  | PkgWrap string goerr
  | TooManyRequests "int option"
  | Response string header
  | Custom string "int option" "bool option" "rw_op list option"

fun is_nil :: "goerr \<Rightarrow> bool" where
  "is_nil Nil = True"
| "is_nil _ = False"

section \<open>Methods\<close>

text \<open>\<open>Unwrap()\<close>, \<open>None\<close> where the dynamic type has no such method.\<close>

fun unwrap :: "goerr \<Rightarrow> goerr option" where
  "unwrap (WithStatus c e) = Some e"
| "unwrap (WithPublic p e) = Some e"
| "unwrap (PkgWrap m e) = Some e"
| "unwrap _ = None"

text \<open>
  \<open>Error()\<close>. Calling it on \<open>Nil\<close>, or on a wrapper whose chain ends in \<open>Nil\<close>,
  dereferences a nil interface and panics.
\<close>

fun error_text :: "goerr \<Rightarrow> string go" where
  "error_text Nil = Inl ''runtime error: invalid memory address or nil pointer dereference''"
| "error_text (Errorf m) = Inr m"
| "error_text (WithStatus c e) = error_text e"
| "error_text (WithPublic p e) = error_text e"
| "error_text (PkgWrap m e) = (case error_text e of Inl p \<Rightarrow> Inl p | Inr t \<Rightarrow> Inr (m @ '': '' @ t))"
| "error_text (TooManyRequests r) = Inr (status_text 429)"
| "error_text (Response st h) =
     Inr (let msg = header_get h ''X-Error-Message'' in st @ (if msg = [] then [] else '': '' @ msg))"
| "error_text (Custom m sc ip rw) = Inr m"

text \<open>The \<open>StatusCoder\<close> capability: \<open>StatusCode()\<close> where the type implements it.\<close>

fun status_coder :: "goerr \<Rightarrow> int option" where
  "status_coder (WithStatus c e) = Some c"
| "status_coder (TooManyRequests r) = Some 429"
| "status_coder (Custom m sc ip rw) = sc"
| "status_coder _ = None"

text \<open>The \<open>IsPublicer\<close> capability.\<close>

fun is_publicer :: "goerr \<Rightarrow> bool option" where
  "is_publicer (WithPublic p e) = Some p"
| "is_publicer (Custom m sc ip rw) = ip"
| "is_publicer _ = None"

text \<open>The \<open>ResponseWriter\<close> capability: the matching error itself, rendered later.\<close>

fun response_writer :: "goerr \<Rightarrow> goerr option" where
  "response_writer (TooManyRequests r) = Some (TooManyRequests r)"
| "response_writer (Custom m sc ip rw) = (case rw of None \<Rightarrow> None | Some _ \<Rightarrow> Some (Custom m sc ip rw))"
| "response_writer _ = None"

text \<open>\<open>pkg/errors.Cause\<close>: follow \<open>Cause()\<close>, which only its own wrappers have.\<close>

fun pkg_cause :: "goerr \<Rightarrow> goerr" where
  "pkg_cause (PkgWrap m e) = pkg_cause e"
| "pkg_cause e = e"

section \<open>errors.As\<close>

text \<open>
  The loop of \<open>errors.As\<close>: stop with \<open>false\<close> on nil, stop with the value if the
  current error has the capability, otherwise continue with \<open>Unwrap()\<close> if there is
  one. It terminates because \<open>Unwrap\<close> returns a strict component of the value.
\<close>

lemma unwrap_size: "unwrap e = Some e' \<Longrightarrow> size e' < size e"
  by (cases e) auto

function errors_as :: "(goerr \<Rightarrow> 'a option) \<Rightarrow> goerr \<Rightarrow> 'a option" where
  "errors_as m e =
     (if is_nil e then None
      else case m e of
             Some v \<Rightarrow> Some v
           | None \<Rightarrow> (case unwrap e of None \<Rightarrow> None | Some e' \<Rightarrow> errors_as m e'))"
  by pat_completeness auto
termination
  by (relation "measure (\<lambda>(m, e). size e)") (auto dest: unwrap_size)

declare errors_as.simps [simp del]

text \<open>The wrap chain that the loop walks, outermost first, as a list.\<close>

fun chain :: "goerr \<Rightarrow> goerr list" where
  "chain Nil = []"
| "chain (WithStatus c e) = WithStatus c e # chain e"
| "chain (WithPublic p e) = WithPublic p e # chain e"
| "chain (PkgWrap m e) = PkgWrap m e # chain e"
| "chain e = [e]"

section \<open>Constructors and lookups\<close>

definition Wrap :: "int \<Rightarrow> goerr \<Rightarrow> goerr" where
  "Wrap c e = WithStatus c e"

definition StatusCode :: "goerr \<Rightarrow> int" where
  "StatusCode e = (case errors_as status_coder e of Some c \<Rightarrow> c | None \<Rightarrow> 0)"

definition WrapPublic :: "goerr \<Rightarrow> goerr" where
  "WrapPublic e = WithPublic True e"

definition WrapPrivate :: "goerr \<Rightarrow> goerr" where
  "WrapPrivate e = WithPublic False e"

definition IsPublic :: "goerr \<Rightarrow> bool" where
  "IsPublic e = (case errors_as is_publicer e of Some p \<Rightarrow> p | None \<Rightarrow> False)"

definition Wrapf :: "int \<Rightarrow> string \<Rightarrow> goerr" where
  "Wrapf c msg = WithStatus c (Errorf msg)"

definition Publicf :: "int \<Rightarrow> string \<Rightarrow> goerr" where
  "Publicf c msg = WrapPublic (Wrapf c msg)"

text \<open>
  \<open>httperr.Public(code, err)\<close>, which json.go calls, is not defined in the sources;
  it is modelled as the spec describes it: status \<open>code\<close> around a public \<open>err\<close>.
\<close>

definition Public :: "int \<Rightarrow> goerr \<Rightarrow> goerr" where
  "Public c e = Wrap c (WrapPublic e)"

definition Code :: "int \<Rightarrow> goerr" where
  "Code c = Wrapf c (status_text c)"

text \<open>The package-level errors of codes.go, by variable name.\<close>

definition code_vars :: "(string \<times> int) list" where
  "code_vars = [
    (''BadRequest'', 400), (''Unauthorized'', 401), (''PaymentRequired'', 402),
    (''Forbidden'', 403), (''NotFound'', 404), (''MethodNotAllowed'', 405),
    (''NotAcceptable'', 406), (''ProxyAuthRequired'', 407), (''RequestTimeout'', 408),
    (''Conflict'', 409), (''Gone'', 410), (''LengthRequired'', 411),
    (''PreconditionFailed'', 412), (''RequestEntityTooLarge'', 413),
    (''RequestURITooLong'', 414), (''UnsupportedMediaType'', 415),
    (''RequestedRangeNotSatisfiable'', 416), (''ExpectationFailed'', 417),
    (''Teapot'', 418), (''InternalServerError'', 500), (''NotImplemented'', 501),
    (''BadGateway'', 502), (''ServiceUnavailable'', 503), (''GatewayTimeout'', 504),
    (''HTTPVersionNotSupported'', 505)]"

definition code_var :: "string \<Rightarrow> goerr option" where
  "code_var name = map_option Code (map_of code_vars name)"

lemmas error_ctor_defs [go_run] =
  Wrap_def WrapPublic_def WrapPrivate_def Wrapf_def Publicf_def Public_def Code_def

lemmas error_lookup_defs [go_run] = StatusCode_def IsPublic_def errors_as.simps

section \<open>The lookups walk the wrap chain\<close>

text \<open>
  \<open>errors_as\<close> computes the first capability along \<open>chain\<close>: the loop of the
  standard library refines the list search. All lookups below are derived from this.
\<close>

lemma errors_as_chain: "errors_as m e = find_map m (chain e)"
proof (induction e)
  case Nil
  then show ?case by (simp add: errors_as.simps)
qed (simp_all add: errors_as.simps split: option.splits)

lemma StatusCode_chain:
  "StatusCode e = (case find_map status_coder (chain e) of Some c \<Rightarrow> c | None \<Rightarrow> 0)"
  by (simp add: StatusCode_def errors_as_chain)

lemma IsPublic_chain:
  "IsPublic e = (case find_map is_publicer (chain e) of Some p \<Rightarrow> p | None \<Rightarrow> False)"
  by (simp add: IsPublic_def errors_as_chain)

lemma StatusCode_WithPublic [simp]: "StatusCode (WithPublic p e) = StatusCode e"
  by (simp add: StatusCode_chain)

lemma StatusCode_PkgWrap [simp]: "StatusCode (PkgWrap m e) = StatusCode e"
  by (simp add: StatusCode_chain)

lemma IsPublic_WithStatus [simp]: "IsPublic (WithStatus c e) = IsPublic e"
  by (simp add: IsPublic_chain)

lemma IsPublic_PkgWrap [simp]: "IsPublic (PkgWrap m e) = IsPublic e"
  by (simp add: IsPublic_chain)

lemma error_text_transparent [simp]:
  "error_text (Wrap c e) = error_text e" "error_text (WrapPublic e) = error_text e"
  "error_text (WrapPrivate e) = error_text e"
  by (simp_all add: Wrap_def WrapPublic_def WrapPrivate_def)

lemma chain_nonempty: "\<not> is_nil e \<Longrightarrow> chain e \<noteq> []"
  by (cases e) auto

lemma chain_hd: "\<not> is_nil e \<Longrightarrow> hd (chain e) = e"
  by (cases e) auto

lemma length_chain: "length (chain e) \<le> size e + 1"
  by (induction e) auto

lemmas chain_lookups = StatusCode_chain IsPublic_chain errors_as_chain

section \<open>Properties of the lookups\<close>

text \<open>
  \<open>StatusCode\<close> returns the code that \<open>Wrap\<close> attached, whatever the wrapped
  error is, also when that error carries a code of its own.
\<close>

theorem StatusCode_Wrap: "StatusCode (Wrap c e) = c"
  by (simp add: StatusCode_chain Wrap_def)

text \<open>
  Visibility is decided by the outermost visibility wrapper: \<open>IsPublic\<close> of an
  \<open>errorWithPublic\<close> is its own flag, independent of the visibility of what it wraps.
\<close>

theorem IsPublic_outer_wins: "IsPublic (WithPublic b e) = b"
  by (simp add: IsPublic_chain)

text \<open>
  An error whose whole unwrap chain carries no \<open>StatusCoder\<close> has status code 0,
  however deeply it is nested.
\<close>

theorem StatusCode_no_coder:
  "\<forall>x \<in> set (chain e). status_coder x = None \<Longrightarrow> StatusCode e = 0"
  by (simp add: StatusCode_chain find_map_None_iff [THEN iffD2])

theorem StatusCode_no_coder_witness:
  "StatusCode (PkgWrap ''while trying'' (WithPublic True (Errorf ''cannot frob the grob''))) = 0"
  by (rule StatusCode_no_coder) simp





end
