(* ===== verification/Render.thy ===== *)
theory Render
  imports Errors
begin

text \<open>
  Rendering an error as an HTTP response: \<open>httperr.Write\<close> (write.go) and the
  self-rendering \<open>TooManyRequests.WriteResponse\<close> (too_many_requests.go). Both are
  written as the list of response-writer operations they perform, computed before the
  writer is touched; \<open>Write\<close> runs that list on the writer. A panic while computing
  the list (a nil \<open>Error()\<close>) happens before anything is written, as in the source.
\<close>

section \<open>Time and the Retry-After delay\<close>

text \<open>
  Times are nanoseconds since the epoch (\<open>int\<close>); \<open>time.Duration\<close> is an int64
  of nanoseconds, and \<open>t.Sub(u)\<close> saturates at its bounds. Go's integer division
  truncates towards zero.
\<close>

definition int64_min :: int where "int64_min = - (2 ^ 63)"

definition int64_max :: int where "int64_max = 2 ^ 63 - 1"

definition time_sub :: "int \<Rightarrow> int \<Rightarrow> int" where
  "time_sub t u = max int64_min (min int64_max (t - u))"

definition go_div :: "int \<Rightarrow> int \<Rightarrow> int" where
  "go_div a b = sgn a * sgn b * (\<bar>a\<bar> div \<bar>b\<bar>)"

text \<open>
  \<open>d.Seconds()\<close> is \<open>float64(d / Second) + float64(d % Second) / 1e9\<close>, negative
  exactly when \<open>d\<close> is; the code clamps a negative value to 0 and truncates with
  \<open>int(..)\<close>. The float sum is taken exactly here (it is exact below 2^24 seconds).
\<close>

definition retry_after_secs :: "int \<Rightarrow> int" where
  "retry_after_secs d = (if d < 0 then 0 else go_div d 1000000000)"

section \<open>TooManyRequests.WriteResponse\<close>

definition tmr_write_response :: "int \<Rightarrow> int option \<Rightarrow> rw_op list" where
  "tmr_write_response now retry =
     (case retry of
        None \<Rightarrow> []
      | Some t \<Rightarrow> [HdrAdd ''Retry-After'' (itoa (retry_after_secs (time_sub t now)))])
     @ http_error (status_text 429) 429"

text \<open>The \<open>WriteResponse\<close> method of an error found by the \<open>ResponseWriter\<close> lookup.\<close>

fun write_response :: "int \<Rightarrow> goerr \<Rightarrow> rw_op list" where
  "write_response now (TooManyRequests r) = tmr_write_response now r"
| "write_response now (Custom m sc ip (Some ops)) = ops"
| "write_response now _ = []"

section \<open>httperr.Write\<close>

text \<open>
  Precedence of write.go: a \<open>ResponseWriter\<close> anywhere in the chain renders the whole
  response; otherwise the status is \<open>StatusCode(err)\<close>, 500 when that is 0; a public
  error adds its text (the \<open>pkg/errors\<close> root cause's text when there is one) as
  \<open>X-Error-Message\<close>; the body is the status text.
\<close>

definition write_ops :: "int \<Rightarrow> goerr \<Rightarrow> rw_op list go" where
  "write_ops now err =
     (case errors_as response_writer err of
        Some rwe \<Rightarrow> Inr (write_response now rwe)
      | None \<Rightarrow>
          (let sc = StatusCode err;
               code = (if sc = 0 then 500 else sc)
           in if IsPublic err then
                (case error_text err of
                   Inl p \<Rightarrow> Inl p
                 | Inr txt \<Rightarrow>
                     (let root = pkg_cause err
                      in case (if is_nil root then Inr txt else error_text root) of
                           Inl p \<Rightarrow> Inl p
                         | Inr txt' \<Rightarrow> Inr (HdrAdd ''X-Error-Message'' txt' # http_error (status_text code) code)))
              else Inr (http_error (status_text code) code)))"

definition Write :: "int \<Rightarrow> rw \<Rightarrow> goerr \<Rightarrow> rw go" where
  "Write now w err = (case write_ops now err of Inl p \<Rightarrow> Inl p | Inr ops \<Rightarrow> rw_run ops w)"

lemmas render_run [go_run] =
  int64_min_def int64_max_def time_sub_def go_div_def retry_after_secs_def
  tmr_write_response_def write_ops_def Write_def

section \<open>Properties of the Retry-After delay\<close>

lemma retry_after_secs_eq: "retry_after_secs d = (if d < 0 then 0 else d div 1000000000)"
  by (simp add: retry_after_secs_def go_div_def sgn_if)

lemma retry_after_secs_nonneg: "0 \<le> retry_after_secs d"
  by (simp add: retry_after_secs_eq pos_imp_zdiv_nonneg_iff)

section \<open>The branches of Write\<close>

lemma write_ops_private:
  "errors_as response_writer e = None \<Longrightarrow> \<not> IsPublic e \<Longrightarrow>
   write_ops now e = Inr (http_error (status_text (if StatusCode e = 0 then 500 else StatusCode e))
                                    (if StatusCode e = 0 then 500 else StatusCode e))"
  by (simp add: write_ops_def Let_def)

lemma write_ops_public:
  "errors_as response_writer e = None \<Longrightarrow> IsPublic e \<Longrightarrow> error_text e = Inr t0 \<Longrightarrow>
   error_text (pkg_cause e) = Inr t \<Longrightarrow>
   write_ops now e = Inr (HdrAdd ''X-Error-Message'' t #
      http_error (status_text (if StatusCode e = 0 then 500 else StatusCode e))
                 (if StatusCode e = 0 then 500 else StatusCode e))"
  by (cases "pkg_cause e") (auto simp: write_ops_def Let_def)

lemma errors_as_rw_tmr: "errors_as response_writer (TooManyRequests r) = Some (TooManyRequests r)"
  by (simp add: errors_as_chain)

lemma Write_public_eq:
  assumes "errors_as response_writer e = None" and "IsPublic e"
    and "StatusCode e = c" and "100 \<le> c" and "c \<le> 999"
    and "error_text e = Inr t0" and "error_text (pkg_cause e) = Inr t"
    and "rw_status w = None"
  shows "Write now w e =
           Inr (w\<lparr>rw_header := text_plain_header (header_add (rw_header w) ''X-Error-Message'' t),
                  rw_status := Some c,
                  rw_sent := text_plain_header (header_add (rw_header w) ''X-Error-Message'' t),
                  rw_body := rw_body w @ (if body_allowed c then status_text c @ LF else [])\<rparr>)"
proof -
  have c: "(if StatusCode e = 0 then 500 else StatusCode e) = c" using assms(3,4) by simp
  let ?w1 = "w\<lparr>rw_header := header_add (rw_header w) ''X-Error-Message'' t\<rparr>"
  have "Write now w e = rw_run (http_error (status_text c) c) ?w1"
    using assms(1,2,6,7) c by (simp add: Write_def write_ops_public)
  then show ?thesis using assms(4,5,8) by (simp add: rw_run_http_error)
qed

lemma sent_error_message:
  "h ''X-Error-Message'' = [] \<Longrightarrow>
   header_get (text_plain_header (header_add h ''X-Error-Message'' t)) ''X-Error-Message'' = t"
  by (simp add: text_plain_header_other header_get_def header_add_def)

lemma Write_cases:
  "Write now w e = Inr w' \<Longrightarrow> \<exists>ops. rw_run ops w = Inr w'"
  by (auto simp: Write_def split: sum.splits)

section \<open>Properties of Write\<close>

text \<open>
  C6. A private error with no self-rendering error in its chain is rendered with its
  status code (500 when it has none) and the standard reason phrase as the plain-text
  body; its message is never written, and no \<open>X-Error-Message\<close> header is added.
\<close>

theorem Write_private:
  assumes "errors_as response_writer e = None" and "\<not> IsPublic e"
    and "StatusCode e = 0 \<and> c = 500 \<or> StatusCode e = c \<and> 100 \<le> c \<and> c \<le> 999"
    and "rw_status w = None"
  shows "Write now w e =
           Inr (w\<lparr>rw_header := text_plain_header (rw_header w), rw_status := Some c,
                  rw_sent := text_plain_header (rw_header w),
                  rw_body := rw_body w @ (if body_allowed c then status_text c @ LF else [])\<rparr>)"
  using assms by (auto simp: Write_def write_ops_private rw_run_http_error)

theorem Write_private_witness:
  "rw_status (projr (Write 0 rw_init (Wrap 418 (Errorf ''cannot frob the grob'')))) = Some 418 \<and>
   rw_body (projr (Write 0 rw_init (Wrap 418 (Errorf ''cannot frob the grob'')))) =
     ''I'' @ [CHR 0x27] @ ''m a teapot'' @ LF \<and>
   header_get (rw_sent (projr (Write 0 rw_init (Wrap 418 (Errorf ''cannot frob the grob''))))) ''X-Error-Message'' = []"
proof -
  have "Write 0 rw_init (Wrap 418 (Errorf ''cannot frob the grob'')) =
          Inr (rw_init\<lparr>rw_header := text_plain_header (rw_header rw_init), rw_status := Some 418,
                  rw_sent := text_plain_header (rw_header rw_init),
                  rw_body := rw_body rw_init @ (if body_allowed 418 then status_text 418 @ LF else [])\<rparr>)"
    by (rule Write_private) (simp_all add: chain_lookups Wrap_def rw_init_def)
  then show ?thesis
    by (simp add: rw_init_def body_allowed_def status_text_run text_plain_header_def header_get_def header_set_def)
qed

text \<open>
  C7. A public error is rendered with its status code, the reason phrase as body, and
  its text (that of its \<open>pkg/errors\<close> root cause) in the \<open>X-Error-Message\<close> header.
\<close>

theorem Write_public:
  assumes "errors_as response_writer e = None" and "IsPublic e"
    and "StatusCode e = c" and "100 \<le> c" and "c \<le> 999"
    and "error_text e = Inr t0" and "error_text (pkg_cause e) = Inr t"
    and "rw_status w = None" and "rw_header w ''X-Error-Message'' = []"
  shows "\<exists>w'. Write now w e = Inr w' \<and> rw_status w' = Some c \<and>
              header_get (rw_sent w') ''X-Error-Message'' = t \<and>
              rw_body w' = rw_body w @ (if body_allowed c then status_text c @ LF else [])"
  using Write_public_eq [OF assms(1-8)] sent_error_message [of "rw_header w", OF assms(9)] by simp

theorem Write_public_witness:
  "\<exists>w'. Write 0 rw_init (WrapPublic (Wrap 418 (Errorf ''cannot frob the grob''))) = Inr w' \<and>
      rw_status w' = Some 418 \<and>
      header_get (rw_sent w') ''X-Error-Message'' = ''cannot frob the grob'' \<and>
      rw_body w' = rw_body rw_init @ (if body_allowed 418 then status_text 418 @ LF else [])"
  by (rule Write_public [where t0 = "''cannot frob the grob''"])
     (simp_all add: chain_lookups error_ctor_defs rw_init_def)

text \<open>
  C8. An error that renders itself anywhere in the chain takes precedence: \<open>Write\<close>
  performs exactly its \<open>WriteResponse\<close>, whatever status or visibility the chain has.
\<close>

theorem Write_self_render:
  "errors_as response_writer e = Some r \<Longrightarrow> Write now w e = rw_run (write_response now r) w"
  by (simp add: Write_def write_ops_def)

theorem Write_self_render_witness:
  "Write 0 rw_init (Wrap 500 (PkgWrap ''foo'' (Custom ''foo'' None None (Some [WriteHeader 999, WriteBody (''Hello, world!'' @ LF)])))) =
   Inr (rw_init\<lparr>rw_status := Some 999, rw_body := ''Hello, world!'' @ LF\<rparr>)"
proof -
  have "Write 0 rw_init (Wrap 500 (PkgWrap ''foo'' (Custom ''foo'' None None (Some [WriteHeader 999, WriteBody (''Hello, world!'' @ LF)])))) =
        rw_run (write_response 0 (Custom ''foo'' None None (Some [WriteHeader 999, WriteBody (''Hello, world!'' @ LF)]))) rw_init"
    by (rule Write_self_render) (simp add: errors_as_chain Wrap_def)
  then show ?thesis by (simp add: rw_init_def write_header_def body_allowed_def)
qed

text \<open>
  C19. Contrary to the spec's ``total over all error values'', \<open>Write\<close> panics for an
  error whose status code is neither 0 nor in 100..999: \<open>http.Error\<close> passes the code
  to \<open>WriteHeader\<close>, which rejects it.
\<close>

theorem Write_invalid_status:
  assumes "errors_as response_writer e = None" and "\<not> IsPublic e"
    and "StatusCode e \<noteq> 0" and "StatusCode e < 100 \<or> 999 < StatusCode e"
    and "rw_status w = None"
  shows "Write now w e = Inl ''invalid WriteHeader code''"
  using assms by (simp add: Write_def write_ops_private rw_run_http_error_invalid)

theorem Write_invalid_status_witness:
  "Write 0 rw_init (Wrap 42 (Errorf ''cannot frob the grob'')) = Inl ''invalid WriteHeader code''"
  by (rule Write_invalid_status) (simp_all add: chain_lookups Wrap_def rw_init_def)









text \<open>
  C22. The \<open>Retry-After\<close> value is a decimal numeral that reads back as the delay:
  \<open>strconv.Itoa\<close> of the clamped delay round-trips through a decimal reader.
\<close>

theorem retry_after_roundtrip:
  "parse_dec (itoa (retry_after_secs d)) = Some (nat (retry_after_secs d))"
  using retry_after_secs_nonneg [of d]
  by (simp add: parse_dec_def itoa_def dec_digits_nonempty dec_digits_digits dec_value_dec_digits)


end
