(* ===== verification/Report.thy ===== *)
theory Report
  imports Render "HOL-Library.While_Combinator"
begin

text \<open>
  Reporting an error for a request (handler.go, translate.go, test.go): the
  process-wide translator list with \<open>RegisterErrorTranslator\<close> and
  \<open>TranslateError\<close>, the request context with the \<open>OnError\<close> callback,
  \<open>ReportError\<close>, and \<open>HandlerFunc.ServeHTTP\<close>, the adapter every JSON handler runs
  through. The outcome of serving a request is the response writer together with the
  calls made to \<open>OnError\<close> callbacks.
\<close>

section \<open>Package state: the translator list\<close>

text \<open>
  \<open>errorTranslators\<close>, the only mutable package variable, and the current time
  that \<open>httperr.Now()\<close> returns while a request is served.
\<close>

record httperr_state =
  error_translators :: "(goerr \<Rightarrow> goerr) list"
  now_time :: int

definition RegisterErrorTranslator :: "(goerr \<Rightarrow> goerr) \<Rightarrow> httperr_state \<Rightarrow> httperr_state" where
  "RegisterErrorTranslator f st = st\<lparr>error_translators := f # error_translators st\<rparr>"

definition TranslateError :: "httperr_state \<Rightarrow> goerr \<Rightarrow> goerr" where
  "TranslateError st err = fold (\<lambda>t e. t e) (error_translators st) err"

section \<open>Requests and their context\<close>

text \<open>
  A \<open>context.Context\<close> built by \<open>context.WithValue\<close> is the list of its
  key/value pairs, newest first; \<open>Value(k)\<close> returns the newest binding of \<open>k\<close>.
  Keys are the package's \<open>onErrorIndex\<close> and goji's \<open>pattern.Variable\<close>. A
  callback \<open>func(error)\<close> is named by a number; calling it is recorded in the outcome.
\<close>

datatype ctx_key = OnErrorIndex | PatternVar string

datatype ctx_val = OnErrorFunc nat | StrVal string

type_synonym go_ctx = "(ctx_key \<times> ctx_val) list"

definition ctx_value :: "go_ctx \<Rightarrow> ctx_key \<Rightarrow> ctx_val option" where
  "ctx_value c k = map_of c k"

record request =
  req_method :: string
  req_url :: string
  req_header :: header
  req_body :: string
  req_ctx :: go_ctx

definition OnError :: "request \<Rightarrow> nat \<Rightarrow> request" where
  "OnError r f = r\<lparr>req_ctx := (OnErrorIndex, OnErrorFunc f) # req_ctx r\<rparr>"

record served =
  srv_rw :: rw
  srv_reports :: "(nat \<times> goerr) list"

section \<open>ReportError and HandlerFunc\<close>

definition ReportError :: "httperr_state \<Rightarrow> request \<Rightarrow> goerr \<Rightarrow> served \<Rightarrow> served go" where
  "ReportError st r err s =
     (let err' = TranslateError st err
      in case ctx_value (req_ctx r) OnErrorIndex of
           Some (OnErrorFunc f) \<Rightarrow> Inr (s\<lparr>srv_reports := srv_reports s @ [(f, err')]\<rparr>)
         | Some (StrVal v) \<Rightarrow> Inl ''interface conversion: interface {} is string, not func(error)''
         | None \<Rightarrow>
             (case Write (now_time st) (srv_rw s) err' of
                Inl p \<Rightarrow> Inl p
              | Inr w \<Rightarrow> Inr (s\<lparr>srv_rw := w\<rparr>)))"

text \<open>A \<open>HandlerFunc\<close>: it may write the response and returns an error (\<open>Nil\<close> for nil).\<close>

type_synonym handler_func = "request \<Rightarrow> served \<Rightarrow> (served \<times> goerr) go"

definition serve_handler_func :: "httperr_state \<Rightarrow> handler_func \<Rightarrow> request \<Rightarrow> served \<Rightarrow> served go" where
  "serve_handler_func st f r s =
     (case f r s of
        Inl p \<Rightarrow> Inl p
      | Inr (s', err) \<Rightarrow> if is_nil err then Inr s' else ReportError st r err s')"

section \<open>TestRequest\<close>

text \<open>
  \<open>TestRequest(ctx, vars...)\<close>: a request with method \<open>DONTCARE\<close>, no body, and the
  goji pattern variables bound in the given context, pair by pair; an odd number of
  strings panics.
\<close>

text \<open>
  The loop \<open>for i := 0; i < len(vars); i += 2\<close> over the state \<open>(ctx, i)\<close>; its body
  indexes \<open>vars[i]\<close> and \<open>vars[i+1]\<close>, which panics out of range, and a panic ends the
  loop.
\<close>

definition test_vars_cond :: "string list \<Rightarrow> (go_ctx \<times> nat) go \<Rightarrow> bool" where
  "test_vars_cond vars s = (case s of Inr (c, i) \<Rightarrow> i < length vars | Inl p \<Rightarrow> False)"

definition test_vars_body :: "string list \<Rightarrow> (go_ctx \<times> nat) go \<Rightarrow> (go_ctx \<times> nat) go" where
  "test_vars_body vars s =
     (case s of
        Inr (c, i) \<Rightarrow>
          go_bind (go_index vars i) (\<lambda>k.
            go_bind (go_index vars (i + 1)) (\<lambda>v. Inr ((PatternVar k, StrVal v) # c, i + 2)))
      | Inl p \<Rightarrow> Inl p)"

definition TestRequest :: "go_ctx \<Rightarrow> string list \<Rightarrow> request go" where
  "TestRequest c vars =
     (if odd (length vars) then Inl ''usage: TestRequest(ctx, [var, value]...''
      else go_bind (while (test_vars_cond vars) (test_vars_body vars) (Inr (c, 0))) (\<lambda>(c', i).
             Inr \<lparr>req_method = ''DONTCARE'', req_url = ''dont://care'', req_header = empty_header,
                  req_body = [], req_ctx = c'\<rparr>))"

text \<open>What the loop computes: each pair bound in turn, the last pair outermost.\<close>

fun with_vars :: "go_ctx \<Rightarrow> string list \<Rightarrow> go_ctx" where
  "with_vars c (k # v # rest) = with_vars ((PatternVar k, StrVal v) # c) rest"
| "with_vars c _ = c"

text \<open>The name/value pairs of a variable list, in the order given.\<close>

fun var_pairs :: "string list \<Rightarrow> (string \<times> string) list" where
  "var_pairs (k # v # rest) = (k, v) # var_pairs rest"
| "var_pairs _ = []"

lemmas report_run [go_run] =
  RegisterErrorTranslator_def TranslateError_def ctx_value_def OnError_def ReportError_def
  serve_handler_func_def TestRequest_def test_vars_cond_def test_vars_body_def

section \<open>Lemmas\<close>

lemma TranslateError_Register:
  "TranslateError (RegisterErrorTranslator f st) e = TranslateError st (f e)"
  by (simp add: TranslateError_def RegisterErrorTranslator_def)

lemma TranslateError_none: "error_translators st = [] \<Longrightarrow> TranslateError st e = e"
  by (simp add: TranslateError_def)

lemma ctx_value_OnError: "ctx_value (req_ctx (OnError r f)) OnErrorIndex = Some (OnErrorFunc f)"
  by (simp add: ctx_value_def OnError_def)

lemma ReportError_callback:
  "ctx_value (req_ctx r) OnErrorIndex = Some (OnErrorFunc f) \<Longrightarrow>
   ReportError st r e s = Inr (s\<lparr>srv_reports := srv_reports s @ [(f, TranslateError st e)]\<rparr>)"
  by (simp add: ReportError_def)

lemma ReportError_write:
  "ctx_value (req_ctx r) OnErrorIndex = None \<Longrightarrow>
   ReportError st r e s =
     (case Write (now_time st) (srv_rw s) (TranslateError st e) of
        Inl p \<Rightarrow> Inl p | Inr w \<Rightarrow> Inr (s\<lparr>srv_rw := w\<rparr>))"
  by (simp add: ReportError_def)

lemma with_vars_value:
  "even (length vars) \<Longrightarrow> ctx_value (with_vars c vars) OnErrorIndex = ctx_value c OnErrorIndex"
  by (induction c vars rule: with_vars.induct) (auto simp: ctx_value_def)

lemma with_vars_lookup:
  "ctx_value (with_vars c vars) (PatternVar k) =
     (case map_of (rev (var_pairs vars)) k of
        Some v \<Rightarrow> Some (StrVal v) | None \<Rightarrow> ctx_value c (PatternVar k))"
  by (induction c vars rule: with_vars.induct) (auto simp: ctx_value_def split: option.splits)

lemma test_vars_step:
  assumes "i < length vars" and "even (length vars - i)"
  shows "Suc i < length vars"
    and "test_vars_body vars (Inr (c, i)) =
           Inr ((PatternVar (vars ! i), StrVal (vars ! Suc i)) # c, Suc (Suc i))"
    and "drop i vars = vars ! i # vars ! Suc i # drop (Suc (Suc i)) vars"
proof -
  show i1: "Suc i < length vars" using assms by presburger
  show "test_vars_body vars (Inr (c, i)) =
          Inr ((PatternVar (vars ! i), StrVal (vars ! Suc i)) # c, Suc (Suc i))"
    using assms(1) i1 by (simp add: test_vars_body_def)
  show "drop i vars = vars ! i # vars ! Suc i # drop (Suc (Suc i)) vars"
    using assms(1) i1 by (simp add: Cons_nth_drop_Suc)
qed

text \<open>The loop of \<open>TestRequest\<close> computes \<^const>\<open>with_vars\<close> from any even position on.\<close>

lemma test_vars_loop:
  "i \<le> length vars \<Longrightarrow> even (length vars - i) \<Longrightarrow>
   while_option (test_vars_cond vars) (test_vars_body vars) (Inr (c, i)) =
     Some (Inr (with_vars c (drop i vars), length vars))"
proof (induction "length vars - i" arbitrary: c i rule: less_induct)
  case less
  show ?case
  proof (cases "i < length vars")
    case False
    with less.prems have "i = length vars" by simp
    then show ?thesis by (subst while_option_unfold) (simp add: test_vars_cond_def)
  next
    case True
    note st = test_vars_step [OF True less.prems(2)]
    have "while_option (test_vars_cond vars) (test_vars_body vars) (Inr (c, i)) =
          while_option (test_vars_cond vars) (test_vars_body vars)
            (Inr ((PatternVar (vars ! i), StrVal (vars ! Suc i)) # c, Suc (Suc i)))"
      by (subst while_option_unfold) (simp add: test_vars_cond_def True st(2))
    also have "\<dots> = Some (Inr (with_vars ((PatternVar (vars ! i), StrVal (vars ! Suc i)) # c)
                         (drop (Suc (Suc i)) vars), length vars))"
      using st(1) less.prems(2) by (intro less.hyps) presburger+
    finally show ?thesis by (simp add: st(3))
  qed
qed

lemma TestRequest_even:
  "even (length vars) \<Longrightarrow>
   TestRequest c vars =
     Inr \<lparr>req_method = ''DONTCARE'', req_url = ''dont://care'', req_header = empty_header,
          req_body = [], req_ctx = with_vars c vars\<rparr>"
  using test_vars_loop [of 0 vars c] by (simp add: TestRequest_def while_def)

section \<open>Properties of reporting\<close>

text \<open>
  C9. Translators run in reverse registration order: after registering \<open>t1\<close> and then
  \<open>t2\<close> on an empty list, an error is translated by \<open>t2\<close> first and \<open>t1\<close> second.
\<close>

theorem translate_order:
  "error_translators st = [] \<Longrightarrow>
   TranslateError (RegisterErrorTranslator t2 (RegisterErrorTranslator t1 st)) e = t1 (t2 e)"
  by (simp add: TranslateError_Register TranslateError_none)

theorem translate_order_witness:
  "TranslateError (RegisterErrorTranslator WrapPublic (RegisterErrorTranslator (Wrap 401)
      \<lparr>error_translators = [], now_time = 0\<rparr>)) (Errorf ''denied'') =
   Wrap 401 (WrapPublic (Errorf ''denied''))"
  by (rule translate_order) simp

text \<open>
  When the request carries \<open>OnError\<close> callbacks, \<open>ReportError\<close> hands the
  translated error to the most recently attached one and writes nothing.
\<close>

theorem report_to_newest_callback:
  "ReportError st (OnError (OnError r g) f) e s =
     Inr (s\<lparr>srv_reports := srv_reports s @ [(f, TranslateError st e)]\<rparr>)"
  by (simp add: ReportError_callback ctx_value_OnError)

text \<open>
  A \<open>HandlerFunc\<close> that returns a nil error is served as it wrote its
  response: nothing is reported or written after it.
\<close>

theorem serve_nil_no_report:
  "f r s = Inr (s', Nil) \<Longrightarrow> serve_handler_func st f r s = Inr s'"
  by (simp add: serve_handler_func_def)

theorem serve_nil_no_report_witness:
  "serve_handler_func \<lparr>error_translators = [], now_time = 0\<rparr> (\<lambda>r s. Inr (s, Nil))
     \<lparr>req_method = ''GET'', req_url = ''/'', req_header = empty_header, req_body = [], req_ctx = []\<rparr>
     \<lparr>srv_rw = rw_init, srv_reports = []\<rparr> = Inr \<lparr>srv_rw = rw_init, srv_reports = []\<rparr>"
  by (rule serve_nil_no_report) simp

text \<open>
  C24. The variable loop of \<open>TestRequest\<close> terminates on every argument list, of
  odd length too: each round either advances \<open>i\<close> by two or panics, which ends it.
\<close>

theorem TestRequest_loop_terminates:
  "\<exists>r. while_option (test_vars_cond vars) (test_vars_body vars) (Inr (c, 0)) = Some r"
proof (rule measure_while_option_Some [where P = "\<lambda>_. True"
          and f = "\<lambda>s. case s of Inr (c, i) \<Rightarrow> length vars - i | Inl p \<Rightarrow> 0"])
  fix s :: "(go_ctx \<times> nat) go"
  assume "test_vars_cond vars s"
  then obtain c' i where s: "s = Inr (c', i)" and i: "i < length vars"
    by (auto simp: test_vars_cond_def split: sum.splits)
  show "True \<and> (case test_vars_body vars s of Inr (c, i) \<Rightarrow> length vars - i | Inl p \<Rightarrow> 0)
              < (case s of Inr (c, i) \<Rightarrow> length vars - i | Inl p \<Rightarrow> 0)"
    using i by (cases "Suc i < length vars") (auto simp: s test_vars_body_def)
qed simp

text \<open>
  C28. A request built by \<open>TestRequest\<close> binds each goji variable to the last value
  given for it, falls back to the context passed in for the others, and has no body.
\<close>

theorem TestRequest_vars:
  assumes "TestRequest c vars = Inr r"
  shows "ctx_value (req_ctx r) (PatternVar k) =
     (case map_of (rev (var_pairs vars)) k of
        Some v \<Rightarrow> Some (StrVal v) | None \<Rightarrow> ctx_value c (PatternVar k)) \<and>
   req_body r = []"
proof -
  have "even (length vars)" using assms by (auto simp: TestRequest_def split: if_splits)
  with assms show ?thesis by (auto simp: TestRequest_even with_vars_lookup)
qed

theorem TestRequest_vars_witness:
  "ctx_value (req_ctx (projr (TestRequest [] [''id'', ''1'', ''name'', ''x'', ''id'', ''2'']))) (PatternVar ''id'') =
     Some (StrVal ''2'')"
proof -
  have r: "TestRequest [] [''id'', ''1'', ''name'', ''x'', ''id'', ''2''] =
           Inr (projr (TestRequest [] [''id'', ''1'', ''name'', ''x'', ''id'', ''2'']))"
    by (simp add: TestRequest_even)
  show ?thesis using TestRequest_vars [OF r, of "''id''"] by simp
qed

end
