(* ===== verification/Headers.thy ===== *)
theory Headers
  imports Report
begin

text \<open>
  Splitting an \<open>Authorization\<close>-style header value (src/headers.go):
  \<open>SplitHeaderOnSpace\<close> and \<open>SplitAuthorizationHeader\<close>, over models of the
  standard library's \<open>strings.Fields\<close>, \<open>strings.Index\<close>, \<open>strings.ToLower\<close> and
  string slicing.
\<close>

section \<open>The strings package\<close>

text \<open>
  \<open>asciiSpace\<close> of the strings package. \<open>strings.Fields\<close> splits on it for ASCII
  input; for other input it splits on \<open>unicode.IsSpace\<close>, which adds the multi-byte
  encodings of U+0085, U+00A0 and the Unicode space separators. The model treats every
  byte outside ASCII as a non-space, which is exact for values without those encodings.
\<close>

definition is_ascii_space :: "char \<Rightarrow> bool" where
  "is_ascii_space c \<longleftrightarrow> c \<in> set [CHR '' '', CHR 0x09, CHR 0x0A, CHR 0x0B, CHR 0x0C, CHR 0x0D]"

function go_fields :: "string \<Rightarrow> string list" where
  "go_fields s =
     (let s' = dropWhile is_ascii_space s
      in if s' = [] then []
         else takeWhile (\<lambda>c. \<not> is_ascii_space c) s' # go_fields (dropWhile (\<lambda>c. \<not> is_ascii_space c) s'))"
  by pat_completeness auto
termination
proof (relation "measure length")
  fix s s' :: string
  assume s': "s' = dropWhile is_ascii_space s" and ne: "s' \<noteq> []"
  have "length (dropWhile (\<lambda>c. \<not> is_ascii_space c) s') < length s'"
  proof (cases s')
    case (Cons c cs)
    from ne s' have "\<not> is_ascii_space (hd s')" by (metis hd_dropWhile)
    with Cons show ?thesis by (simp add: le_imp_less_Suc length_dropWhile_le)
  qed (use ne in simp)
  moreover have "length s' \<le> length s" using s' by (simp add: length_dropWhile_le)
  ultimately show "(dropWhile (\<lambda>c. \<not> is_ascii_space c) s', s) \<in> measure length" by simp
qed simp

declare go_fields.simps [simp del]

text \<open>\<open>strings.Index(s, sub)\<close>: the first position where \<open>sub\<close> occurs, or -1.\<close>

definition str_index :: "string \<Rightarrow> string \<Rightarrow> int" where
  "str_index s sub =
     (case find (\<lambda>i. take (length sub) (drop i s) = sub) [0..<Suc (length s - length sub)] of
        Some i \<Rightarrow> (if length sub \<le> length s then int i else -1)
      | None \<Rightarrow> -1)"

text \<open>\<open>s[i:]\<close>, which panics unless \<open>0 \<le> i \<le> len(s)\<close>.\<close>

definition go_slice_from :: "string \<Rightarrow> int \<Rightarrow> string go" where
  "go_slice_from s i =
     (if i < 0 \<or> int (length s) < i then Inl ''runtime error: slice bounds out of range''
      else Inr (drop (nat i) s))"

text \<open>\<open>strings.ToLower\<close>, on its ASCII path; letters outside ASCII are kept.\<close>

definition go_to_lower :: "string \<Rightarrow> string" where
  "go_to_lower s = map ascii_lower s"

section \<open>headers.go\<close>

abbreviation sp :: "char \<Rightarrow> bool" where "sp \<equiv> is_ascii_space"

definition SplitHeaderOnSpace :: "string \<Rightarrow> (string \<times> string) go" where
  "SplitHeaderOnSpace h =
     (let fields = go_fields h in
      if length fields = 2 then Inr (fields ! 0, fields ! 1)
      else if length fields > 2 then
        (let prefixEnd = int (length (fields ! 0)) in
         go_bind (go_slice_from h prefixEnd) (\<lambda>rest.
           let valueOffset = str_index rest (fields ! 1) in
           go_bind (go_slice_from h (prefixEnd + valueOffset)) (\<lambda>v. Inr (fields ! 0, v))))
      else Inr ([], h))"

definition SplitAuthorizationHeader :: "request \<Rightarrow> (string \<times> string) go" where
  "SplitAuthorizationHeader r =
     go_bind (SplitHeaderOnSpace (header_get (req_header r) ''Authorization''))
       (\<lambda>(kind, value). Inr (go_to_lower kind, value))"

text \<open>
  The documented reading of headers.go's comment, used as the reference: the prefix is
  the first word, the value everything after the whitespace that follows it.
\<close>

definition split_header_ref :: "string \<Rightarrow> string \<times> string" where
  "split_header_ref h =
     (let p = takeWhile (\<lambda>c. \<not> sp c) h;
          v = dropWhile sp (dropWhile (\<lambda>c. \<not> sp c) h)
      in if p = [] \<or> v = [] then ([], h) else (p, v))"

lemmas headers_run [go_run] =
  is_ascii_space_def str_index_def go_slice_from_def go_to_lower_def
  SplitHeaderOnSpace_def SplitAuthorizationHeader_def

section \<open>Lemmas on fields, index and slices\<close>

lemma go_fields_unfold:
  "go_fields s =
     (if dropWhile sp s = [] then []
      else takeWhile (\<lambda>c. \<not> sp c) (dropWhile sp s) # go_fields (dropWhile (\<lambda>c. \<not> sp c) (dropWhile sp s)))"
  by (rule trans [OF go_fields.simps]) (simp add: Let_def)

lemma go_fields_ConsD:
  assumes "go_fields s = f # fs"
  shows "\<exists>lead rest. s = lead @ f @ rest \<and> (\<forall>c \<in> set lead. sp c) \<and> f \<noteq> [] \<and>
           (\<forall>c \<in> set f. \<not> sp c) \<and> go_fields rest = fs \<and> (rest \<noteq> [] \<longrightarrow> sp (hd rest))"
proof -
  let ?s' = "dropWhile sp s"
  let ?rest = "dropWhile (\<lambda>c. \<not> sp c) ?s'"
  have ne: "?s' \<noteq> []"
  proof
    assume "?s' = []"
    then have "go_fields s = []" by (subst go_fields_unfold) (simp only: simp_thms if_True)
    with assms show False by simp
  qed
  have "go_fields s = takeWhile (\<lambda>c. \<not> sp c) ?s' # go_fields ?rest"
    by (subst go_fields_unfold) (simp only: if_not_P [OF ne])
  with assms have f: "f = takeWhile (\<lambda>c. \<not> sp c) ?s'" and fs: "fs = go_fields ?rest"
    by simp_all
  have hd: "\<not> sp (hd ?s')" using ne by (rule hd_dropWhile)
  have 1: "s = takeWhile sp s @ f @ ?rest" by (simp add: f)
  have 2: "\<forall>c \<in> set (takeWhile sp s). sp c" by (auto dest: set_takeWhileD)
  have 3: "f \<noteq> []" using ne hd by (cases ?s') (simp_all add: f)
  have 4: "\<forall>c \<in> set f. \<not> sp c" unfolding f by (auto dest: set_takeWhileD)
  have 5: "?rest \<noteq> [] \<longrightarrow> sp (hd ?rest)" using hd_dropWhile [of "\<lambda>c. \<not> sp c" ?s'] by simp
  show ?thesis using 1 2 3 4 5 fs by blast
qed

lemma go_fields_Nil_iff: "go_fields s = [] \<longleftrightarrow> (\<forall>c \<in> set s. sp c)"
  by (subst go_fields_unfold) (auto simp: dropWhile_eq_Nil_conv)

lemma go_fields_empty [simp]: "go_fields [] = []"
  by (simp add: go_fields_Nil_iff)

lemma word_split:
  "\<forall>c \<in> set p. \<not> sp c \<Longrightarrow> (rest \<noteq> [] \<longrightarrow> sp (hd rest)) \<Longrightarrow>
   takeWhile (\<lambda>c. \<not> sp c) (p @ rest) = p \<and> dropWhile (\<lambda>c. \<not> sp c) (p @ rest) = rest"
  by (cases rest) (auto simp: takeWhile_append2 dropWhile_append)

lemma go_fields_word:
  assumes "\<forall>c \<in> set lead. sp c" and "p \<noteq> []" and "\<forall>c \<in> set p. \<not> sp c"
    and "rest \<noteq> [] \<longrightarrow> sp (hd rest)"
  shows "go_fields (lead @ p @ rest) = p # go_fields rest"
proof -
  have d: "dropWhile sp (lead @ p @ rest) = p @ rest"
    using assms(1-3) by (cases p) (auto simp: dropWhile_append)
  have t: "takeWhile (\<lambda>c. \<not> sp c) (p @ rest) = p" and r: "dropWhile (\<lambda>c. \<not> sp c) (p @ rest) = rest"
    using word_split [OF assms(3,4)] by simp_all
  have "dropWhile sp (lead @ p @ rest) \<noteq> []" using assms(2) by (simp add: d)
  then show ?thesis
    by (subst go_fields_unfold) (simp only: if_not_P if_False d t r)
qed

lemma find_upt_first:
  "k < n \<Longrightarrow> P k \<Longrightarrow> (\<forall>i < k. \<not> P i) \<Longrightarrow> find P [0..<n] = Some k"
  by (auto simp: find_Some_iff intro!: exI [of _ k])

lemma str_index_first:
  assumes "s = a @ sub @ b" and "\<forall>i < length a. take (length sub) (drop i s) \<noteq> sub"
  shows "str_index s sub = int (length a)"
proof -
  have "find (\<lambda>i. take (length sub) (drop i s) = sub) [0..<Suc (length s - length sub)] = Some (length a)"
    using assms by (intro find_upt_first) simp_all
  then show ?thesis using assms(1) by (simp add: str_index_def)
qed

lemma str_index_found:
  assumes "take (length sub) (drop k s) = sub" and "k + length sub \<le> length s"
  shows "\<exists>i. str_index s sub = int i \<and> i + length sub \<le> length s"
proof -
  let ?P = "\<lambda>i. take (length sub) (drop i s) = sub"
  have "k < Suc (length s - length sub)" using assms(2) by linarith
  then have "k \<in> set [0..<Suc (length s - length sub)]" by (simp del: upt_Suc)
  with assms(1) obtain i where i: "find ?P [0..<Suc (length s - length sub)] = Some i"
    by (metis (mono_tags, lifting) find_None_iff not_None_eq)
  then have "i \<in> set [0..<Suc (length s - length sub)]" by (auto simp: find_Some_iff simp del: upt_Suc)
  with i assms(2) show ?thesis by (auto simp: str_index_def simp del: upt_Suc)
qed

lemma go_fields_two:
  assumes "go_fields h = f0 # f1 # fs"
  shows "\<exists>lead sep rest. h = lead @ f0 @ sep @ f1 @ rest \<and> (\<forall>c \<in> set lead. sp c) \<and>
           sep \<noteq> [] \<and> (\<forall>c \<in> set sep. sp c) \<and> f1 \<noteq> [] \<and> (\<forall>c \<in> set f1. \<not> sp c)"
proof -
  obtain lead rest1 where h: "h = lead @ f0 @ rest1" and lead: "\<forall>c \<in> set lead. sp c"
    and r1: "go_fields rest1 = f1 # fs" and hd1: "rest1 \<noteq> [] \<longrightarrow> sp (hd rest1)"
    using go_fields_ConsD [OF assms] by blast
  obtain sep rest where r: "rest1 = sep @ f1 @ rest" and sep: "\<forall>c \<in> set sep. sp c"
    and f1: "f1 \<noteq> []" "\<forall>c \<in> set f1. \<not> sp c"
    using go_fields_ConsD [OF r1] by blast
  have "sep \<noteq> []"
  proof
    assume "sep = []"
    with r f1 hd1 show False by (cases f1) auto
  qed
  with h r lead sep f1 show ?thesis by blast
qed

lemma split_offset:
  assumes "go_fields h = f0 # f1 # fs"
  shows "\<exists>i. str_index (drop (length f0) h) f1 = int i \<and> length f0 + i \<le> length h"
proof -
  obtain lead sep rest where h: "h = lead @ f0 @ sep @ f1 @ rest"
    using go_fields_two [OF assms] by blast
  let ?k = "length lead + length sep"
  have "drop ?k (drop (length f0) h) = f1 @ rest"
    by (simp add: h add.commute add.left_commute)
  then have "take (length f1) (drop ?k (drop (length f0) h)) = f1" by simp
  moreover have "?k + length f1 \<le> length (drop (length f0) h)" by (simp add: h)
  ultimately obtain i where "str_index (drop (length f0) h) f1 = int i"
      and "i + length f1 \<le> length (drop (length f0) h)"
    using str_index_found by blast
  moreover have "length f0 \<le> length h" by (simp add: h)
  ultimately show ?thesis by auto
qed

lemma SplitHeaderOnSpace_many:
  "go_fields h = f0 # f1 # f2 # fs \<Longrightarrow> str_index (drop (length f0) h) f1 = int i \<Longrightarrow>
   length f0 + i \<le> length h \<Longrightarrow> SplitHeaderOnSpace h = Inr (f0, drop (length f0 + i) h)"
  by (simp add: SplitHeaderOnSpace_def go_slice_from_def Let_def nat_add_distrib)

lemma SplitHeaderOnSpace_many_value:
  assumes "go_fields h = f0 # f1 # f2 # fs" and "h \<noteq> []" and "\<not> sp (hd h)"
  shows "SplitHeaderOnSpace h = Inr (f0, dropWhile sp (drop (length f0) h))"
proof -
  obtain lead sep rest where h: "h = lead @ f0 @ sep @ f1 @ rest" and lead: "\<forall>c \<in> set lead. sp c"
    and sep: "sep \<noteq> []" "\<forall>c \<in> set sep. sp c" and f1: "f1 \<noteq> []" "\<forall>c \<in> set f1. \<not> sp c"
    using go_fields_two [OF assms(1)] by blast
  have f0: "f0 \<noteq> []" using go_fields_ConsD [OF assms(1)] by blast
  have "lead = []"
  proof (rule ccontr)
    assume "lead \<noteq> []"
    with h lead assms(3) show False by (cases lead) auto
  qed
  then have d: "drop (length f0) h = sep @ f1 @ rest" by (simp add: h)
  have "\<forall>i < length sep. take (length f1) (drop i (drop (length f0) h)) \<noteq> f1"
  proof (intro allI impI)
    fix i assume i: "i < length sep"
    then have "drop i sep = sep ! i # drop (Suc i) sep" by (simp add: Cons_nth_drop_Suc)
    moreover have "sp (sep ! i)" using i sep(2) by simp
    ultimately show "take (length f1) (drop i (drop (length f0) h)) \<noteq> f1"
      using f1 by (cases f1) (auto simp: d)
  qed
  then have "str_index (drop (length f0) h) f1 = int (length sep)"
    by (intro str_index_first [where b = rest]) (simp add: d)
  moreover have "dropWhile sp (drop (length f0) h) = f1 @ rest"
    using sep(2) f1 by (cases f1) (auto simp: d dropWhile_append)
  moreover have "drop (length f0 + length sep) h = f1 @ rest" by (simp add: \<open>lead = []\<close> h)
  ultimately show ?thesis
    using SplitHeaderOnSpace_many [OF assms(1)] by (simp add: \<open>lead = []\<close> h)
qed

lemma dropWhile_sp_word:
  "\<forall>c \<in> set l. sp c \<Longrightarrow> f \<noteq> [] \<Longrightarrow> \<not> sp (hd f) \<Longrightarrow> dropWhile sp (l @ f @ r) = f @ r"
  by (cases f) (auto simp: dropWhile_append)

lemma go_fields_first:
  assumes "go_fields h = f0 # fs" and "\<not> sp (hd h)"
  shows "h = f0 @ drop (length f0) h \<and> takeWhile (\<lambda>c. \<not> sp c) h = f0 \<and>
         dropWhile (\<lambda>c. \<not> sp c) h = drop (length f0) h \<and> go_fields (drop (length f0) h) = fs \<and> f0 \<noteq> []"
proof -
  obtain lead rest where h: "h = lead @ f0 @ rest" and lead: "\<forall>c \<in> set lead. sp c"
    and f0: "f0 \<noteq> []" "\<forall>c \<in> set f0. \<not> sp c" and r: "go_fields rest = fs"
    and hd: "rest \<noteq> [] \<longrightarrow> sp (hd rest)"
    using go_fields_ConsD [OF assms(1)] by blast
  have "lead = []"
  proof (rule ccontr)
    assume "lead \<noteq> []"
    with h lead assms(2) show False by (cases lead) auto
  qed
  with h f0 r word_split [OF f0(2) hd] show ?thesis by simp
qed

lemma spaces_last:
  "\<forall>c \<in> set r. sp c \<Longrightarrow> h = x @ r \<Longrightarrow> h = [] \<or> \<not> sp (last h) \<Longrightarrow> r = []"
  by (cases r rule: rev_cases) auto

lemma split_header_ref_eq:
  assumes "h = [] \<or> \<not> sp (hd h)" and "h = [] \<or> \<not> sp (last h)"
  shows "SplitHeaderOnSpace h = Inr (split_header_ref h)"
proof (cases "go_fields h")
  case Nil
  then have "h = []" using assms(1) go_fields_Nil_iff [of h] by (cases h) auto
  then show ?thesis by (simp add: SplitHeaderOnSpace_def split_header_ref_def go_fields_Nil_iff)
next
  case (Cons f0 fs)
  then have ne: "h \<noteq> []" by (auto simp: go_fields_Nil_iff)
  with assms(1) have hd: "\<not> sp (hd h)" by simp
  let ?rest = "drop (length f0) h"
  from go_fields_first [OF Cons hd] have h: "h = f0 @ ?rest"
    and tw: "takeWhile (\<lambda>c. \<not> sp c) h = f0" and dw: "dropWhile (\<lambda>c. \<not> sp c) h = ?rest"
    and r: "go_fields ?rest = fs" and f0: "f0 \<noteq> []" by blast+
  show ?thesis
  proof (cases fs)
    case Nil
    with r have "?rest = []" using spaces_last [OF _ h assms(2)] by (simp add: go_fields_Nil_iff)
    then show ?thesis using Cons Nil by (simp add: SplitHeaderOnSpace_def split_header_ref_def tw dw)
  next
    case (Cons f1 fs')
    obtain lead2 rest2 where r2: "?rest = lead2 @ f1 @ rest2" and l2: "\<forall>c \<in> set lead2. sp c"
      and f1: "f1 \<noteq> []" "\<forall>c \<in> set f1. \<not> sp c" and g2: "go_fields rest2 = fs'"
      using go_fields_ConsD [of ?rest f1 fs'] r Cons by blast
    have v: "dropWhile sp ?rest = f1 @ rest2"
      using f1 by (simp add: r2 dropWhile_sp_word [OF l2])
    show ?thesis
    proof (cases fs')
      case Nil
      have "h = (f0 @ lead2 @ f1) @ rest2" using h r2 by simp
      then have "rest2 = []" using spaces_last [OF _ _ assms(2)] g2 Nil by (simp add: go_fields_Nil_iff)
      then show ?thesis
        using \<open>go_fields h = f0 # fs\<close> Cons Nil f0 f1 v
        by (simp add: SplitHeaderOnSpace_def split_header_ref_def tw dw)
    next
      case (Cons f2 fs'')
      have "SplitHeaderOnSpace h = Inr (f0, dropWhile sp ?rest)"
        using SplitHeaderOnSpace_many_value [of h f0 f1 f2 fs''] \<open>go_fields h = f0 # fs\<close>
              \<open>fs = f1 # fs'\<close> Cons ne hd by simp
      then show ?thesis using f0 f1 v by (simp add: split_header_ref_def tw dw)
    qed
  qed
qed

text \<open>
  C31. \<open>SplitHeaderOnSpace\<close> never panics: both slices it takes are in range for
  every header value, because the second field always occurs after the first.
\<close>

theorem SplitHeaderOnSpace_total: "\<exists>p v. SplitHeaderOnSpace h = Inr (p, v)"
proof (cases "go_fields h" rule: remdups_adj.cases)
  case (3 f0 f1 fs)
  show ?thesis
  proof (cases fs)
    case Nil
    with 3 show ?thesis by (simp add: SplitHeaderOnSpace_def)
  next
    case (Cons f2 fs')
    with 3 have g: "go_fields h = f0 # f1 # f2 # fs'" by simp
    obtain i where "str_index (drop (length f0) h) f1 = int i" and "length f0 + i \<le> length h"
      using split_offset [OF g] by blast
    then show ?thesis using SplitHeaderOnSpace_many [OF g] by blast
  qed
qed (simp_all add: SplitHeaderOnSpace_def)

lemma split_header_ref_words:
  assumes "p \<noteq> []" and "\<forall>c \<in> set p. \<not> sp c" and "sep \<noteq> []" and "\<forall>c \<in> set sep. sp c"
    and "v \<noteq> []" and "\<not> sp (hd v)"
  shows "split_header_ref (p @ sep @ v) = (p, v)"
proof -
  have "sep @ v \<noteq> [] \<longrightarrow> sp (hd (sep @ v))" using assms(3,4) by (cases sep) auto
  from word_split [OF assms(2) this] have
    "takeWhile (\<lambda>c. \<not> sp c) (p @ sep @ v) = p" "dropWhile (\<lambda>c. \<not> sp c) (p @ sep @ v) = sep @ v"
    by simp_all
  moreover have "dropWhile sp (sep @ v) = v"
    using dropWhile_sp_word [OF assms(4,5,6), of "[]"] by simp
  ultimately show ?thesis using assms(1,5) by (simp add: split_header_ref_def)
qed



lemma canonical_authorization [simp]: "canonical_key ''Authorization'' = ''Authorization''"
  by (simp add: canonical_key_def is_token_char_def ascii_case_defs Let_def char_of_def bit_simps)




text \<open>
  Trailing whitespace is dropped when there are exactly two fields and kept when
  there are more.
\<close>

theorem SplitHeaderOnSpace_trailing_space:
  "SplitHeaderOnSpace ''Bearer tok  '' = Inr (''Bearer'', ''tok'') \<and>
   SplitHeaderOnSpace ''Bearer tok x  '' = Inr (''Bearer'', ''tok x  '')"
  by (simp add: SplitHeaderOnSpace_def go_fields.simps is_ascii_space_def str_index_def go_slice_from_def Let_def)

end
