(* ===== verification/JsonHandler.thy ===== *)
theory JsonHandler
  imports Report
begin

text \<open>
  The reflective handler adapter \<open>JSONHandler\<close> (json.go). A Go function value is
  its signature (the \<open>reflect.Type\<close> the code inspects) and its behaviour on the
  argument list that \<open>reflect.Value.Call\<close> passes. The JSON codec is a parameter:
  every lemma holds for any decoder and encoder. \<open>JSONHandler\<close> checks the signature
  once and returns the closure, wrapped in \<open>httperr.HandlerFunc\<close>, that serves
  each request.
\<close>

section \<open>Go types as reflect sees them\<close>

text \<open>
  \<open>reflect.Kind\<close>: the two kinds the checks distinguish, and every other kind by its
  name (\<open>int\<close>, \<open>slice\<close>, \<open>map\<close>, \<open>interface\<close>, ...).
\<close>

datatype gokind = KPtr | KStruct | KOther string

text \<open>
  \<open>GPtr t\<close> is \<open>*t\<close>, \<open>GStruct n\<close> a struct type named \<open>n\<close>, \<open>GOther k n\<close>
  any other type, of kind \<open>k\<close> and printed as \<open>n\<close>
  (\<open>GOther ''interface'' ''error''\<close> is the built-in \<open>error\<close>).
\<close>

datatype gotype = GPtr gotype | GStruct string | GOther string string

fun kind :: "gotype \<Rightarrow> gokind" where
  "kind (GPtr t) = KPtr"
| "kind (GStruct n) = KStruct"
| "kind (GOther k n) = KOther k"

fun type_string :: "gotype \<Rightarrow> string" where
  "type_string (GPtr t) = CHR ''*'' # type_string t"
| "type_string (GStruct n) = n"
| "type_string (GOther k n) = n"

text \<open>
  \<open>t.Kind() == reflect.Ptr && P(t.Elem())\<close>; \<open>Elem()\<close> is only reached on a pointer,
  as the short-circuit operators of the source ensure.
\<close>

fun is_ptr_to :: "(gotype \<Rightarrow> bool) \<Rightarrow> gotype \<Rightarrow> bool" where
  "is_ptr_to P (GPtr t) = P t"
| "is_ptr_to P _ = False"

definition request_type :: gotype where
  "request_type = GStruct ''http.Request''"

record fsig =
  fins :: "gotype list"
  fouts :: "gotype list"

section \<open>Bind time: the signature checks\<close>

definition json_handler_check :: "fsig \<Rightarrow> unit go" where
  "json_handler_check ft =
     (let ins = fins ft; outs = fouts ft in
      if length ins \<noteq> 1 \<and> length ins \<noteq> 2 then Inl ''function must take 1 or 2 two arguments''
      else if \<not> is_ptr_to (\<lambda>t. t = request_type) (ins ! 0) then Inl ''first argument must be *http.Request''
      else if length ins = 2 \<and> kind (ins ! 1) = KPtr \<and> is_ptr_to (\<lambda>t. kind t \<noteq> KStruct) (ins ! 1)
        then Inl ''second argument must be a pointer to a struct type, got pointer to non-struct''
      else if length ins = 2 \<and> kind (ins ! 1) \<noteq> KPtr \<and> kind (ins ! 1) \<noteq> KStruct
        then Inl ''second argument must be a struct or pointer to stuct''
      else if length outs = 1 then
        (if type_string (outs ! 0) \<noteq> ''error'' then Inl ''function must return (error)'' else Inr ())
      else if length outs = 2 then
        (if \<not> is_ptr_to (\<lambda>t. kind t = KStruct) (outs ! 0) then Inl ''function must return (*SomeStruct, error)''
         else if type_string (outs ! 1) \<noteq> ''error'' then Inl ''function must return (*SomeStruct, error)''
         else Inr ())
      else Inr ())"

section \<open>Request time: the serving closure\<close>

text \<open>
  Values crossing \<open>reflect.Value.Call\<close>: nil, a non-nil error, a struct value, a
  non-nil pointer to a struct, and the request itself. \<open>'v\<close> is the user's struct data.
\<close>

datatype 'v gval = VNil | VErr goerr | VStruct 'v | VPtr 'v | VReq request

record 'v json_codec =
  json_decode :: "gotype \<Rightarrow> string \<Rightarrow> string + 'v gval"
  json_encode :: "'v gval \<Rightarrow> string + string"

type_synonym 'v gofunc = "'v gval list \<Rightarrow> 'v gval list"

text \<open>\<open>if e := out[k].Interface(); e != nil { err = e.(error) }\<close>\<close>

fun as_error :: "'v gval \<Rightarrow> goerr go" where
  "as_error VNil = Inr Nil"
| "as_error (VErr e) = Inr e"
| "as_error _ = Inl ''interface conversion: interface {} is not error''"

definition json_call :: "'v json_codec \<Rightarrow> fsig \<Rightarrow> 'v gofunc \<Rightarrow> request \<Rightarrow> goerr + 'v gval list" where
  "json_call codec ft f r =
     (if length (fins ft) = 2 then
        (case json_decode codec (fins ft ! 1) (req_body r) of
           Inl msg \<Rightarrow> Inl (Public 400 (Errorf msg))
         | Inr arg \<Rightarrow> Inr (f [VReq r, arg]))
      else if length (fins ft) = 1 then Inr (f [VReq r])
      else Inr [])"

definition result_error :: "fsig \<Rightarrow> 'v gval list \<Rightarrow> goerr go" where
  "result_error ft out =
     (if length (fouts ft) = 1 then go_bind (go_index out 0) as_error
      else if length (fouts ft) = 2 then go_bind (go_index out 1) as_error
      else Inr Nil)"

definition with_rw :: "served \<Rightarrow> rw_op list \<Rightarrow> served go" where
  "with_rw s ops = go_bind (rw_run ops (srv_rw s)) (\<lambda>w. Inr (s\<lparr>srv_rw := w\<rparr>))"

definition json_serve :: "'v json_codec \<Rightarrow> fsig \<Rightarrow> 'v gofunc \<Rightarrow> handler_func" where
  "json_serve codec ft f r s =
     (case json_call codec ft f r of
        Inl err \<Rightarrow> Inr (s, err)
      | Inr out \<Rightarrow>
          go_bind (result_error ft out) (\<lambda>err.
            if \<not> is_nil err then Inr (s, err)
            else if length (fouts ft) = 1 then
              go_bind (with_rw s [WriteHeader 204]) (\<lambda>s'. Inr (s', Nil))
            else
              go_bind (go_index out 0) (\<lambda>body.
                go_bind (with_rw s [HdrAdd ''Content-type'' ''application/json'']) (\<lambda>s1.
                  case json_encode codec body of
                    Inl msg \<Rightarrow> Inr (s1, Errorf msg)
                  | Inr txt \<Rightarrow> go_bind (with_rw s1 [WriteBody (txt @ LF)]) (\<lambda>s2. Inr (s2, Nil))))))"

definition JSONHandler :: "'v json_codec \<Rightarrow> fsig \<Rightarrow> 'v gofunc \<Rightarrow> handler_func go" where
  "JSONHandler codec ft f = go_bind (json_handler_check ft) (\<lambda>_. Inr (json_serve codec ft f))"

lemmas json_run [go_run] =
  request_type_def json_handler_check_def json_call_def result_error_def with_rw_def
  json_serve_def JSONHandler_def

section \<open>The shapes the spec accepts\<close>

text \<open>
  The abstract contract of bind time: the first parameter is \<open>*http.Request\<close>, a
  second one is a struct or a pointer to a struct, and the results are none,
  \<open>(error)\<close>, or \<open>(*SomeStruct, error)\<close>.
\<close>

definition spec_ins_ok :: "gotype list \<Rightarrow> bool" where
  "spec_ins_ok ins \<longleftrightarrow>
     ins = [GPtr request_type] \<or>
     (\<exists>a. ins = [GPtr request_type, a] \<and> (kind a = KStruct \<or> is_ptr_to (\<lambda>t. kind t = KStruct) a))"

definition spec_outs_ok :: "gotype list \<Rightarrow> bool" where
  "spec_outs_ok outs \<longleftrightarrow>
     outs = [] \<or> (\<exists>e. outs = [e] \<and> type_string e = ''error'') \<or>
     (\<exists>p e. outs = [p, e] \<and> is_ptr_to (\<lambda>t. kind t = KStruct) p \<and> type_string e = ''error'')"

lemma is_ptr_to_eq: "is_ptr_to P t \<longleftrightarrow> (\<exists>u. t = GPtr u \<and> P u)"
  by (cases t) auto

lemma kind_KPtr_iff: "kind t = KPtr \<longleftrightarrow> (\<exists>u. t = GPtr u)"
  by (cases t) auto

lemma arg_checks_iff:
  "\<not> (kind b = KPtr \<and> is_ptr_to (\<lambda>t. kind t \<noteq> KStruct) b) \<and> \<not> (kind b \<noteq> KPtr \<and> kind b \<noteq> KStruct)
   \<longleftrightarrow> kind b = KStruct \<or> is_ptr_to (\<lambda>t. kind t = KStruct) b"
  by (cases b) auto

lemma length_1_2_cases:
  "length xs = 1 \<longleftrightarrow> (\<exists>a. xs = [a])" "length xs = 2 \<longleftrightarrow> (\<exists>a b. xs = [a, b])"
  by (auto simp: length_Suc_conv numeral_2_eq_2)

lemma ins_checks_iff:
  "((length ins = 1 \<or> length ins = 2) \<and> is_ptr_to (\<lambda>t. t = request_type) (ins ! 0) \<and>
    \<not> (length ins = 2 \<and> kind (ins ! 1) = KPtr \<and> is_ptr_to (\<lambda>t. kind t \<noteq> KStruct) (ins ! 1)) \<and>
    \<not> (length ins = 2 \<and> kind (ins ! 1) \<noteq> KPtr \<and> kind (ins ! 1) \<noteq> KStruct))
   \<longleftrightarrow> spec_ins_ok ins"
  unfolding spec_ins_ok_def length_1_2_cases
  by (auto simp: is_ptr_to_eq kind_KPtr_iff arg_checks_iff [symmetric])

lemma outs_checks_iff:
  "length outs \<le> 2 \<Longrightarrow>
   ((length outs = 1 \<longrightarrow> type_string (outs ! 0) = ''error'') \<and>
    (length outs = 2 \<longrightarrow> is_ptr_to (\<lambda>t. kind t = KStruct) (outs ! 0) \<and> type_string (outs ! 1) = ''error''))
   \<longleftrightarrow> spec_outs_ok outs"
proof -
  assume "length outs \<le> 2"
  then have "length outs = 0 \<or> length outs = 1 \<or> length outs = 2" by arith
  then show ?thesis unfolding spec_outs_ok_def length_1_2_cases by auto
qed

text \<open>
  C5. The bind-time checks accept exactly the documented shapes, and also every function with
  three or more results, whatever their types.
\<close>

theorem json_handler_check_iff:
  "json_handler_check ft = Inr () \<longleftrightarrow>
     spec_ins_ok (fins ft) \<and> (spec_outs_ok (fouts ft) \<or> 3 \<le> length (fouts ft))"
proof (cases "3 \<le> length (fouts ft)")
  case True
  then show ?thesis
    by (auto simp: json_handler_check_def Let_def ins_checks_iff [symmetric])
next
  case False
  then have "length (fouts ft) \<le> 2" by simp
  then show ?thesis
    by (auto simp: json_handler_check_def Let_def ins_checks_iff [symmetric] outs_checks_iff [symmetric])
qed

section \<open>Serving a request\<close>

lemma JSONHandler_Inr:
  "JSONHandler codec ft f = Inr h \<Longrightarrow> json_handler_check ft = Inr () \<and> h = json_serve codec ft f"
  by (cases "json_handler_check ft") (auto simp: JSONHandler_def)

lemma json_serve_decode_error:
  "length (fins ft) = 2 \<Longrightarrow> json_decode codec (fins ft ! 1) (req_body r) = Inl msg \<Longrightarrow>
   json_serve codec ft f r s = Inr (s, Public 400 (Errorf msg))"
  by (simp add: json_serve_def json_call_def)

lemma public_400_lookups:
  "errors_as response_writer (Public c (Errorf msg)) = None"
  "IsPublic (Public c (Errorf msg))" "StatusCode (Public c (Errorf msg)) = c"
  "error_text (Public c (Errorf msg)) = Inr msg" "error_text (pkg_cause (Public c (Errorf msg))) = Inr msg"
  by (simp_all add: chain_lookups error_ctor_defs)

text \<open>
  C1. A request whose body does not decode is answered 400, with the decoder's message in
  \<open>X-Error-Message\<close>, when no translator and no \<open>OnError\<close> callback intervene.
\<close>

theorem json_malformed_body:
  assumes h: "JSONHandler codec ft f = Inr h" and "length (fins ft) = 2"
    and "json_decode codec (fins ft ! 1) (req_body r) = Inl msg"
    and "error_translators st = []" and "ctx_value (req_ctx r) OnErrorIndex = None"
    and "rw_status (srv_rw s) = None" and "rw_header (srv_rw s) ''X-Error-Message'' = []"
  shows "\<exists>s'. serve_handler_func st h r s = Inr s' \<and> rw_status (srv_rw s') = Some 400 \<and>
              header_get (rw_sent (srv_rw s')) ''X-Error-Message'' = msg"
proof -
  let ?w = "srv_rw s"
  let ?w1 = "?w\<lparr>rw_header := header_add (rw_header ?w) ''X-Error-Message'' msg\<rparr>"
  from h have serve: "h = json_serve codec ft f" by (simp add: JSONHandler_Inr)
  let ?w2 = "?w1\<lparr>rw_header := text_plain_header (rw_header ?w1), rw_status := Some 400,
                  rw_sent := text_plain_header (rw_header ?w1),
                  rw_body := rw_body ?w1 @ (if body_allowed 400 then status_text 400 @ LF else [])\<rparr>"
  have "Write (now_time st) ?w (Public 400 (Errorf msg)) = rw_run (http_error (status_text 400) 400) ?w1"
    by (simp add: Write_def write_ops_public public_400_lookups)
  also have "\<dots> = Inr ?w2"
    using assms(6) by (simp add: rw_run_http_error)
  finally have w: "Write (now_time st) ?w (Public 400 (Errorf msg)) = Inr ?w2" .
  have hdr: "header_get (text_plain_header (rw_header ?w1)) ''X-Error-Message'' = msg"
    using assms(7) by (simp add: text_plain_header_other header_get_def header_add_def)
  show ?thesis
    using assms(2-5) w hdr
    by (simp add: serve serve_handler_func_def json_serve_decode_error ReportError_write
        TranslateError_none Public_def Wrap_def)
qed

lemma with_rw_add_json:
  "with_rw s [HdrAdd ''Content-type'' ''application/json''] =
     Inr (s\<lparr>srv_rw := srv_rw s\<lparr>rw_header := header_add (rw_header (srv_rw s)) ''Content-type'' ''application/json''\<rparr>\<rparr>)"
  by (simp add: with_rw_def)

lemma with_rw_body_fresh:
  "rw_status (srv_rw s) = None \<Longrightarrow>
   with_rw s [WriteBody txt] =
     Inr (s\<lparr>srv_rw := srv_rw s\<lparr>rw_status := Some 200, rw_sent := rw_header (srv_rw s),
                               rw_body := rw_body (srv_rw s) @ txt\<rparr>\<rparr>)"
  by (simp add: with_rw_def write_header_def body_allowed_def)

lemma json_serve_result:
  "json_call codec ft f r = Inr [body, VNil] \<Longrightarrow> length (fouts ft) = 2 \<Longrightarrow>
   json_encode codec body = Inr txt \<Longrightarrow> rw_status (srv_rw s) = None \<Longrightarrow>
   json_serve codec ft f r s =
     Inr (s\<lparr>srv_rw := srv_rw s\<lparr>rw_header := header_add (rw_header (srv_rw s)) ''Content-type'' ''application/json'',
                               rw_status := Some 200,
                               rw_sent := header_add (rw_header (srv_rw s)) ''Content-type'' ''application/json'',
                               rw_body := rw_body (srv_rw s) @ txt @ LF\<rparr>\<rparr>, Nil)"
  by (simp add: json_serve_def result_error_def with_rw_add_json with_rw_body_fresh)

lemma json_serve_encode_error:
  "json_call codec ft f r = Inr [body, VNil] \<Longrightarrow> length (fouts ft) = 2 \<Longrightarrow>
   json_encode codec body = Inl msg \<Longrightarrow>
   json_serve codec ft f r s =
     Inr (s\<lparr>srv_rw := srv_rw s\<lparr>rw_header := header_add (rw_header (srv_rw s)) ''Content-type'' ''application/json''\<rparr>\<rparr>,
          Errorf msg)"
  by (simp add: json_serve_def result_error_def with_rw_add_json)

lemma json_serve_business_error:
  "json_call codec ft f r = Inr out \<Longrightarrow> result_error ft out = Inr e \<Longrightarrow> \<not> is_nil e \<Longrightarrow>
   json_serve codec ft f r s = Inr (s, e)"
  by (simp add: json_serve_def)

lemma json_call_two:
  "length (fins ft) = 2 \<Longrightarrow> json_decode codec (fins ft ! 1) (req_body r) = Inr arg \<Longrightarrow>
   json_call codec ft f r = Inr (f [VReq r, arg])"
  by (simp add: json_call_def)

lemma json_call_one: "length (fins ft) = 1 \<Longrightarrow> json_call codec ft f r = Inr (f [VReq r])"
  by (simp add: json_call_def)

lemma header_get_content_type_json:
  "h ''Content-Type'' = [] \<Longrightarrow>
   header_get (header_add h ''Content-type'' ''application/json'') ''Content-Type'' = ''application/json''"
  by (simp add: header_get_def header_add_def)

section \<open>Behaviour of the bound handler\<close>

abbreviation ex_state :: httperr_state where
  "ex_state \<equiv> \<lparr>error_translators = [], now_time = 0\<rparr>"

abbreviation ex_request :: request where
  "ex_request \<equiv> \<lparr>req_method = ''POST'', req_url = ''/foo'', req_header = empty_header,
                 req_body = ''{}'', req_ctx = []\<rparr>"

abbreviation ex_served :: served where
  "ex_served \<equiv> \<lparr>srv_rw = rw_init, srv_reports = []\<rparr>"

abbreviation ex_codec :: "unit json_codec" where
  "ex_codec \<equiv> \<lparr>json_decode = (\<lambda>t b. Inr (VStruct ())), json_encode = (\<lambda>v. Inr ''{}'')\<rparr>"

abbreviation ex_sig :: fsig where
  "ex_sig \<equiv> \<lparr>fins = [GPtr request_type, GStruct ''Foo''],
             fouts = [GPtr (GStruct ''Bar''), GOther ''interface'' ''error'']\<rparr>"

text \<open>
  C2. A handler of shape \<open>(request, In) -> (*Out, error)\<close> whose body decodes and whose
  function returns a result and a nil error answers 200 with content type
  \<open>application/json\<close> and the encoded result and a newline as body.
\<close>

theorem json_success:
  assumes h: "JSONHandler codec ft f = Inr h"
    and "length (fins ft) = 2" and "length (fouts ft) = 2"
    and "json_decode codec (fins ft ! 1) (req_body r) = Inr arg"
    and "f [VReq r, arg] = [VPtr b, VNil]" and "json_encode codec (VPtr b) = Inr enc"
    and "rw_status (srv_rw s) = None" and "rw_header (srv_rw s) ''Content-Type'' = []"
  shows "\<exists>s'. serve_handler_func st h r s = Inr s' \<and> rw_status (srv_rw s') = Some 200 \<and>
              header_get (rw_sent (srv_rw s')) ''Content-Type'' = ''application/json'' \<and>
              rw_body (srv_rw s') = rw_body (srv_rw s) @ enc @ LF \<and> srv_reports s' = srv_reports s"
proof -
  from h have serve: "h = json_serve codec ft f" by (simp add: JSONHandler_Inr)
  from assms(2,4,5) have "json_call codec ft f r = Inr [VPtr b, VNil]" by (simp add: json_call_two)
  with assms(3,6,7) show ?thesis
    by (simp add: serve serve_handler_func_def json_serve_result header_get_content_type_json assms(8))
qed

text \<open>
  C3. A handler of shape \<open>(request) -> error\<close> whose function returns nil answers
  204 No Content and writes no body.
\<close>

theorem json_no_content:
  assumes h: "JSONHandler codec ft f = Inr h"
    and "length (fins ft) = 1" and "length (fouts ft) = 1" and "f [VReq r] = [VNil]"
    and "rw_status (srv_rw s) = None"
  shows "serve_handler_func st h r s =
           Inr (s\<lparr>srv_rw := srv_rw s\<lparr>rw_status := Some 204, rw_sent := rw_header (srv_rw s)\<rparr>\<rparr>)"
proof -
  from h have serve: "h = json_serve codec ft f" by (simp add: JSONHandler_Inr)
  from assms(2,3,4,5) show ?thesis
    by (simp add: serve serve_handler_func_def json_serve_def json_call_one result_error_def
                  with_rw_def write_header_def)
qed

text \<open>
  C4. A handler of shape \<open>(request) -> ()\<close>, which \<open>JSONHandler\<close> accepts, panics on
  every request: with no results the closure falls through to \<open>out[0]\<close>, out of range.
  The spec and the doc comment promise 204 No Content.
\<close>

theorem json_no_results_panics:
  assumes h: "JSONHandler codec ft f = Inr h"
    and "length (fins ft) = 1" and "fouts ft = []" and "f [VReq r] = []"
  shows "serve_handler_func st h r s = Inl ''runtime error: index out of range''"
proof -
  from h have serve: "h = json_serve codec ft f" by (simp add: JSONHandler_Inr)
  from assms(2,3,4) show ?thesis
    by (simp add: serve serve_handler_func_def json_serve_def json_call_one result_error_def)
qed

text \<open>
  C15. A non-nil error returned by the business function is passed, unchanged, to
  \<open>ReportError\<close> for the same request: the single place business failures surface.
\<close>

theorem json_business_error:
  assumes h: "JSONHandler codec ft f = Inr h"
    and "length (fins ft) = 2" and "length (fouts ft) = 2"
    and "json_decode codec (fins ft ! 1) (req_body r) = Inr arg"
    and "f [VReq r, arg] = [v, VErr e]" and "\<not> is_nil e"
  shows "serve_handler_func st h r s = ReportError st r e s"
proof -
  from h have serve: "h = json_serve codec ft f" by (simp add: JSONHandler_Inr)
  from assms(2,4,5) have call: "json_call codec ft f r = Inr [v, VErr e]" by (simp add: json_call_two)
  from assms(3) have "result_error ft [v, VErr e] = Inr e" by (simp add: result_error_def)
  with call assms(6) show ?thesis
    by (simp add: serve serve_handler_func_def json_serve_business_error)
qed

lemma Errorf_lookups:
  "errors_as response_writer (Errorf m) = None" "\<not> IsPublic (Errorf m)" "StatusCode (Errorf m) = 0"
  by (simp_all add: chain_lookups)

text \<open>
  C16. A result the encoder rejects is reported as a private error: with no translator and
  no callback the response is 500 with a plain-text body, the JSON content type having
  been replaced by \<open>http.Error\<close>.
\<close>

theorem json_encode_failure:
  assumes h: "JSONHandler codec ft f = Inr h"
    and "length (fins ft) = 2" and "length (fouts ft) = 2"
    and "json_decode codec (fins ft ! 1) (req_body r) = Inr arg"
    and "f [VReq r, arg] = [body, VNil]" and "json_encode codec body = Inl msg"
    and "error_translators st = []" and "ctx_value (req_ctx r) OnErrorIndex = None"
    and "rw_status (srv_rw s) = None"
  shows "\<exists>s'. serve_handler_func st h r s = Inr s' \<and> rw_status (srv_rw s') = Some 500 \<and>
              header_get (rw_sent (srv_rw s')) ''Content-Type'' = ''text/plain; charset=utf-8'' \<and>
              rw_body (srv_rw s') = rw_body (srv_rw s) @ ''Internal Server Error'' @ LF"
proof -
  from h have serve: "h = json_serve codec ft f" by (simp add: JSONHandler_Inr)
  from assms(2,4,5) have call: "json_call codec ft f r = Inr [body, VNil]" by (simp add: json_call_two)
  let ?w1 = "srv_rw s\<lparr>rw_header := header_add (rw_header (srv_rw s)) ''Content-type'' ''application/json''\<rparr>"
  have "Write (now_time st) ?w1 (Errorf msg) = rw_run (http_error (status_text 500) 500) ?w1"
    by (simp add: Write_def write_ops_private Errorf_lookups)
  with assms(9) have w: "Write (now_time st) ?w1 (Errorf msg) =
      Inr (?w1\<lparr>rw_header := text_plain_header (rw_header ?w1), rw_status := Some 500,
                  rw_sent := text_plain_header (rw_header ?w1),
                  rw_body := rw_body ?w1 @ (if body_allowed 500 then status_text 500 @ LF else [])\<rparr>)"
    by (simp add: rw_run_http_error)
  show ?thesis
    using call assms(3,6,7,8) w
    by (simp add: serve serve_handler_func_def json_serve_encode_error ReportError_write TranslateError_none
                  text_plain_header_def header_get_def header_set_def body_allowed_def status_text_run)
qed


theorem json_success_witness:
  "\<exists>s'. serve_handler_func ex_state (json_serve ex_codec ex_sig (\<lambda>args. [VPtr (), VNil]))
          ex_request ex_served = Inr s' \<and>
        rw_status (srv_rw s') = Some 200 \<and>
        header_get (rw_sent (srv_rw s')) ''Content-Type'' = ''application/json'' \<and>
        rw_body (srv_rw s') = ''{}'' @ LF \<and> srv_reports s' = []"
proof -
  have h: "JSONHandler ex_codec ex_sig (\<lambda>args. [VPtr (), VNil]) =
           Inr (json_serve ex_codec ex_sig (\<lambda>args. [VPtr (), VNil]))"
    by (simp add: JSONHandler_def json_handler_check_def request_type_def)
  show ?thesis
    using json_success [OF h, where arg = "VStruct ()" and b = "()" and enc = "''{}''"
                         and st = ex_state and r = ex_request and s = ex_served]
    by (simp add: rw_init_def)
qed

theorem json_malformed_body_witness:
  "\<exists>s'. serve_handler_func ex_state
          (json_serve (ex_codec\<lparr>json_decode := (\<lambda>t b. Inl ''unexpected EOF'')\<rparr>) ex_sig (\<lambda>args. [VPtr (), VNil]))
          ex_request ex_served = Inr s' \<and>
        rw_status (srv_rw s') = Some 400 \<and>
        header_get (rw_sent (srv_rw s')) ''X-Error-Message'' = ''unexpected EOF''"
proof -
  have h: "JSONHandler (ex_codec\<lparr>json_decode := (\<lambda>t b. Inl ''unexpected EOF'')\<rparr>) ex_sig (\<lambda>args. [VPtr (), VNil]) =
           Inr (json_serve (ex_codec\<lparr>json_decode := (\<lambda>t b. Inl ''unexpected EOF'')\<rparr>) ex_sig (\<lambda>args. [VPtr (), VNil]))"
    by (simp add: JSONHandler_def json_handler_check_def request_type_def)
  show ?thesis
    using json_malformed_body [OF h, where msg = "''unexpected EOF''" and st = ex_state
                                and r = ex_request and s = ex_served]
    by (simp add: rw_init_def ctx_value_def)
qed

theorem json_no_content_witness:
  "serve_handler_func ex_state
     (json_serve ex_codec \<lparr>fins = [GPtr request_type], fouts = [GOther ''interface'' ''error'']\<rparr> (\<lambda>args. [VNil]))
     ex_request ex_served =
   Inr (ex_served\<lparr>srv_rw := rw_init\<lparr>rw_status := Some 204\<rparr>\<rparr>)"
proof -
  have h: "JSONHandler ex_codec \<lparr>fins = [GPtr request_type], fouts = [GOther ''interface'' ''error'']\<rparr> (\<lambda>args. [VNil]) =
           Inr (json_serve ex_codec \<lparr>fins = [GPtr request_type], fouts = [GOther ''interface'' ''error'']\<rparr> (\<lambda>args. [VNil]))"
    by (simp add: JSONHandler_def json_handler_check_def request_type_def)
  show ?thesis
    using json_no_content [OF h, where st = ex_state and r = ex_request and s = ex_served]
    by (simp add: rw_init_def)
qed

theorem json_no_results_panics_witness:
  "serve_handler_func ex_state
     (json_serve ex_codec \<lparr>fins = [GPtr request_type], fouts = []\<rparr> (\<lambda>args. []))
     ex_request ex_served = Inl ''runtime error: index out of range''"
proof -
  have h: "JSONHandler ex_codec \<lparr>fins = [GPtr request_type], fouts = []\<rparr> (\<lambda>args. []) =
           Inr (json_serve ex_codec \<lparr>fins = [GPtr request_type], fouts = []\<rparr> (\<lambda>args. []))"
    by (simp add: JSONHandler_def json_handler_check_def request_type_def)
  show ?thesis
    using json_no_results_panics [OF h, where st = ex_state and r = ex_request and s = ex_served]
    by simp
qed

theorem json_business_error_witness:
  "serve_handler_func ex_state (json_serve ex_codec ex_sig (\<lambda>args. [VNil, VErr (Code 404)]))
     ex_request ex_served = ReportError ex_state ex_request (Code 404) ex_served"
proof -
  have h: "JSONHandler ex_codec ex_sig (\<lambda>args. [VNil, VErr (Code 404)]) =
           Inr (json_serve ex_codec ex_sig (\<lambda>args. [VNil, VErr (Code 404)]))"
    by (simp add: JSONHandler_def json_handler_check_def request_type_def)
  show ?thesis
    using json_business_error [OF h, where arg = "VStruct ()" and v = VNil and e = "Code 404"
                                 and st = ex_state and r = ex_request and s = ex_served]
    by (simp add: Code_def Wrapf_def)
qed

theorem json_encode_failure_witness:
  "\<exists>s'. serve_handler_func ex_state
          (json_serve (ex_codec\<lparr>json_encode := (\<lambda>v. Inl ''json: unsupported type: chan int'')\<rparr>) ex_sig
             (\<lambda>args. [VPtr (), VNil]))
          ex_request ex_served = Inr s' \<and>
        rw_status (srv_rw s') = Some 500 \<and>
        header_get (rw_sent (srv_rw s')) ''Content-Type'' = ''text/plain; charset=utf-8'' \<and>
        rw_body (srv_rw s') = ''Internal Server Error'' @ LF"
proof -
  have h: "JSONHandler (ex_codec\<lparr>json_encode := (\<lambda>v. Inl ''json: unsupported type: chan int'')\<rparr>) ex_sig
             (\<lambda>args. [VPtr (), VNil]) =
           Inr (json_serve (ex_codec\<lparr>json_encode := (\<lambda>v. Inl ''json: unsupported type: chan int'')\<rparr>) ex_sig
             (\<lambda>args. [VPtr (), VNil]))"
    by (simp add: JSONHandler_def json_handler_check_def request_type_def)
  show ?thesis
    using json_encode_failure [OF h, where arg = "VStruct ()" and body = "VPtr ()"
            and msg = "''json: unsupported type: chan int''" and st = ex_state and r = ex_request and s = ex_served]
    by (simp add: rw_init_def ctx_value_def)
qed

text \<open>
  C17. Binding a function whose second parameter is neither a struct nor a pointer fails at
  bind time with the source's panic message.
\<close>

theorem json_non_struct_arg_rejected:
  "length (fins ft) = 2 \<Longrightarrow> fins ft ! 0 = GPtr request_type \<Longrightarrow>
   kind (fins ft ! 1) \<noteq> KPtr \<Longrightarrow> kind (fins ft ! 1) \<noteq> KStruct \<Longrightarrow>
   json_handler_check ft = Inl ''second argument must be a struct or pointer to stuct''"
  by (simp add: json_handler_check_def)

theorem json_non_struct_arg_rejected_witness:
  "json_handler_check \<lparr>fins = [GPtr request_type, GOther ''int'' ''int''], fouts = [GOther ''interface'' ''error'']\<rparr> =
   Inl ''second argument must be a struct or pointer to stuct''"
  by (rule json_non_struct_arg_rejected) simp_all


end
