(* ===== verification/Client.thy ===== *)
theory Client
  imports JsonHandler
begin

text \<open>
  The outbound JSON client (json_client.go): \<open>HandleJSONError\<close>,
  \<open>JSONClient.NewRequest\<close>, \<open>HandleResponse\<close> and \<open>DoJSON\<close>. The HTTP client
  itself (\<open>Client.Do\<close>) and \<open>url.Parse\<close> are parameters, so every theorem holds for
  any transport and any URL parser; the JSON codec is the one of \<open>JsonHandler\<close>.
\<close>

section \<open>Responses and the standard library\<close>

text \<open>
  An \<open>http.Response\<close> as the client sees it: the status line (\<open>Status\<close>), the code,
  the header, and the body as the bytes it delivers followed, optionally, by the error
  its next \<open>Read\<close> returns.
\<close>

record http_response =
  resp_status :: string
  resp_status_code :: int
  resp_header :: header
  resp_body :: string
  resp_read_err :: "string option"

text \<open>\<open>ioutil.ReadAll\<close>: all bytes, or the read error.\<close>

definition read_all :: "http_response \<Rightarrow> string + string" where
  "read_all r = (case resp_read_err r of Some e \<Rightarrow> Inl e | None \<Rightarrow> Inr (resp_body r))"

text \<open>
  \<open>json.NewDecoder(r.Body).Decode(v)\<close>: the codec's decoder on the bytes; when they do
  not hold a value and the stream ended in a read error, that error is reported.
\<close>

definition decode_body :: "'v json_codec \<Rightarrow> gotype \<Rightarrow> http_response \<Rightarrow> string + 'v gval" where
  "decode_body codec t r =
     (case json_decode codec t (resp_body r) of
        Inr v \<Rightarrow> Inr v
      | Inl m \<Rightarrow> Inl (case resp_read_err r of Some e \<Rightarrow> e | None \<Rightarrow> m))"

text \<open>\<open>url.Parse\<close>, as a parameter: an error message or the URL in its \<open>String()\<close> form.\<close>

type_synonym url_parser = "string \<Rightarrow> string + string"

text \<open>
  \<open>http.NewRequestWithContext\<close>: an empty method means \<open>GET\<close>, a method that is not
  a token is rejected, then the URL is parsed. The new request has an empty header and
  the given body (\<open>None\<close> is a nil reader, which leaves \<open>req.Body\<close> nil).
\<close>

definition valid_method :: "string \<Rightarrow> bool" where
  "valid_method m \<longleftrightarrow> m \<noteq> [] \<and> list_all is_token_char m"

definition new_request_with_context ::
  "url_parser \<Rightarrow> go_ctx \<Rightarrow> string \<Rightarrow> string \<Rightarrow> string option \<Rightarrow> goerr + request" where
  "new_request_with_context parse ctx method uri body =
     (let m = (if method = [] then ''GET'' else method) in
      if \<not> valid_method m then Inl (Errorf (''net/http: invalid method '' @ [CHR 0x22] @ method @ [CHR 0x22]))
      else case parse uri of
             Inl msg \<Rightarrow> Inl (Errorf msg)
           | Inr u \<Rightarrow> Inr \<lparr>req_method = m, req_url = u, req_header = empty_header,
                          req_body = (case body of None \<Rightarrow> [] | Some b \<Rightarrow> b), req_ctx = ctx\<rparr>)"

section \<open>json_client.go\<close>

text \<open>
  \<open>JSONClient\<close>: the embedded \<open>*http.Client\<close>, as its \<open>Do\<close>, and the optional
  \<open>OnError\<close> hook.
\<close>

record json_client =
  cl_do :: "request \<Rightarrow> goerr + http_response"
  cl_on_error :: "(http_response \<Rightarrow> goerr) option"

text \<open>
  \<open>HandleJSONError(respBodyFactory)\<close>. Unmarshalling the body into a fresh value of the
  factory is the parameter \<open>unmarshal\<close>: a JSON error, or the filled error value.
\<close>

definition HandleJSONError :: "(string \<Rightarrow> string + goerr) \<Rightarrow> http_response \<Rightarrow> goerr" where
  "HandleJSONError unmarshal r =
     (case read_all r of
        Inl e \<Rightarrow> Errorf e
      | Inr buf \<Rightarrow>
          (case unmarshal buf of
             Inl _ \<Rightarrow> Response (resp_status r) (resp_header r)
           | Inr e \<Rightarrow> e))"

text \<open>
  \<open>NewRequest\<close>: a request body, when given, is marshalled first; a request that has a
  body gets \<open>Content-type: application/json\<close>.
\<close>

definition NewRequest ::
  "'v json_codec \<Rightarrow> url_parser \<Rightarrow> go_ctx \<Rightarrow> string \<Rightarrow> string \<Rightarrow> 'v gval option \<Rightarrow> goerr + request" where
  "NewRequest codec parse ctx method uri requestBody =
     (case (case requestBody of
              None \<Rightarrow> Inr None
            | Some v \<Rightarrow> (case json_encode codec v of Inl m \<Rightarrow> Inl m | Inr buf \<Rightarrow> Inr (Some buf))) of
        Inl m \<Rightarrow> Inl (Errorf m)
      | Inr body \<Rightarrow>
          (case new_request_with_context parse ctx method uri body of
             Inl e \<Rightarrow> Inl e
           | Inr req \<Rightarrow>
               Inr (if body \<noteq> None
                    then req\<lparr>req_header := header_add (req_header req) ''Content-type'' ''application/json''\<rparr>
                    else req)))"

text \<open>
  \<open>HandleResponse\<close>: the returned error (\<open>Nil\<close> for nil) and the value decoded into
  \<open>responseBody\<close>, whose type is given when it is non-nil.
\<close>

definition HandleResponse ::
  "'v json_codec \<Rightarrow> json_client \<Rightarrow> http_response \<Rightarrow> gotype option \<Rightarrow> goerr \<times> 'v gval option" where
  "HandleResponse codec c resp responseBody =
     (if 400 \<le> resp_status_code resp then
        (case cl_on_error c of
           Some f \<Rightarrow> (f resp, None)
         | None \<Rightarrow> (Response (resp_status resp) (resp_header resp), None))
      else case responseBody of
             None \<Rightarrow> (Nil, None)
           | Some t \<Rightarrow>
               (case decode_body codec t resp of
                  Inl m \<Rightarrow> (Errorf m, None)
                | Inr v \<Rightarrow> (Nil, Some v)))"

definition DoJSON ::
  "'v json_codec \<Rightarrow> url_parser \<Rightarrow> json_client \<Rightarrow> go_ctx \<Rightarrow> string \<Rightarrow> string \<Rightarrow> 'v gval option \<Rightarrow>
   gotype option \<Rightarrow> goerr \<times> 'v gval option" where
  "DoJSON codec parse c ctx method uri request response =
     (case NewRequest codec parse ctx method uri request of
        Inl e \<Rightarrow> (e, None)
      | Inr httpReq \<Rightarrow>
          (let httpReq' = (if response \<noteq> None
                           then httpReq\<lparr>req_header := header_set (req_header httpReq) ''Accept'' ''application/json''\<rparr>
                           else httpReq)
           in case cl_do c httpReq' of
                Inl e \<Rightarrow> (e, None)
              | Inr httpResp \<Rightarrow> HandleResponse codec c httpResp response))"

lemmas client_run [go_run] =
  read_all_def decode_body_def valid_method_def new_request_with_context_def
  HandleJSONError_def NewRequest_def HandleResponse_def DoJSON_def

section \<open>Properties of the client\<close>

lemma canonical_accept [simp]: "canonical_key ''Accept'' = ''Accept''"
  by (simp add: canonical_key_def is_token_char_def ascii_case_defs Let_def char_of_def bit_simps)

lemma new_request_ok:
  "valid_method method \<Longrightarrow> parse uri = Inr u \<Longrightarrow>
   new_request_with_context parse ctx method uri body =
     Inr \<lparr>req_method = method, req_url = u, req_header = empty_header,
          req_body = (case body of None \<Rightarrow> [] | Some b \<Rightarrow> b), req_ctx = ctx\<rparr>"
  by (simp add: new_request_with_context_def valid_method_def)

text \<open>
  C37. A request value that cannot be marshalled ends \<open>DoJSON\<close> with the marshalling
  error before anything is sent: the result is the same whatever the HTTP client does.
\<close>

theorem DoJSON_marshal_error:
  "json_encode codec v = Inl m \<Longrightarrow>
   DoJSON codec parse c ctx method uri (Some v) response = (Errorf m, None)"
  by (simp add: DoJSON_def NewRequest_def)

theorem DoJSON_marshal_error_witness:
  "DoJSON \<lparr>json_decode = (\<lambda>t b. Inr VNil), json_encode = (\<lambda>v. Inl ''json: unsupported type: chan int'')\<rparr>
     (\<lambda>s. Inr s) \<lparr>cl_do = (\<lambda>r. Inl (Errorf ''unreachable'')), cl_on_error = None\<rparr> [] ''POST'' ''https://api.example.com/foo''
     (Some (VStruct ())) None = (Errorf ''json: unsupported type: chan int'', None)"
  by (rule DoJSON_marshal_error) simp

text \<open>
  C38. The request \<open>DoJSON\<close> hands to the HTTP client carries the method, the parsed
  URL and the marshalled body, with \<open>Content-Type: application/json\<close> because it has a
  body and \<open>Accept: application/json\<close> because a response value is expected; the
  client's answer then goes to \<open>HandleResponse\<close>.
\<close>

theorem DoJSON_request:
  assumes "valid_method meth" and "parse uri = Inr u"
    and "json_encode codec v = Inr buf"
  shows "\<exists>R. DoJSON codec parse c ctx meth uri (Some v) (Some t) =
               (case cl_do c R of Inl e \<Rightarrow> (e, None) | Inr resp \<Rightarrow> HandleResponse codec c resp (Some t)) \<and>
             req_method R = meth \<and> req_url R = u \<and> req_body R = buf \<and> req_ctx R = ctx \<and>
             header_get (req_header R) ''Content-Type'' = ''application/json'' \<and>
             header_get (req_header R) ''Accept'' = ''application/json''"
proof -
  let ?R = "\<lparr>req_method = meth, req_url = u,
             req_header = header_set (header_add empty_header ''Content-type'' ''application/json'')
                            ''Accept'' ''application/json'',
             req_body = buf, req_ctx = ctx\<rparr>"
  have "DoJSON codec parse c ctx meth uri (Some v) (Some t) =
          (case cl_do c ?R of Inl e \<Rightarrow> (e, None) | Inr resp \<Rightarrow> HandleResponse codec c resp (Some t))"
    using assms by (simp add: DoJSON_def NewRequest_def new_request_ok)
  moreover have "header_get (req_header ?R) ''Content-Type'' = ''application/json''"
    and "header_get (req_header ?R) ''Accept'' = ''application/json''"
    by (simp_all add: header_get_def header_add_def header_set_def)
  ultimately show ?thesis by (intro exI [of _ ?R]) simp
qed

theorem DoJSON_request_witness:
  "DoJSON \<lparr>json_decode = (\<lambda>t b. Inr (VStruct ())), json_encode = (\<lambda>v. Inr ''{}'')\<rparr>
      (\<lambda>s. Inr s) \<lparr>cl_do = (\<lambda>r. Inl (Errorf ''connection refused'')), cl_on_error = None\<rparr> [] ''POST''
      ''https://api.example.com/foo'' (Some (VStruct ())) (Some (GStruct ''Resp'')) =
     (Errorf ''connection refused'', None) \<and>
   (\<exists>R :: request. req_method R = ''POST'' \<and> req_url R = ''https://api.example.com/foo'' \<and> req_body R = ''{}'' \<and> req_ctx R = [] \<and>
       header_get (req_header R) ''Content-Type'' = ''application/json'' \<and>
       header_get (req_header R) ''Accept'' = ''application/json'')"
  using DoJSON_request [where meth = "''POST''" and parse = "\<lambda>s. Inr s" and uri = "''https://api.example.com/foo''"
      and u = "''https://api.example.com/foo''" and buf = "''{}''" and v = "VStruct ()"
      and codec = "\<lparr>json_decode = (\<lambda>t b. Inr (VStruct ())), json_encode = (\<lambda>v. Inr ''{}'')\<rparr>"
      and t = "GStruct ''Resp''" and ctx = "[]"
      and c = "\<lparr>cl_do = (\<lambda>r. Inl (Errorf ''connection refused'')), cl_on_error = None\<rparr>"]
  by (simp add: valid_method_def is_token_char_def ascii_case_defs)

end
