(* ===== verification/Transports.thy ===== *)
theory Transports
  imports Client Headers
begin

text \<open>
  The \<open>http.RoundTripper\<close> decorators of the package (user_agent.go,
  basic_auth_transport.go, url_prefix_transport.go), over the base64 encoding that
  \<open>Request.SetBasicAuth\<close> uses. A round tripper returns the response or error
  together with the caller's request as the call leaves it, since Go passes the request
  by pointer.
\<close>

section \<open>encoding/base64 (standard encoding, with padding)\<close>

text \<open>
  The alphabet \<open>A-Z a-z 0-9 + /\<close>: \<open>b64_char\<close> encodes a 6-bit digit and
  \<open>b64_val\<close> reads one back; a group of three bytes is the 24-bit number \<open>n\<close>.
\<close>

definition b64_char :: "nat \<Rightarrow> char" where
  "b64_char i =
     (if i < 26 then char_of (65 + i) else if i < 52 then char_of (71 + i)
      else if i < 62 then char_of (i - 4) else if i = 62 then CHR ''+'' else CHR ''/'')"

definition b64_val :: "char \<Rightarrow> nat option" where
  "b64_val c =
     (let n = of_char c :: nat in
      if 65 \<le> n \<and> n \<le> 90 then Some (n - 65) else if 97 \<le> n \<and> n \<le> 122 then Some (n - 71)
      else if 48 \<le> n \<and> n \<le> 57 then Some (n + 4) else if n = 43 then Some 62
      else if n = 47 then Some 63 else None)"

definition b64_quad :: "nat \<Rightarrow> string" where
  "b64_quad n = [b64_char (n div 262144 mod 64), b64_char (n div 4096 mod 64),
                 b64_char (n div 64 mod 64), b64_char (n mod 64)]"

fun base64_encode :: "string \<Rightarrow> string" where
  "base64_encode (a # b # c # rest) =
     b64_quad (of_char a * 65536 + of_char b * 256 + of_char c) @ base64_encode rest"
| "base64_encode [a, b] = take 3 (b64_quad (of_char a * 65536 + of_char b * 256)) @ ''=''"
| "base64_encode [a] = take 2 (b64_quad (of_char a * 65536)) @ ''==''"
| "base64_encode [] = []"

definition b64_bytes :: "nat \<Rightarrow> string" where
  "b64_bytes n = [char_of (n div 65536), char_of (n div 256), char_of n]"

fun base64_decode :: "string \<Rightarrow> string option" where
  "base64_decode [] = Some []"
| "base64_decode (w # x # y # z # rest) =
     (case (b64_val w, b64_val x) of
        (Some a, Some b) \<Rightarrow>
          if y = CHR ''='' \<and> z = CHR ''='' \<and> rest = [] then Some (take 1 (b64_bytes (a * 262144 + b * 4096)))
          else (case b64_val y of
                  None \<Rightarrow> None
                | Some c \<Rightarrow>
                    if z = CHR ''='' \<and> rest = [] then Some (take 2 (b64_bytes (a * 262144 + b * 4096 + c * 64)))
                    else (case b64_val z of
                            None \<Rightarrow> None
                          | Some d \<Rightarrow> map_option (\<lambda>s. b64_bytes (a * 262144 + b * 4096 + c * 64 + d) @ s)
                                                   (base64_decode rest)))
      | _ \<Rightarrow> None)"
| "base64_decode _ = None"

section \<open>Round trippers\<close>

text \<open>
  The caller's request after the call is \<open>None\<close> when the call left its URL nil.
  \<open>net_rt\<close> is a terminal transport such as \<open>http.Transport\<close>, which sends the
  request and leaves it as it was.
\<close>

type_synonym round_tripper = "request \<Rightarrow> request option \<times> (goerr + http_response)"

definition net_rt :: "(request \<Rightarrow> goerr + http_response) \<Rightarrow> round_tripper" where
  "net_rt send r = (Some r, send r)"

definition UserAgentTransport :: "round_tripper \<Rightarrow> string \<Rightarrow> round_tripper" where
  "UserAgentTransport next ua r =
     next (if header_get (req_header r) ''User-Agent'' = []
           then r\<lparr>req_header := header_set (req_header r) ''User-Agent'' ua\<rparr> else r)"

text \<open>\<open>Request.SetBasicAuth\<close> of net/http: \<open>Basic\<close> and the base64 of \<open>user:password\<close>.\<close>

definition basic_auth :: "string \<Rightarrow> string \<Rightarrow> string" where
  "basic_auth u p = base64_encode (u @ '':'' @ p)"

definition SetBasicAuth :: "string \<Rightarrow> string \<Rightarrow> request \<Rightarrow> request" where
  "SetBasicAuth u p r = r\<lparr>req_header := header_set (req_header r) ''Authorization'' (''Basic '' @ basic_auth u p)\<rparr>"

definition BasicAuthTransport :: "round_tripper \<Rightarrow> string \<Rightarrow> string \<Rightarrow> round_tripper" where
  "BasicAuthTransport next u p r = next (SetBasicAuth u p r)"

text \<open>
  \<open>r.URL, err = url.Parse(t.Server + r.URL.String())\<close>: the assignment happens also
  when parsing fails, leaving the caller's request with a nil URL.
\<close>

definition URLPrefixTransport :: "url_parser \<Rightarrow> round_tripper \<Rightarrow> string \<Rightarrow> round_tripper" where
  "URLPrefixTransport parse next server r =
     (case parse (server @ req_url r) of
        Inl msg \<Rightarrow> (None, Inl (Errorf msg))
      | Inr u \<Rightarrow> next (r\<lparr>req_url := u\<rparr>))"

lemmas transports_run [go_run] =
  b64_char_def b64_val_def b64_quad_def b64_bytes_def net_rt_def UserAgentTransport_def
  basic_auth_def SetBasicAuth_def BasicAuthTransport_def URLPrefixTransport_def

section \<open>The base64 round trip\<close>

lemma b64_val_char: "i < 64 \<Longrightarrow> b64_val (b64_char i) = Some i"
  by (auto simp: b64_char_def b64_val_def Let_def)

lemma quad_digits:
  "((n::nat) div 262144 mod 64) * 262144 + (n div 4096 mod 64) * 4096 + (n div 64 mod 64) * 64 + n mod 64 =
   n mod 16777216"
proof -
  have a: "n mod 16777216 = (n div 262144 mod 64) * 262144 + n mod 262144"
    using mod_mult2_eq [of n 262144 64] by simp
  have b: "n mod 262144 = (n div 4096 mod 64) * 4096 + n mod 4096"
    using mod_mult2_eq [of n 4096 64] by simp
  have c: "n mod 4096 = (n div 64 mod 64) * 64 + n mod 64"
    using mod_mult2_eq [of n 64 64] by simp
  show ?thesis by (simp add: a b c)
qed

lemma b64_val_pad: "b64_val CHR ''='' = None"
  by (simp add: b64_val_def)

lemma b64_char_not_pad: "i < 64 \<Longrightarrow> b64_char i \<noteq> CHR ''=''"
  using b64_val_char [of i] b64_val_pad by auto

lemma digit_split:
  assumes "r < (k::nat)" shows "(r + q * k) div k = q" and "(r + q * k) mod k = r"
proof -
  from assms have k: "k \<noteq> 0" by simp
  show "(r + q * k) div k = q" using assms k by (simp only: div_mult_self1 [OF k] div_less)
  show "(r + q * k) mod k = r" using assms by (simp only: mod_mult_self1 mod_less)
qed

lemma bytes_arith:
  fixes A B C :: nat
  assumes "B < 256" and "C < 256"
  shows "(A * 65536 + B * 256 + C) div 65536 = A"
    and "(A * 65536 + B * 256 + C) div 256 mod 256 = B"
    and "(A * 65536 + B * 256 + C) mod 256 = C"
proof -
  have lo: "B * 256 + C < 65536" using assms by linarith
  have e1: "A * 65536 + B * 256 + C = (B * 256 + C) + A * 65536" by simp
  have e2: "A * 65536 + B * 256 + C = C + (A * 256 + B) * 256" by simp
  have e3: "A * 256 + B = B + A * 256" by simp
  show "(A * 65536 + B * 256 + C) div 65536 = A" unfolding e1 using digit_split(1) [OF lo] .
  have d: "(A * 65536 + B * 256 + C) div 256 = A * 256 + B" unfolding e2 using digit_split(1) [OF assms(2)] .
  show "(A * 65536 + B * 256 + C) div 256 mod 256 = B" unfolding d e3 using digit_split(2) [OF assms(1)] .
  show "(A * 65536 + B * 256 + C) mod 256 = C" unfolding e2 using digit_split(2) [OF assms(2)] .
qed

lemma decode_digits:
  "d1 < 64 \<Longrightarrow> d2 < 64 \<Longrightarrow> d3 < 64 \<Longrightarrow> d4 < 64 \<Longrightarrow>
   base64_decode (b64_char d1 # b64_char d2 # b64_char d3 # b64_char d4 # rest) =
     map_option (\<lambda>s. b64_bytes (d1 * 262144 + d2 * 4096 + d3 * 64 + d4) @ s) (base64_decode rest)"
  by (simp add: b64_val_char b64_char_not_pad)

lemma decode_pad2:
  "d1 < 64 \<Longrightarrow> d2 < 64 \<Longrightarrow> d3 < 64 \<Longrightarrow>
   base64_decode [b64_char d1, b64_char d2, b64_char d3, CHR ''=''] =
     Some (take 2 (b64_bytes (d1 * 262144 + d2 * 4096 + d3 * 64)))"
  by (simp add: b64_val_char b64_char_not_pad)

lemma decode_pad1:
  "d1 < 64 \<Longrightarrow> d2 < 64 \<Longrightarrow>
   base64_decode [b64_char d1, b64_char d2, CHR ''='', CHR ''=''] =
     Some (take 1 (b64_bytes (d1 * 262144 + d2 * 4096)))"
  by (simp add: b64_val_char)

lemma decode_quad:
  assumes "(n::nat) < 16777216"
  shows "base64_decode (b64_quad n @ rest) = map_option (\<lambda>s. b64_bytes n @ s) (base64_decode rest)"
proof -
  have "base64_decode (b64_quad n @ rest) =
          map_option (\<lambda>s. b64_bytes (n div 262144 mod 64 * 262144 + n div 4096 mod 64 * 4096 +
                                     n div 64 mod 64 * 64 + n mod 64) @ s) (base64_decode rest)"
    unfolding b64_quad_def by (simp only: append_Cons append_Nil) (rule decode_digits; simp)
  then show ?thesis using quad_digits [of n] assms by simp
qed

lemma decode_quad_pad2:
  assumes "(n::nat) < 16777216" and "n mod 64 = 0"
  shows "base64_decode (take 3 (b64_quad n) @ ''='') = Some (take 2 (b64_bytes n))"
proof -
  have "base64_decode (take 3 (b64_quad n) @ ''='') =
          Some (take 2 (b64_bytes (n div 262144 mod 64 * 262144 + n div 4096 mod 64 * 4096 + n div 64 mod 64 * 64)))"
  proof -
    have "take 3 (b64_quad n) @ ''='' =
            [b64_char (n div 262144 mod 64), b64_char (n div 4096 mod 64), b64_char (n div 64 mod 64), CHR ''='']"
      by (simp add: b64_quad_def)
    then show ?thesis by (simp only:) (rule decode_pad2; simp)
  qed
  then show ?thesis using quad_digits [of n] assms by simp
qed

lemma decode_quad_pad1:
  assumes "(n::nat) < 16777216" and "n mod 4096 = 0"
  shows "base64_decode (take 2 (b64_quad n) @ ''=='') = Some (take 1 (b64_bytes n))"
proof -
  have m: "n mod 64 = 0" "n div 64 mod 64 = 0"
    using assms(2) mod_mult2_eq [of n 64 64] by simp_all
  have "base64_decode (take 2 (b64_quad n) @ ''=='') =
          Some (take 1 (b64_bytes (n div 262144 mod 64 * 262144 + n div 4096 mod 64 * 4096)))"
  proof -
    have "take 2 (b64_quad n) @ ''=='' =
            [b64_char (n div 262144 mod 64), b64_char (n div 4096 mod 64), CHR ''='', CHR ''='']"
      by (simp add: b64_quad_def)
    then show ?thesis by (simp only:) (rule decode_pad1; simp)
  qed
  then show ?thesis using quad_digits [of n] assms m by simp
qed

lemma char_of_bytes:
  fixes a b c :: char
  shows "b64_bytes (of_char a * 65536 + of_char b * 256 + of_char c) = [a, b, c]"
    and "of_char a * 65536 + of_char b * 256 + of_char c < (16777216::nat)"
proof -
  have ha: "of_char a < (256::nat)" and hb: "of_char b < (256::nat)" and hc: "of_char c < (256::nat)"
    by simp_all
  note ar = bytes_arith [OF hb hc, of "of_char a"]
  let ?n = "of_char a * 65536 + of_char b * 256 + of_char c :: nat"
  have "char_of (?n div 256) = b" using ar(2) char_of_mod_256 [of "?n div 256"] by simp
  moreover have "char_of ?n = c" using ar(3) char_of_mod_256 [of ?n] by simp
  ultimately show "b64_bytes ?n = [a, b, c]" using ar(1) by (simp add: b64_bytes_def)
  show "?n < 16777216" using ha hb hc by linarith
qed

theorem base64_roundtrip: "base64_decode (base64_encode s) = Some s"
proof (induction s rule: base64_encode.induct)
  case (1 a b c rest)
  then show ?case
    by (simp only: base64_encode.simps decode_quad [OF char_of_bytes(2)] char_of_bytes(1)) simp
next
  case (2 a b)
  have b: "b64_bytes (of_char a * 65536 + of_char b * 256) = [a, b, CHR 0x00]"
    using char_of_bytes(1) [of a b "CHR 0x00"] by simp
  have n: "(of_char a * 65536 + of_char b * 256 :: nat) < 16777216"
    using char_of_bytes(2) [of a b "CHR 0x00"] by simp
  have m: "(of_char a * 65536 + of_char b * 256 :: nat) mod 64 = 0" by simp
  show ?case by (simp only: base64_encode.simps decode_quad_pad2 [OF n m] b) simp
next
  case (3 a)
  have b: "b64_bytes (of_char a * 65536) = [a, CHR 0x00, CHR 0x00]"
    using char_of_bytes(1) [of a "CHR 0x00" "CHR 0x00"] by simp
  have n: "(of_char a * 65536 :: nat) < 16777216"
    using char_of_bytes(2) [of a "CHR 0x00" "CHR 0x00"] by simp
  have m: "(of_char a * 65536 :: nat) mod 4096 = 0" by simp
  show ?case by (simp only: base64_encode.simps decode_quad_pad1 [OF n m] b) simp
qed simp


section \<open>Properties of the decorators\<close>

lemma b64_char_code: "43 \<le> (of_char (b64_char i) :: nat)"
  by (simp add: b64_char_def) arith

lemma base64_encode_code: "c \<in> set (base64_encode s) \<Longrightarrow> 43 \<le> (of_char c :: nat)"
  by (induction s rule: base64_encode.induct)
     (auto simp: b64_quad_def b64_char_code dest: in_set_takeD)

lemma code_not_space: "43 \<le> (of_char c :: nat) \<Longrightarrow> \<not> is_ascii_space c"
  by (auto simp: is_ascii_space_def)

lemma base64_encode_nonempty: "s \<noteq> [] \<Longrightarrow> base64_encode s \<noteq> []"
  by (induction s rule: base64_encode.induct) (simp_all add: b64_quad_def)

lemma SetBasicAuth_header:
  "header_get (req_header (SetBasicAuth u p r)) ''Authorization'' = ''Basic '' @ basic_auth u p"
  by (simp add: SetBasicAuth_def header_get_def header_set_def)

text \<open>
  C39. What \<open>BasicAuthTransport\<close> hands to the next transport carries credentials that
  a server reads back: \<open>SplitAuthorizationHeader\<close> gives the scheme \<open>basic\<close> and a
  token that base64-decodes to \<open>user:password\<close>; every other header is unchanged.
\<close>

theorem BasicAuth_roundtrip:
  "\<exists>R. BasicAuthTransport next u p r = next R \<and>
        SplitAuthorizationHeader R = Inr (''basic'', basic_auth u p) \<and>
        base64_decode (basic_auth u p) = Some (u @ '':'' @ p) \<and>
        (\<forall>k. canonical_key k \<noteq> ''Authorization'' \<longrightarrow> header_get (req_header R) k = header_get (req_header r) k)"
proof (intro exI conjI)
  let ?v = "basic_auth u p"
  have ne: "?v \<noteq> []" by (simp add: basic_auth_def base64_encode_nonempty)
  have ns: "\<forall>c \<in> set ?v. \<not> is_ascii_space c"
  proof
    fix c assume "c \<in> set ?v"
    then have "43 \<le> (of_char c :: nat)" unfolding basic_auth_def by (rule base64_encode_code)
    then show "\<not> is_ascii_space c" by (rule code_not_space)
  qed
  have hl: "\<not> is_ascii_space (hd ?v)" "\<not> is_ascii_space (last ?v)" using ne ns by simp_all
  have w: "\<forall>c \<in> set ''Basic''. \<not> is_ascii_space c" "\<forall>c \<in> set '' ''. is_ascii_space c"
    by (simp_all add: is_ascii_space_def)
  have split: "split_header_ref (''Basic'' @ '' '' @ ?v) = (''Basic'', ?v)"
    using split_header_ref_words [OF _ w(1) _ w(2) ne hl(1)] by simp
  have "SplitHeaderOnSpace (''Basic'' @ '' '' @ ?v) = Inr (''Basic'', ?v)"
    using split_header_ref_eq [of "''Basic'' @ '' '' @ ?v"] split hl(2) ne by (simp add: is_ascii_space_def)
  then show "SplitAuthorizationHeader (SetBasicAuth u p r) = Inr (''basic'', ?v)"
    by (simp add: SplitAuthorizationHeader_def SetBasicAuth_header go_to_lower_def ascii_case_defs char_of_def bit_simps)
  show "base64_decode ?v = Some (u @ '':'' @ p)" by (simp add: basic_auth_def base64_roundtrip)
  show "\<forall>k. canonical_key k \<noteq> ''Authorization'' \<longrightarrow>
          header_get (req_header (SetBasicAuth u p r)) k = header_get (req_header r) k"
    by (simp add: SetBasicAuth_def header_get_def header_set_def)
qed (simp add: BasicAuthTransport_def)


theorem BasicAuth_roundtrip_witness:
  "SplitAuthorizationHeader (SetBasicAuth ''Aladdin'' ''open sesame'' ex_request) =
     Inr (''basic'', ''QWxhZGRpbjpvcGVuIHNlc2FtZQ=='') \<and>
   base64_decode ''QWxhZGRpbjpvcGVuIHNlc2FtZQ=='' = Some ''Aladdin:open sesame''"
proof -
  have enc: "basic_auth ''Aladdin'' ''open sesame'' = ''QWxhZGRpbjpvcGVuIHNlc2FtZQ==''"
    by (simp add: basic_auth_def b64_quad_def b64_char_def char_of_def bit_simps)
  obtain R where "BasicAuthTransport (\<lambda>r. (Some r, Inl Nil)) ''Aladdin'' ''open sesame'' ex_request =
                    (Some R, Inl Nil)"
      and "SplitAuthorizationHeader R = Inr (''basic'', basic_auth ''Aladdin'' ''open sesame'')"
      and "base64_decode (basic_auth ''Aladdin'' ''open sesame'') = Some (''Aladdin'' @ '':'' @ ''open sesame'')"
    using BasicAuth_roundtrip [of "\<lambda>r. (Some r, Inl Nil)" "''Aladdin''" "''open sesame''" ex_request] by auto
  then show ?thesis by (simp add: BasicAuthTransport_def enc)
qed

lemma UserAgentTransport_keeps:
  "header_get (req_header r) ''User-Agent'' \<noteq> [] \<Longrightarrow> UserAgentTransport next ua r = next r"
  by (simp add: UserAgentTransport_def)

text \<open>
  C40. \<open>URLPrefixTransport\<close> rewrites the caller's request in place, against the
  \<open>RoundTripper\<close> contract that a round trip does not modify the request: after one
  call the caller holds the prefixed URL, and sending the same request again (a retry)
  prefixes it a second time.
\<close>

theorem URLPrefixTransport_reuse:
  assumes "parse (server @ req_url r) = Inr once" and "parse (server @ once) = Inr twice"
  shows "URLPrefixTransport parse (net_rt send) server r =
           (Some (r\<lparr>req_url := once\<rparr>), send (r\<lparr>req_url := once\<rparr>)) \<and>
         URLPrefixTransport parse (net_rt send) server (r\<lparr>req_url := once\<rparr>) =
           (Some (r\<lparr>req_url := twice\<rparr>), send (r\<lparr>req_url := twice\<rparr>))"
  using assms by (simp add: URLPrefixTransport_def net_rt_def)

theorem URLPrefixTransport_reuse_witness:
  "URLPrefixTransport Inr (net_rt (\<lambda>r. Inl Nil)) ''https://example.com/api/v1''
      (ex_request\<lparr>req_url := ''https://example.com/api/v1/foo''\<rparr>) =
     (Some (ex_request\<lparr>req_url := ''https://example.com/api/v1https://example.com/api/v1/foo''\<rparr>), Inl Nil)"
  using URLPrefixTransport_reuse [where parse = Inr and server = "''https://example.com/api/v1''"
      and r = "ex_request\<lparr>req_url := ''/foo''\<rparr>" and once = "''https://example.com/api/v1/foo''"
      and twice = "''https://example.com/api/v1https://example.com/api/v1/foo''" and send = "\<lambda>r. Inl Nil"]
  by simp

end
