(* ===== verification/ClientStack.thy ===== *)
theory ClientStack
  imports Transports
begin

text \<open>
  The JSON client over the transport decorators of this repository: a
  \<open>JSONClient\<close> (json_client.go) whose \<open>http.Client\<close> has as \<open>Transport\<close> a
  \<open>URLPrefixTransport\<close> (url_prefix_transport.go) around a \<open>BasicAuthTransport\<close>
  (basic_auth_transport.go) around a \<open>UserAgentTransport\<close> (user_agent.go) around the
  network. The theory shows which request reaches the network and what \<open>DoJSON\<close>
  returns for the network's answer.
\<close>

section \<open>http.Client.Do over a transport\<close>

text \<open>
  \<open>http.Client.Do\<close> for a request that is not redirected: the transport's response,
  or its error wrapped as a \<open>*url.Error\<close>, given by the parameter \<open>url_err\<close> (the
  operation and the URL it prints are of no concern here).
\<close>

definition client_do :: "(goerr \<Rightarrow> goerr) \<Rightarrow> round_tripper \<Rightarrow> request \<Rightarrow> goerr + http_response" where
  "client_do url_err rt r = (case snd (rt r) of Inl e \<Rightarrow> Inl (url_err e) | Inr resp \<Rightarrow> Inr resp)"

section \<open>Lemmas\<close>

lemma canonical_user_agent [simp]: "canonical_key ''User-Agent'' = ''User-Agent''"
  by (simp add: canonical_key_def is_token_char_def ascii_case_defs Let_def char_of_def bit_simps)

text \<open>The header of the request the network receives, built in the order of the calls.\<close>

lemma stack_header_get:
  "header_get (header_set (header_set (header_set (header_add empty_header ''Content-type'' ''application/json'')
      ''Accept'' ''application/json'') ''Authorization'' a) ''User-Agent'' ua) k =
   (if k = ''Content-Type'' then ''application/json'' else if k = ''Accept'' then ''application/json''
    else if k = ''Authorization'' then a else if k = ''User-Agent'' then ua
    else header_get empty_header k)"
  if "canonical_key k = k"
  using that by (simp add: header_get_def header_add_def header_set_def)

section \<open>DoJSON through the transport stack\<close>

text \<open>
  C11. A \<open>DoJSON\<close> call with a request and a response value, made with a client whose
  transport is \<open>URLPrefixTransport\<close> over \<open>BasicAuthTransport\<close> over
  \<open>UserAgentTransport\<close> over the network, hands the network exactly one request: the
  method, the server prefix in front of the parsed URL, the marshalled body and the
  context, with \<open>Content-Type\<close> and \<open>Accept\<close> set to \<open>application/json\<close>, the basic
  credentials in \<open>Authorization\<close> and the configured \<open>User-Agent\<close>. The network's
  answer goes to \<open>HandleResponse\<close>, its error comes back wrapped by \<open>Client.Do\<close>.
\<close>

theorem DoJSON_over_transports:
  assumes "valid_method meth" and "parse uri = Inr u" and "parse (server @ u) = Inr u'"
    and "json_encode codec v = Inr buf"
    and "cl_do c = client_do url_err
           (URLPrefixTransport parse (BasicAuthTransport (UserAgentTransport (net_rt send) ua) user pw) server)"
  shows "\<exists>R. DoJSON codec parse c ctx meth uri (Some v) (Some t) =
               (case send R of Inl e \<Rightarrow> (url_err e, None) | Inr resp \<Rightarrow> HandleResponse codec c resp (Some t)) \<and>
             req_method R = meth \<and> req_url R = u' \<and> req_body R = buf \<and> req_ctx R = ctx \<and>
             header_get (req_header R) ''Content-Type'' = ''application/json'' \<and>
             header_get (req_header R) ''Accept'' = ''application/json'' \<and>
             header_get (req_header R) ''Authorization'' = ''Basic '' @ basic_auth user pw \<and>
             header_get (req_header R) ''User-Agent'' = ua"
proof -
  let ?H0 = "header_set (header_add empty_header ''Content-type'' ''application/json'') ''Accept'' ''application/json''"
  let ?H1 = "header_set ?H0 ''Authorization'' (''Basic '' @ basic_auth user pw)"
  let ?R = "\<lparr>req_method = meth, req_url = u', req_header = header_set ?H1 ''User-Agent'' ua,
             req_body = buf, req_ctx = ctx\<rparr>"
  have no_ua: "header_get ?H1 ''User-Agent'' = []"
    by (simp add: header_get_def header_add_def header_set_def)
  have "DoJSON codec parse c ctx meth uri (Some v) (Some t) =
          (case send ?R of Inl e \<Rightarrow> (url_err e, None) | Inr resp \<Rightarrow> HandleResponse codec c resp (Some t))"
    using assms no_ua
    by (simp add: DoJSON_def NewRequest_def new_request_ok client_do_def URLPrefixTransport_def
                  BasicAuthTransport_def SetBasicAuth_def UserAgentTransport_def net_rt_def
             split: sum.splits)
  then show ?thesis
    by (intro exI [of _ ?R]) (simp add: stack_header_get)
qed

theorem DoJSON_over_transports_witness:
  "DoJSON \<lparr>json_decode = (\<lambda>t b. Inr (VStruct ())), json_encode = (\<lambda>v. Inr ''{}'')\<rparr> Inr
          \<lparr>cl_do = client_do id
             (URLPrefixTransport Inr
                (BasicAuthTransport (UserAgentTransport (net_rt (\<lambda>r. Inl (Errorf ''connection refused''))) ''frobber/1.0'')
                   ''Aladdin'' ''open sesame'') ''https://api.example.com''),
           cl_on_error = None\<rparr>
          [] ''POST'' ''/frobs'' (Some (VStruct ())) (Some (GStruct ''Resp'')) =
        (Errorf ''connection refused'', None) \<and>
   (\<exists>R :: request. req_url R = ''https://api.example.com/frobs'' \<and>
      header_get (req_header R) ''Authorization'' = ''Basic QWxhZGRpbjpvcGVuIHNlc2FtZQ=='' \<and>
      header_get (req_header R) ''User-Agent'' = ''frobber/1.0'')"
proof -
  have b: "basic_auth ''Aladdin'' ''open sesame'' = ''QWxhZGRpbjpvcGVuIHNlc2FtZQ==''"
    by (simp add: basic_auth_def b64_quad_def b64_char_def char_of_def bit_simps)
  show ?thesis
    using DoJSON_over_transports [where meth = "''POST''" and parse = Inr and uri = "''/frobs''"
        and u = "''/frobs''" and server = "''https://api.example.com''"
        and u' = "''https://api.example.com/frobs''" and buf = "''{}''" and v = "VStruct ()"
        and codec = "\<lparr>json_decode = (\<lambda>t b. Inr (VStruct ())), json_encode = (\<lambda>v. Inr ''{}'')\<rparr>"
        and t = "GStruct ''Resp''" and ctx = "[]" and url_err = id
        and send = "\<lambda>r. Inl (Errorf ''connection refused'')" and ua = "''frobber/1.0''"
        and user = "''Aladdin''" and pw = "''open sesame''"
        and c = "\<lparr>cl_do = client_do id
             (URLPrefixTransport Inr
                (BasicAuthTransport (UserAgentTransport (net_rt (\<lambda>r. Inl (Errorf ''connection refused''))) ''frobber/1.0'')
                   ''Aladdin'' ''open sesame'') ''https://api.example.com''),
           cl_on_error = None\<rparr>"]
    by (simp add: valid_method_def is_token_char_def ascii_case_defs b) blast
qed

end
