(* ===== verification/JsonTyping.thy ===== *)
theory JsonTyping
  imports JsonHandler
begin

text \<open>
  Type safety of the reflective adapter (json.go): values crossing
  \<open>reflect.Value.Call\<close> are typed by the Go types of the signature, and a handler that
  \<open>JSONHandler\<close> accepted never panics while serving, provided the function and the
  decoder respect their types and the function has at least one result. Without a
  result the closure panics on \<open>out[0]\<close> (json.go:116).
\<close>

section \<open>Typing of reflect values\<close>

text \<open>The predeclared interface type \<open>error\<close>.\<close>

definition error_type :: gotype where
  "error_type = GOther ''interface'' ''error''"

text \<open>
  A value has a type: a pointer type holds nil, a pointer to a struct, or the request
  for \<open>*http.Request\<close>; an interface type holds nil, and \<open>error\<close> holds every error;
  a struct type holds a struct value.
\<close>

fun gval_has_type :: "gotype \<Rightarrow> 'v gval \<Rightarrow> bool" where
  "gval_has_type (GPtr t) VNil = True"
| "gval_has_type (GPtr t) (VPtr x) = True"
| "gval_has_type (GPtr t) (VReq r) = (t = request_type)"
| "gval_has_type (GOther k n) VNil = (k = ''interface'')"
| "gval_has_type (GOther k n) (VErr e) = (k = ''interface'' \<and> n = ''error'')"
| "gval_has_type (GStruct n) (VStruct x) = True"
| "gval_has_type t v = False"

text \<open>
  Go prints every type other than the predeclared \<open>error\<close> differently from
  \<open>error\<close> (a named type is qualified by its package), which the string comparison of
  the result types relies on.
\<close>

definition error_named_ok :: "gotype list \<Rightarrow> bool" where
  "error_named_ok ts \<longleftrightarrow> (\<forall>t\<in>set ts. type_string t = ''error'' \<longrightarrow> t = error_type)"

text \<open>The function returns values of its result types on arguments of its parameter types.\<close>

definition func_typed :: "fsig \<Rightarrow> 'v gofunc \<Rightarrow> bool" where
  "func_typed ft f \<longleftrightarrow>
     (\<forall>args. list_all2 gval_has_type (fins ft) args \<longrightarrow> list_all2 gval_has_type (fouts ft) (f args))"

text \<open>The decoder yields a value of the type it decodes into.\<close>

definition codec_typed :: "'v json_codec \<Rightarrow> bool" where
  "codec_typed codec \<longleftrightarrow> (\<forall>t b v. json_decode codec t b = Inr v \<longrightarrow> gval_has_type t v)"

section \<open>Lemmas\<close>

text \<open>What the bind-time checks guarantee to the serving closure.\<close>

lemma json_handler_check_shapes:
  assumes "json_handler_check ft = Inr ()"
  shows "spec_ins_ok (fins ft)" and "spec_outs_ok (fouts ft) \<or> 3 \<le> length (fouts ft)"
proof -
  have ins: "spec_ins_ok (fins ft)"
    using assms by (auto simp: json_handler_check_def Let_def ins_checks_iff [symmetric] split: if_splits)
  show "spec_ins_ok (fins ft)" by (fact ins)
  show "spec_outs_ok (fouts ft) \<or> 3 \<le> length (fouts ft)"
  proof (cases "3 \<le> length (fouts ft)")
    case False
    then have "length (fouts ft) \<le> 2" by simp
    then show ?thesis using assms
      by (auto simp: json_handler_check_def Let_def outs_checks_iff [symmetric] split: if_splits)
  qed simp
qed

lemma json_call_typed:
  assumes ins: "spec_ins_ok (fins ft)" and c: "codec_typed codec" and f: "func_typed ft f"
  shows "(\<exists>e. json_call codec ft f r = Inl e) \<or>
         (\<exists>out. json_call codec ft f r = Inr out \<and> list_all2 gval_has_type (fouts ft) out)"
proof -
  have req: "gval_has_type (GPtr request_type) (VReq r)" by simp
  consider "fins ft = [GPtr request_type]"
    | a where "fins ft = [GPtr request_type, a]"
    using ins by (auto simp: spec_ins_ok_def)
  then show ?thesis
  proof cases
    case 1
    then show ?thesis using f req by (simp add: json_call_one func_typed_def)
  next
    case 2
    show ?thesis
    proof (cases "json_decode codec a (req_body r)")
      case (Inl msg)
      then show ?thesis using 2 by (simp add: json_call_def)
    next
      case (Inr v)
      then have "gval_has_type a v" using c by (simp add: codec_typed_def)
      then show ?thesis using 2 Inr f req by (simp add: json_call_two func_typed_def)
    qed
  qed
qed

lemma result_error_typed:
  assumes err_ok: "\<And>v :: 'v gval. gval_has_type error_type v \<Longrightarrow> \<exists>e. as_error v = Inr e"
    and outs: "spec_outs_ok (fouts ft) \<or> 3 \<le> length (fouts ft)"
    and named: "error_named_ok (fouts ft)" and typed: "list_all2 gval_has_type (fouts ft) (out :: 'v gval list)"
  shows "\<exists>e. result_error ft out = Inr e"
proof -
  consider "fouts ft = []" | e where "fouts ft = [e]" "type_string e = ''error''"
    | p e where "fouts ft = [p, e]" "type_string e = ''error''" | "3 \<le> length (fouts ft)"
    using outs by (auto simp: spec_outs_ok_def)
  then show ?thesis
  proof cases
    case 2
    then obtain v where o: "out = [v]" and t: "gval_has_type error_type v"
      using typed named by (auto simp: error_named_ok_def list_all2_Cons1)
    obtain x where "as_error v = Inr x" using err_ok [OF t] by blast
    then show ?thesis using 2 o by (simp add: result_error_def)
  next
    case 3
    then obtain u v where o: "out = [u, v]" and t: "gval_has_type error_type v"
      using typed named by (auto simp: error_named_ok_def list_all2_Cons1)
    obtain x where "as_error v = Inr x" using err_ok [OF t] by blast
    then show ?thesis using 3 o by (simp add: result_error_def)
  qed (simp_all add: result_error_def)
qed

lemma with_rw_safe_ops:
  "\<exists>s'. with_rw s [WriteHeader 204] = Inr s'"
  "\<exists>s'. with_rw s [HdrAdd k v] = Inr s'"
  "\<exists>s'. with_rw s [WriteBody t] = Inr s'"
  by (simp_all add: with_rw_def write_header_def split: sum.splits option.splits)

lemma json_serve_typed_out:
  assumes call: "json_call codec ft f r = Inr out" and nonempty: "fouts ft \<noteq> []"
    and typed: "list_all2 gval_has_type (fouts ft) out" and err: "result_error ft out = Inr e"
  shows "\<exists>s' e'. json_serve codec ft f r s = Inr (s', e')"
proof -
  obtain v vs where out: "out = v # vs"
    using nonempty typed by (cases out) auto
  obtain s1 where s1: "with_rw s [HdrAdd ''Content-type'' ''application/json''] = Inr s1"
    using with_rw_safe_ops(2) by blast
  obtain s0 where s0: "with_rw s [WriteHeader 204] = Inr s0"
    using with_rw_safe_ops(1) by blast
  show ?thesis
  proof (cases "json_encode codec v")
    case (Inl msg)
    then show ?thesis using call err out s0 s1 by (simp add: json_serve_def)
  next
    case (Inr body)
    obtain s2 where "with_rw s1 [WriteBody (body @ LF)] = Inr s2"
      using with_rw_safe_ops(3) by blast
    then show ?thesis using call err out s0 s1 Inr by (simp add: json_serve_def)
  qed
qed

section \<open>Type safety\<close>

text \<open>
  C10. Type safety of \<open>JSONHandler\<close>: when the signature checks accept a function with
  at least one result, the function and the JSON decoder respect their Go types, and
  \<open>error\<close> is the only result type printed \<open>error\<close>, serving any request with the
  returned handler never panics; it always ends with a response writer and an error value.
\<close>

theorem json_handler_type_safe:
  assumes h: "JSONHandler codec ft f = Inr h" and nonempty: "fouts ft \<noteq> []"
    and named: "error_named_ok (fouts ft)" and c: "codec_typed codec" and f: "func_typed ft f"
  shows "\<exists>s' e. h r s = Inr (s', e)"
proof -
  from JSONHandler_Inr [OF h] have chk: "json_handler_check ft = Inr ()"
    and serve: "h = json_serve codec ft f" by simp_all
  from chk have ins: "spec_ins_ok (fins ft)"
    and outs: "spec_outs_ok (fouts ft) \<or> 3 \<le> length (fouts ft)"
    using json_handler_check_shapes by simp_all
  from json_call_typed [OF ins c f, of r] show ?thesis
  proof
    assume "\<exists>e. json_call codec ft f r = Inl e"
    then show ?thesis by (auto simp: serve json_serve_def)
  next
    assume "\<exists>out. json_call codec ft f r = Inr out \<and> list_all2 gval_has_type (fouts ft) out"
    then obtain out where call: "json_call codec ft f r = Inr out"
      and typed: "list_all2 gval_has_type (fouts ft) out" by blast
    have err_ok: "\<exists>e. as_error v = Inr e" if "gval_has_type error_type v" for v
      using that by (cases v) (auto simp: error_type_def)
    obtain e where "result_error ft out = Inr e"
      using result_error_typed [OF err_ok outs named typed] by blast
    then show ?thesis using json_serve_typed_out [OF call nonempty typed] by (simp add: serve)
  qed
qed

text \<open>
  A handler \<open>func(r *http.Request, in In) ( *Out, error)\<close> that always succeeds, with
  a decoder that rejects the empty body.
\<close>

definition ex_typed_codec :: "unit json_codec" where
  "ex_typed_codec =
     \<lparr>json_decode = (\<lambda>t b. if b = [] then Inl ''EOF''
                         else case t of GStruct n \<Rightarrow> Inr (VStruct ()) | GPtr u \<Rightarrow> Inr (VPtr ())
                                      | GOther k n \<Rightarrow> Inl ''unsupported type''),
      json_encode = (\<lambda>v. Inr ''{}'')\<rparr>"

definition ex_typed_sig :: fsig where
  "ex_typed_sig = \<lparr>fins = [GPtr request_type, GStruct ''In''], fouts = [GPtr (GStruct ''Out''), error_type]\<rparr>"

theorem json_handler_type_safe_witness:
  "\<exists>s' e. projr (JSONHandler ex_typed_codec ex_typed_sig (\<lambda>args. [VPtr (), VNil])) ex_request ex_served =
     Inr (s', e)"
proof -
  have h: "JSONHandler ex_typed_codec ex_typed_sig (\<lambda>args. [VPtr (), VNil]) =
           Inr (projr (JSONHandler ex_typed_codec ex_typed_sig (\<lambda>args. [VPtr (), VNil])))"
    by (simp add: JSONHandler_def json_handler_check_def ex_typed_sig_def request_type_def error_type_def)
  have c: "codec_typed ex_typed_codec"
    by (auto simp: codec_typed_def ex_typed_codec_def split: gotype.splits if_splits)
  have f: "func_typed ex_typed_sig (\<lambda>args. [VPtr (), VNil])"
    by (simp add: func_typed_def ex_typed_sig_def error_type_def)
  have n: "error_named_ok (fouts ex_typed_sig)"
    by (simp add: error_named_ok_def ex_typed_sig_def error_type_def)
  show ?thesis
    by (rule json_handler_type_safe [OF h _ n c f]) (simp add: ex_typed_sig_def)
qed

end
