(* ===== verification/Serving.thy ===== *)
theory Serving
  imports JsonTyping
begin

text \<open>
  Serving a request end to end: the JSON handler (json.go) runs inside
  \<open>HandlerFunc.ServeHTTP\<close>, whose error goes through the translators and
  \<open>ReportError\<close> to the request's \<open>OnError\<close> callback or to \<open>Write\<close> (handler.go,
  translate.go, write.go). The theory shows that every request is answered, a status
  written or the error handed to the callback, when every error that can reach
  \<open>Write\<close> is one it can render.
\<close>

section \<open>Errors that Write can render\<close>

text \<open>
  \<open>Write\<close> renders an error without panicking and writes a status when no
  self-rendering error is in its chain, its code is 0 or a valid HTTP code, and, if it is
  public, its message can be computed.
\<close>

definition answerable :: "goerr \<Rightarrow> bool" where
  "answerable e \<longleftrightarrow>
     errors_as response_writer e = None \<and>
     (StatusCode e = 0 \<or> 100 \<le> StatusCode e \<and> StatusCode e \<le> 999) \<and>
     (IsPublic e \<longrightarrow> \<not> isl (error_text e))"

text \<open>Translators that keep errors renderable.\<close>

definition translators_answerable :: "httperr_state \<Rightarrow> bool" where
  "translators_answerable st \<longleftrightarrow>
     (\<forall>t\<in>set (error_translators st). \<forall>e. answerable e \<longrightarrow> answerable (t e))"

section \<open>Lemmas\<close>

lemma error_text_pkg_cause:
  "error_text e = Inr t \<Longrightarrow> \<exists>t'. error_text (pkg_cause e) = Inr t'"
  by (induction e arbitrary: t rule: pkg_cause.induct) (auto split: sum.splits)

lemma rw_exec_started:
  "rw_status w = Some c \<Longrightarrow> \<exists>w'. rw_exec op w = Inr w' \<and> rw_status w' = Some c"
  by (cases op) (auto simp: write_header_def)

lemma rw_run_started:
  "rw_status w = Some c \<Longrightarrow> \<exists>w'. rw_run ops w = Inr w' \<and> rw_status w' = Some c"
proof (induction ops arbitrary: w)
  case (Cons op ops)
  then obtain w1 where "rw_exec op w = Inr w1" "rw_status w1 = Some c"
    using rw_exec_started by blast
  with Cons.IH show ?case by simp
qed simp

lemma write_ops_answerable:
  assumes a: "answerable e"
  obtains "write_ops now e = Inr (http_error (status_text (if StatusCode e = 0 then 500 else StatusCode e))
                                           (if StatusCode e = 0 then 500 else StatusCode e))"
  | t where "write_ops now e = Inr (HdrAdd ''X-Error-Message'' t #
              http_error (status_text (if StatusCode e = 0 then 500 else StatusCode e))
                         (if StatusCode e = 0 then 500 else StatusCode e))"
proof (cases "IsPublic e")
  case False
  then show ?thesis using a that(1) by (simp add: answerable_def write_ops_private)
next
  case True
  then obtain t0 where t0: "error_text e = Inr t0"
    using a by (cases "error_text e") (auto simp: answerable_def)
  then obtain t where "error_text (pkg_cause e) = Inr t"
    using error_text_pkg_cause by blast
  then show ?thesis using a True t0 that(2) by (simp add: answerable_def write_ops_public)
qed

lemma Write_answers:
  assumes a: "answerable e"
  shows "\<exists>w'. Write now w e = Inr w' \<and> rw_status w' \<noteq> None"
proof -
  let ?c = "if StatusCode e = 0 then 500 else StatusCode e"
  have c: "100 \<le> ?c" "?c \<le> 999" using a by (auto simp: answerable_def)
  obtain ops where ops: "write_ops now e = Inr ops"
    and fresh: "rw_status w = None \<Longrightarrow> \<exists>w'. rw_run ops w = Inr w' \<and> rw_status w' \<noteq> None"
  proof (rule write_ops_answerable [OF a])
    assume "write_ops now e = Inr (http_error (status_text ?c) ?c)"
    then show ?thesis using c by (intro that) (auto simp: rw_run_http_error)
  next
    fix t
    assume "write_ops now e = Inr (HdrAdd ''X-Error-Message'' t # http_error (status_text ?c) ?c)"
    then show ?thesis using c by (intro that) (auto simp: rw_run_http_error)
  qed
  show ?thesis
  proof (cases "rw_status w")
    case None
    then show ?thesis using fresh ops by (simp add: Write_def)
  next
    case (Some c0)
    then show ?thesis using rw_run_started [OF Some, of ops] ops by (auto simp: Write_def)
  qed
qed

lemma fold_answerable:
  "\<forall>t\<in>set ts. \<forall>e. answerable e \<longrightarrow> answerable (t e) \<Longrightarrow> answerable e \<Longrightarrow>
   answerable (fold (\<lambda>t e. t e) ts e)"
  by (induction ts arbitrary: e) auto

lemma TranslateError_answerable:
  "translators_answerable st \<Longrightarrow> answerable e \<Longrightarrow> answerable (TranslateError st e)"
  unfolding translators_answerable_def TranslateError_def by (rule fold_answerable)

lemma answerable_Errorf: "answerable (Errorf m) \<and> \<not> is_nil (Errorf m)"
  by (simp add: answerable_def chain_lookups)

lemma answerable_public_400: "answerable (Public 400 (Errorf m)) \<and> \<not> is_nil (Public 400 (Errorf m))"
  by (simp add: answerable_def public_400_lookups) (simp add: Public_def Wrap_def)

section \<open>The serving closure answers\<close>

lemma json_call_Inl: "json_call codec ft f r = Inl e \<Longrightarrow> \<exists>msg. e = Public 400 (Errorf msg)"
  by (auto simp: json_call_def split: if_splits sum.splits)

lemma json_call_Inr:
  "spec_ins_ok (fins ft) \<Longrightarrow> json_call codec ft f r = Inr out \<Longrightarrow> \<exists>args. out = f args"
  by (auto simp: json_call_def spec_ins_ok_def split: if_splits sum.splits)

lemma as_error_Inr: "as_error v = Inr e \<Longrightarrow> v = VNil \<and> e = Nil \<or> v = VErr e"
  by (cases v) auto

lemma go_index_Inr: "go_index xs i = Inr v \<Longrightarrow> v \<in> set xs"
  by (auto simp: go_index_def split: if_splits)

lemma result_error_origin: "result_error ft out = Inr e \<Longrightarrow> is_nil e \<or> VErr e \<in> set out"
  unfolding result_error_def
  by (auto simp: go_bind_Inr_iff split: if_splits dest!: as_error_Inr go_index_Inr)

lemma with_rw_answers:
  "\<exists>s'. with_rw s [WriteHeader 204] = Inr s' \<and> rw_status (srv_rw s') \<noteq> None \<and> srv_reports s' = srv_reports s"
  "\<exists>s'. with_rw s [WriteBody t] = Inr s' \<and> rw_status (srv_rw s') \<noteq> None \<and> srv_reports s' = srv_reports s"
  by (simp_all add: with_rw_def write_header_def split: option.splits)

lemma json_serve_outcome:
  fixes codec :: "'v json_codec" and f :: "'v gofunc"
  assumes ins: "spec_ins_ok (fins ft)"
    and outs: "spec_outs_ok (fouts ft) \<or> 3 \<le> length (fouts ft)"
    and nonempty: "fouts ft \<noteq> []" and named: "error_named_ok (fouts ft)"
    and c: "codec_typed codec" and f: "func_typed ft f"
    and err_ok: "\<And>v :: 'v gval. gval_has_type error_type v \<Longrightarrow> \<exists>e. as_error v = Inr e"
    and errs: "\<forall>args e. VErr e \<in> set (f args) \<longrightarrow> answerable e"
  shows "\<exists>s' e. json_serve codec ft f r s = Inr (s', e) \<and> srv_reports s' = srv_reports s \<and>
                ((is_nil e \<and> rw_status (srv_rw s') \<noteq> None) \<or> (\<not> is_nil e \<and> answerable e))"
  using json_call_typed [OF ins c f, of r]
proof
  assume "\<exists>e. json_call codec ft f r = Inl e"
  then obtain msg where "json_call codec ft f r = Inl (Public 400 (Errorf msg))"
    using json_call_Inl by blast
  then show ?thesis using answerable_public_400 [of msg] by (simp add: json_serve_def)
next
  assume "\<exists>out. json_call codec ft f r = Inr out \<and> list_all2 gval_has_type (fouts ft) out"
  then obtain out where call: "json_call codec ft f r = Inr out"
    and typed: "list_all2 gval_has_type (fouts ft) out" by blast
  obtain e where re: "result_error ft out = Inr e"
    using result_error_typed [OF err_ok outs named typed] by blast
  show ?thesis
  proof (cases "is_nil e")
    case False
    obtain args where "out = f args" using json_call_Inr [OF ins call] by blast
    then have "answerable e" using errs result_error_origin [OF re] False by blast
    then show ?thesis using call re False by (simp add: json_serve_def)
  next
    case nil: True
    obtain v vs where out: "out = v # vs" using nonempty typed by (cases out) auto
    show ?thesis
    proof (cases "length (fouts ft) = 1")
      case True
      obtain s0 where "with_rw s [WriteHeader 204] = Inr s0" "rw_status (srv_rw s0) \<noteq> None"
        "srv_reports s0 = srv_reports s" using with_rw_answers(1) by blast
      then show ?thesis using call re nil True by (simp add: json_serve_def)
    next
      case False
      let ?s1 = "s\<lparr>srv_rw := srv_rw s\<lparr>rw_header :=
                   header_add (rw_header (srv_rw s)) ''Content-type'' ''application/json''\<rparr>\<rparr>"
      show ?thesis
      proof (cases "json_encode codec v")
        case (Inl msg)
        then show ?thesis using call re nil False out answerable_Errorf [of msg]
          by (simp add: json_serve_def with_rw_add_json)
      next
        case (Inr body)
        obtain s2 where "with_rw ?s1 [WriteBody (body @ LF)] = Inr s2" "rw_status (srv_rw s2) \<noteq> None"
          "srv_reports s2 = srv_reports ?s1" using with_rw_answers(2) by blast
        then show ?thesis using call re nil False out Inr by (simp add: json_serve_def with_rw_add_json)
      qed
    qed
  qed
qed

section \<open>ServeHTTP answers\<close>

lemma serve_handler_answers:
  assumes run: "f r s = Inr (s1, e)" and keep: "srv_reports s1 = srv_reports s"
    and res: "(is_nil e \<and> rw_status (srv_rw s1) \<noteq> None) \<or> (\<not> is_nil e \<and> answerable e)"
    and tr: "translators_answerable st"
    and cb: "ctx_value (req_ctx r) OnErrorIndex = None \<or>
             (\<exists>g. ctx_value (req_ctx r) OnErrorIndex = Some (OnErrorFunc g))"
  shows "\<exists>s'. serve_handler_func st f r s = Inr s' \<and>
           (rw_status (srv_rw s') \<noteq> None \<or> length (srv_reports s') = Suc (length (srv_reports s)))"
proof (cases "is_nil e")
  case True
  then show ?thesis using run res by (simp add: serve_handler_func_def)
next
  case False
  then have a: "answerable (TranslateError st e)" using res tr by (simp add: TranslateError_answerable)
  from cb show ?thesis
  proof
    assume none: "ctx_value (req_ctx r) OnErrorIndex = None"
    obtain w' where "Write (now_time st) (srv_rw s1) (TranslateError st e) = Inr w'" "rw_status w' \<noteq> None"
      using Write_answers [OF a] by blast
    then show ?thesis using run False none by (simp add: serve_handler_func_def ReportError_write)
  next
    assume "\<exists>g. ctx_value (req_ctx r) OnErrorIndex = Some (OnErrorFunc g)"
    then obtain g where "ctx_value (req_ctx r) OnErrorIndex = Some (OnErrorFunc g)" by blast
    then show ?thesis using run False keep by (simp add: serve_handler_func_def ReportError_callback)
  qed
qed

section \<open>The writer stays in a reachable state\<close>

text \<open>
  Every write of the pipeline goes through the writer's operations, so a writer
  reachable from a fresh one stays reachable (\<^const>\<open>rw_reachable\<close>, NetHttp).
\<close>

lemma with_rw_reachable:
  "with_rw s ops = Inr s' \<Longrightarrow> rw_reachable (srv_rw s) \<Longrightarrow> rw_reachable (srv_rw s')"
  by (auto simp: with_rw_def go_bind_Inr_iff intro: rw_run_reachable)

lemma json_serve_reachable:
  assumes "json_serve codec ft f r s = Inr (s', e)" and "rw_reachable (srv_rw s)"
  shows "rw_reachable (srv_rw s')"
  using assms
  apply (auto simp: json_serve_def go_bind_Inr_iff split: sum.splits if_splits
              dest!: with_rw_reachable)
  by (metis sum.exhaust with_rw_reachable)

lemma Write_reachable: "Write now w e = Inr w' \<Longrightarrow> rw_reachable w \<Longrightarrow> rw_reachable w'"
  by (auto dest: Write_cases intro: rw_run_reachable)

lemma ReportError_reachable:
  "ReportError st r e s = Inr s' \<Longrightarrow> rw_reachable (srv_rw s) \<Longrightarrow> rw_reachable (srv_rw s')"
  by (auto simp: ReportError_def Let_def split: option.splits ctx_val.splits sum.splits
           dest: Write_reachable)

section \<open>Every request is answered\<close>

text \<open>
  C12. Every request served by a handler that \<open>JSONHandler\<close> accepted is answered: a
  status is written, or the error is handed to the request's \<open>OnError\<close> callback. This
  holds when the function and the decoder respect their types, the function has a
  result, every error it returns is one \<open>Write\<close> can render, the registered
  translators keep errors renderable, and the context's \<open>OnError\<close> slot is empty or
  holds a callback.
\<close>

theorem json_request_answered:
  assumes h: "JSONHandler codec ft f = Inr h" and nonempty: "fouts ft \<noteq> []"
    and named: "error_named_ok (fouts ft)" and c: "codec_typed codec" and f: "func_typed ft f"
    and errs: "\<forall>args e. VErr e \<in> set (f args) \<longrightarrow> answerable e"
    and tr: "translators_answerable st"
    and cb: "ctx_value (req_ctx r) OnErrorIndex = None \<or>
             (\<exists>g. ctx_value (req_ctx r) OnErrorIndex = Some (OnErrorFunc g))"
  shows "\<exists>s'. serve_handler_func st h r s = Inr s' \<and>
           (rw_status (srv_rw s') \<noteq> None \<or> length (srv_reports s') = Suc (length (srv_reports s)))"
proof -
  from JSONHandler_Inr [OF h] have chk: "json_handler_check ft = Inr ()"
    and serve: "h = json_serve codec ft f" by simp_all
  from chk have ins: "spec_ins_ok (fins ft)"
    and outs: "spec_outs_ok (fouts ft) \<or> 3 \<le> length (fouts ft)"
    using json_handler_check_shapes by simp_all
  have err_ok: "\<exists>e. as_error v = Inr e" if "gval_has_type error_type v" for v
    using that by (cases v) (auto simp: error_type_def)
  obtain s1 e where run: "json_serve codec ft f r s = Inr (s1, e)"
    and keep: "srv_reports s1 = srv_reports s"
    and res: "(is_nil e \<and> rw_status (srv_rw s1) \<noteq> None) \<or> (\<not> is_nil e \<and> answerable e)"
    using json_serve_outcome [OF ins outs nonempty named c f err_ok errs, of r s] by blast
  show ?thesis
    using serve_handler_answers [of h r s s1 e, OF _ keep res tr cb] run by (simp add: serve)
qed

theorem json_request_answered_witness:
  "\<exists>s'. serve_handler_func \<lparr>error_translators = [], now_time = 0\<rparr>
          (projr (JSONHandler ex_typed_codec ex_typed_sig
                    (\<lambda>args. [VNil, VErr (Wrap 404 (Errorf ''no such frob''))])))
          ex_request ex_served = Inr s' \<and>
        (rw_status (srv_rw s') \<noteq> None \<or> length (srv_reports s') = Suc (length (srv_reports ex_served)))"
proof -
  let ?f = "\<lambda>args :: unit gval list. [VNil, VErr (Wrap 404 (Errorf ''no such frob''))]"
  have h: "JSONHandler ex_typed_codec ex_typed_sig ?f = Inr (projr (JSONHandler ex_typed_codec ex_typed_sig ?f))"
    by (simp add: JSONHandler_def json_handler_check_def ex_typed_sig_def request_type_def error_type_def)
  have c: "codec_typed ex_typed_codec"
    by (auto simp: codec_typed_def ex_typed_codec_def split: gotype.splits if_splits)
  have f: "func_typed ex_typed_sig ?f"
    by (simp add: func_typed_def ex_typed_sig_def error_type_def)
  have n: "error_named_ok (fouts ex_typed_sig)"
    by (simp add: error_named_ok_def ex_typed_sig_def error_type_def)
  have e: "\<forall>args e. VErr e \<in> set (?f args) \<longrightarrow> answerable e"
    by (simp add: answerable_def chain_lookups error_ctor_defs)
  have t: "translators_answerable \<lparr>error_translators = [], now_time = 0\<rparr>"
    by (simp add: translators_answerable_def)
  have cb: "ctx_value (req_ctx ex_request) OnErrorIndex = None"
    by (simp add: ctx_value_def)
  show ?thesis
    using json_request_answered [OF h _ n c f e t, of ex_request ex_served] cb by (simp add: ex_typed_sig_def)
qed

section \<open>The writer's invariant across serving\<close>



end
