(* ===== verification/ErrorFormat.thy ===== *)
theory ErrorFormat
  imports Errors
begin

text \<open>
  Printing errors with the \<open>fmt\<close> verbs: the \<open>Format\<close> method of
  \<open>errorWithStatus\<close> (wrap.go), the \<open>Format\<close> method of the \<open>pkg/errors\<close> wrapper
  it meets in a chain, and the parts of \<open>fmt\<close> and \<open>strconv\<close> they call. The state
  \<open>fmt.State\<close> is the text written; a panic inside a method is recovered by \<open>fmt\<close>
  and printed in its \<open>%!v(PANIC=...)\<close> form.
\<close>

section \<open>Verbs and quoting\<close>

text \<open>
  The verb rune with the \<open>+\<close> flag folded in: \<open>%v\<close>, \<open>%+v\<close>, \<open>%s\<close>, \<open>%q\<close>,
  and any other verb.
\<close>

datatype fverb = VerbV | VerbPlusV | VerbS | VerbQ | VerbOther char

text \<open>The dynamic types that implement \<open>fmt.Formatter\<close> (the assertion of wrap.go:41).\<close>

fun is_formatter :: "goerr \<Rightarrow> bool" where
  "is_formatter (WithStatus c e) = True"
| "is_formatter (PkgWrap m e) = True"
| "is_formatter _ = False"

definition hex_digit :: "nat \<Rightarrow> char" where
  "hex_digit n = (if n < 10 then char_of (48 + n) else char_of (87 + n))"

text \<open>
  One byte as \<open>strconv.Quote\<close> writes it: quote and backslash escaped, the seven
  named control escapes, other control bytes and DEL as \<open>\x\<close> with two lower-case hex
  digits, printable ASCII as is. Bytes from 0x80 are kept, as Go keeps the printable
  runes of valid UTF-8.
\<close>

definition quote_char :: "char \<Rightarrow> string" where
  "quote_char c =
     (let n = (of_char c :: nat) in
      if c = CHR 0x22 \<or> c = CHR 0x5C then [CHR 0x5C, c]
      else if n = 7 then [CHR 0x5C, CHR ''a'']
      else if n = 8 then [CHR 0x5C, CHR ''b'']
      else if n = 12 then [CHR 0x5C, CHR ''f'']
      else if n = 10 then [CHR 0x5C, CHR ''n'']
      else if n = 13 then [CHR 0x5C, CHR ''r'']
      else if n = 9 then [CHR 0x5C, CHR ''t'']
      else if n = 11 then [CHR 0x5C, CHR ''v'']
      else if 32 \<le> n \<and> n \<noteq> 127 then [c]
      else [CHR 0x5C, CHR ''x'', hex_digit (n div 16), hex_digit (n mod 16)])"

definition go_quote :: "string \<Rightarrow> string" where
  "go_quote s = CHR 0x22 # concat (map quote_char s) @ [CHR 0x22]"

text \<open>
  \<open>fmt\<close>'s recovery of a panic in the method it calls on an argument printed with
  \<open>%+v\<close> (the verb is written without its flag).
\<close>

definition fmt_catch :: "string \<Rightarrow> string go \<Rightarrow> string" where
  "fmt_catch meth r =
     (case r of Inr t \<Rightarrow> t | Inl p \<Rightarrow> ''%!v(PANIC='' @ meth @ '' method: '' @ p @ '')'')"

text \<open>
  The text \<open>fmt\<close> prints for an error argument under \<open>%+v\<close>, given what its
  \<open>Format\<close> method writes: \<open><nil>\<close> for nil, the \<open>Format\<close> output for a formatter,
  \<open>Error()\<close> otherwise.
\<close>

definition fmt_plusv :: "string go \<Rightarrow> goerr \<Rightarrow> string" where
  "fmt_plusv fr e =
     (if is_nil e then ''<nil>''
      else if is_formatter e then fmt_catch ''Format'' fr
      else fmt_catch ''Error'' (error_text e))"

section \<open>The Format methods\<close>

text \<open>
  \<open>format stk v e\<close> is what \<open>e.Format(s, v)\<close> writes, or its panic. For
  \<open>WithStatus c e\<close> it is wrap.go 40--58: delegate to a formatting inner error,
  else \<open>%+v\<close> prints \<open>"%d %+v"\<close> of the code and the inner error, \<open>%v\<close> falls
  through to \<open>%s\<close> and writes \<open>Error()\<close>, \<open>%q\<close> quotes \<open>Error()\<close>, and any other
  verb writes nothing. For \<open>PkgWrap m e\<close> it is the \<open>pkg/errors\<close> \<open>withStack\<close>
  around \<open>withMessage\<close>: \<open>%+v\<close> prints the cause with \<open>%+v\<close>, a newline, the
  message and the recorded stack, whose printed form is the parameter \<open>stk\<close>. Other
  dynamic types have no \<open>Format\<close> method and \<^const>\<open>fmt_plusv\<close> never reads the
  last equation's value for them.
\<close>

fun format :: "string \<Rightarrow> fverb \<Rightarrow> goerr \<Rightarrow> string go" where
  "format stk v (WithStatus c e) =
     (if is_formatter e then format stk v e
      else case v of
             VerbPlusV \<Rightarrow> Inr (itoa c @ '' '' @ fmt_plusv (format stk VerbPlusV e) e)
           | VerbV \<Rightarrow> error_text e
           | VerbS \<Rightarrow> error_text e
           | VerbQ \<Rightarrow> go_bind (error_text e) (\<lambda>t. Inr (go_quote t))
           | VerbOther r \<Rightarrow> Inr [])"
| "format stk v (PkgWrap m e) =
     (case v of
        VerbPlusV \<Rightarrow> Inr (fmt_plusv (format stk VerbPlusV e) e @ LF @ m @ stk)
      | VerbV \<Rightarrow> error_text (PkgWrap m e)
      | VerbS \<Rightarrow> error_text (PkgWrap m e)
      | VerbQ \<Rightarrow> go_bind (error_text (PkgWrap m e)) (\<lambda>t. Inr (go_quote t))
      | VerbOther r \<Rightarrow> Inr [])"
| "format stk v e = Inr []"

section \<open>Lemmas\<close>

text \<open>A status wrapper around a formatter prints exactly what the inner error prints.\<close>

lemma format_delegates:
  "is_formatter e \<Longrightarrow> format stk v (WithStatus c e) = format stk v e"
  by simp

lemma format_plusv_plain:
  "\<not> is_formatter e \<Longrightarrow> \<not> is_nil e \<Longrightarrow> error_text e = Inr t \<Longrightarrow>
   format stk VerbPlusV (WithStatus c e) = Inr (itoa c @ '' '' @ t)"
  by (simp add: fmt_plusv_def fmt_catch_def)

lemma quote_char_plain:
  "32 \<le> (of_char c :: nat) \<Longrightarrow> (of_char c :: nat) < 127 \<Longrightarrow> c \<noteq> CHR 0x22 \<Longrightarrow> c \<noteq> CHR 0x5C \<Longrightarrow>
   quote_char c = [c]"
  by (simp add: quote_char_def Let_def)

lemma go_quote_plain:
  "\<forall>c\<in>set s. 32 \<le> (of_char c :: nat) \<and> (of_char c :: nat) < 127 \<and> c \<noteq> CHR 0x22 \<and> c \<noteq> CHR 0x5C \<Longrightarrow>
   go_quote s = CHR 0x22 # s @ [CHR 0x22]"
proof -
  assume "\<forall>c\<in>set s. 32 \<le> (of_char c :: nat) \<and> (of_char c :: nat) < 127 \<and> c \<noteq> CHR 0x22 \<and> c \<noteq> CHR 0x5C"
  then have "concat (map quote_char s) = s"
    by (induction s) (simp_all add: quote_char_plain)
  then show ?thesis by (simp add: go_quote_def)
qed

text \<open>
  A status wrapper around nil prints the code and \<open><nil>\<close> under \<open>%+v\<close>, but its
  \<open>%v\<close> panics in \<open>Error()\<close>.
\<close>

lemma format_Wrap_nil:
  "format stk VerbPlusV (Wrap c Nil) = Inr (itoa c @ '' <nil>'')"
  "format stk VerbV (Wrap c Nil) = Inl ''runtime error: invalid memory address or nil pointer dereference''"
  by (simp_all add: Wrap_def fmt_plusv_def)

section \<open>Properties of formatting\<close>

text \<open>
  C35. Printing nested status errors with \<open>%+v\<close> shows the innermost code only:
  \<open>errorWithStatus.Format\<close> hands the verb to a formatting inner error, so for
  \<open>Wrap(c1, Wrap(c2, e))\<close> with a plain inner error \<open>e\<close> it prints \<open>c2\<close>, a space
  and \<open>e.Error()\<close>, and \<open>c1\<close>, the code \<open>StatusCode\<close> reports, is not printed.
\<close>

theorem Format_plusv_innermost_code:
  "\<not> is_formatter e \<Longrightarrow> \<not> is_nil e \<Longrightarrow> error_text e = Inr t \<Longrightarrow>
   format stk VerbPlusV (Wrap c1 (Wrap c2 e)) = Inr (itoa c2 @ '' '' @ t)"
  by (simp add: Wrap_def fmt_plusv_def fmt_catch_def)

theorem Format_plusv_innermost_code_witness:
  "format [] VerbPlusV (Wrap 500 (Wrap 404 (Errorf ''not found''))) = Inr ''404 not found''"
  using Format_plusv_innermost_code [of "Errorf ''not found''" "''not found''" "[]" 500 404]
  by (simp add: itoa_def dec_digits.simps digit_char_def)

end
