(* ===== verification/Spec2Isabelle.thy ===== *)
theory Spec2Isabelle
  imports Headers ClientStack Serving ErrorFormat
begin

text \<open>
  \<^bold>\<open>A verification development of nametaginc/httpx.\<close>

  \<^bold>\<open>The program.\<close> Package \<open>httperr\<close> (src/httperr) gives errors an HTTP status
  (\<open>Wrap\<close>, wrap.go), a visibility (\<open>WrapPublic\<close>/\<open>WrapPrivate\<close>, public.go)
  or a rendering of their own (\<open>ResponseWriter\<close>, e.g. \<open>TooManyRequests\<close>,
  too_many_requests.go); \<open>Write\<close> (write.go) turns any error into a response;
  \<open>ReportError\<close> (handler.go) first runs the process-wide translators
  (translate.go) and then either calls the request's \<open>OnError\<close> callback or writes.
  Package \<open>httpx\<close> builds on it: \<open>JSONHandler\<close> (src/json.go) checks the shape of
  a Go function once and returns a handler that decodes the JSON body, calls the
  function, and encodes its result or reports its error through \<open>HandlerFunc\<close>.

  \<^bold>\<open>The theories, leaves first.\<close>
  \<^item> \<open>Prelude\<close>: Go panics as \<open>Inl\<close> of \<open>panic + 'a\<close> (\<open>'a go\<close>), their
    sequencing \<open>go_bind\<close>, Go slice indexing \<open>go_index\<close>, the first-match search
    \<open>find_map\<close> and ASCII case conversion; the \<open>go_run\<close> collection gathers the
    equations that evaluate the model on concrete inputs.
  \<^item> \<open>NetHttp\<close>: the standard-library boundary, modelled from Go's documented
    behaviour (it is not code of this repository): canonical header keys and
    \<open>http.Header\<close> as a map to value lists; \<open>http.StatusText\<close>; the response writer
    as a record (\<open>rw\<close>: live header, status, header as sent, body) driven by a list of
    operations (\<open>rw_op\<close>, \<open>rw_exec\<close>, \<open>rw_run\<close>), with the real server's rules
    (a second \<open>WriteHeader\<close> is ignored, a code outside 100..999 panics, a body write
    implies 200, no body for 1xx/204/304), the states reachable from a fresh writer
    (\<open>rw_reachable\<close>, an inductive predicate whose invariants are proved by rule
    induction); \<open>http.Error\<close> as its operation list; and
    \<open>strconv.Itoa\<close> with a decimal reader.
  \<^item> \<open>Errors\<close> (wrap.go, public.go, codes.go, response.go and the methods of
    too_many_requests.go): Go's \<open>error\<close> interface as the datatype \<open>goerr\<close> of the
    dynamic types met here (\<open>Nil\<close> is the nil interface); the methods \<open>Unwrap\<close>,
    \<open>Error\<close> (\<open>error_text\<close>, which panics through a nil), \<open>StatusCode\<close>,
    \<open>IsPublic\<close>, \<open>WriteResponse\<close> as capability functions; \<open>errors.As\<close>
    (\<open>errors_as\<close>, a terminating recursion on the unwrap chain) and
    \<open>pkg/errors.Cause\<close> from their documentation; the package's constructors and lookups
    under their Go names.
  \<^item> \<open>Render\<close> (write.go, too_many_requests.go): \<open>write_ops\<close> computes the
    operations \<open>Write\<close> performs, \<open>Write\<close> runs them; \<open>time.Time.Sub\<close> saturates at
    the int64 nanosecond range and Go's truncating division is written out
    (\<open>go_div\<close>).
  \<^item> \<open>Report\<close> (translate.go, handler.go, test.go): the package state
    \<open>httperr_state\<close> (the translator list and the value of \<open>httperr.Now\<close>), requests
    with their \<open>context.WithValue\<close> chain as a newest-first list, \<open>OnError\<close>,
    \<open>ReportError\<close>, \<open>HandlerFunc.ServeHTTP\<close> (\<open>serve_handler_func\<close>) and
    \<open>TestRequest\<close>. The outcome of serving (\<open>served\<close>) is the writer plus the
    calls made to \<open>OnError\<close> callbacks, which are named by numbers. The variable
    loop of \<open>TestRequest\<close> is a \<open>while\<close> over \<open>(ctx, i)\<close> whose body indexes
    \<open>vars[i]\<close> and \<open>vars[i+1]\<close> with Go's panic; \<open>with_vars\<close> is what it computes.
  \<^item> \<open>ErrorFormat\<close> (wrap.go): \<open>errorWithStatus.Format\<close> (\<open>format\<close>) for the
    verbs \<open>%v\<close>, \<open>%+v\<close>, \<open>%s\<close>, \<open>%q\<close> and any other, the
    \<open>pkg/errors\<close> wrapper's \<open>Format\<close>, and the parts of \<open>fmt\<close> (panic recovery,
    \<open>%+v\<close> of an argument) and \<open>strconv.Quote\<close> they call.
  \<^item> \<open>JsonHandler\<close> (json.go): reflect types (\<open>gotype\<close>, \<open>kind\<close>,
    \<open>type_string\<close>), signatures (\<open>fsig\<close>), the bind-time checks
    (\<open>json_handler_check\<close>, one branch per \<open>panic\<close> of the source), the values that
    cross \<open>reflect.Value.Call\<close> (\<open>gval\<close>), and the serving closure
    (\<open>json_call\<close>, \<open>result_error\<close>, \<open>json_serve\<close>). The JSON codec
    (\<open>json_codec\<close>) and the business function are parameters, so every theorem
    holds for any decoder, encoder and function.
  \<^item> \<open>JsonTyping\<close>: the typing of the values crossing \<open>reflect.Value.Call\<close>
    (\<open>gval_has_type\<close>) and what it takes for the function and the decoder to respect
    their types (\<open>func_typed\<close>, \<open>codec_typed\<close>).
  \<^item> \<open>Serving\<close>: the whole path of a request through the JSON handler,
    \<open>HandlerFunc.ServeHTTP\<close>, the translators, \<open>ReportError\<close> and \<open>Write\<close>;
    \<open>answerable\<close> names the errors \<open>Write\<close> renders with a status and without
    panicking.
  \<^item> \<open>Headers\<close> (headers.go): \<open>SplitHeaderOnSpace\<close> and
    \<open>SplitAuthorizationHeader\<close> over \<open>strings.Fields\<close> (\<open>go_fields\<close>, ASCII
    whitespace), \<open>strings.Index\<close> (\<open>str_index\<close>), slicing with its panic
    (\<open>go_slice_from\<close>) and \<open>strings.ToLower\<close>; \<open>split_header_ref\<close> is the
    reading of the doc comment the code is compared with.
  \<^item> \<open>Client\<close> (json_client.go): \<open>http.Response\<close> as a record whose body may end
    in a read error, \<open>HandleJSONError\<close>, \<open>NewRequest\<close>, \<open>HandleResponse\<close> and
    \<open>DoJSON\<close>; \<open>Client.Do\<close> (field \<open>cl_do\<close>) and \<open>url.Parse\<close> are
    parameters, \<open>http.NewRequestWithContext\<close> is modelled from its documentation.
    Functions return the Go error (\<open>Nil\<close> for nil) with the decoded value.
  \<^item> \<open>Transports\<close> (user_agent.go, basic_auth_transport.go,
    url_prefix_transport.go): a round tripper returns the response together with the
    caller's request as the call leaves it (\<open>None\<close> for a nil URL), which makes the
    in-place mutation of the request observable; base64 as used by
    \<open>SetBasicAuth\<close>, with its decoder.
  \<^item> \<open>ClientStack\<close>: \<open>http.Client.Do\<close> over a transport (\<open>client_do\<close>, from its
    documentation, for requests that are not redirected) and \<open>DoJSON\<close> composed with
    the three transport decorators.

  \<^bold>\<open>What the lemmas show.\<close> The claims C1--C40 are stated next to the code they are
  about. For the handler adapter: the response to a malformed body (C1), to a success
  (C2), to a nil error without result (C3), the panic of a function with no results
  (C4), an exact characterisation of the accepted signatures against the spec's list
  (C5, C17, C18), type safety of every accepted handler with a result (C10, in
  \<open>JsonTyping\<close>: serving never panics), and the routing of business and encoding errors (C15, C16, C30). For
  rendering: private, public and self-rendering errors (C6--C8), the panic on status
  codes outside 100..999 (C19), \<open>TooManyRequests\<close> and its \<open>Retry-After\<close> bounds and
  round trip (C20--C22), and where the root-cause lookup stops (C23). Every request to an accepted handler is answered, a status written
  or the error handed to the \<open>OnError\<close> callback, when the errors that can reach
  \<open>Write\<close> are renderable (C12, in \<open>Serving\<close>), and serving keeps the response
  writer in a reachable state, so its invariant holds from one request to the next (C13).
  For the error model: \<open>errors.As\<close> as a first match
  along the chain (C14, a refinement of the loop by a list search), and the code
  table (C29). For reporting: translator order (C9), termination of the variable loop of
  \<open>TestRequest\<close> on every argument list (C24) and the variables it binds (C28). Across the writer: \<open>Write\<close>
  keeps the writer's invariant (C25, from the invariant of every operation sequence in
  \<open>NetHttp\<close>), cannot change a status already written (C26), and the public message
  it sends is what \<open>Response.Error\<close> reads back on the client side (C27).
  For headers.go: \<open>SplitHeaderOnSpace\<close> never panics (C31), agrees with the documented
  reading exactly when the value has no leading or trailing whitespace (C32, an
  equivalence with \<open>split_header_ref\<close>; C34 shows the leading-whitespace condition
  is needed, a bug, and a lemma does the same for trailing whitespace) and splits word, whitespace and value back apart (C33). For the
  client: relaying an upstream error loses its status (C36), a marshalling failure sends
  nothing (C37), and the request handed to the HTTP client is characterised (C38). For
  the transports: basic credentials survive encoding and splitting (C39, through the
  base64 round trip), and the URL prefix is applied again to a reused request (C40).
  Composed, \<open>DoJSON\<close> through the three decorators hands the network one request with
  every header each layer adds (C11, in \<open>ClientStack\<close>). For
  printing: \<open>%+v\<close> of nested status errors shows only the innermost code (C35).

  \<^bold>\<open>Bounds and termination.\<close> No fuel is needed: every recursion is structural
  or, for \<open>errors_as\<close>, by the size of the error value, which \<open>Unwrap\<close> decreases
  (a wrap chain is finite by construction), and for \<open>go_fields\<close> by the length of the
  string, which each field consumed shortens. The loop of \<open>TestRequest\<close> is a
  \<open>while_option\<close>, proved to return by the measure \<open>len(vars) - i\<close>. Durations are int64 nanoseconds, saturated
  as \<open>time.Sub\<close> does. \<open>Duration.Seconds()\<close> is taken exactly; Go computes it in
  float64, which agrees with the exact value below 2^24 seconds (194 days).

  \<^bold>\<open>Not modelled.\<close> The standard library the client relies on is modelled only
  as far as its result matters: \<open>strings.Fields\<close> splits on ASCII whitespace (Go also
  splits on the multi-byte Unicode spaces), \<open>strings.ToLower\<close> on its ASCII path, the
  decoder's choice between a syntax error and a read error is simplified, and redirects,
  cookies and timeouts of \<open>http.Client\<close> are inside the \<open>cl_do\<close> parameter.
  In printing, the stack trace a \<open>pkg/errors\<close> wrapper records is a parameter of
  \<open>format\<close>, \<open>strconv.Quote\<close> is exact on ASCII and keeps bytes from 0x80 (as
  for valid UTF-8), and \<open>fmt\<close>'s own printing of a non-formatter under verbs other
  than \<open>v\<close>, \<open>s\<close> and \<open>q\<close> is not needed and not modelled. JSON
  itself, the network and header serialisation on the wire are outside the model:
  the codec is a parameter and the writer records headers as a map.
  \<open>httperr.Public\<close>, called by json.go, is not defined in the sources; it is modelled
  as the spec describes it (status around a public error).
\<close>

section \<open>Properties across components\<close>

text \<open>
  C27. What a server renders for a public error is what a client reads back: wrapping the
  response that \<open>Write\<close> sent as \<open>httperr.Response\<close> gives an error whose text is
  the status line, a colon, and the public message of the server's error.
\<close>

theorem public_error_roundtrip:
  assumes "errors_as response_writer e = None" and "IsPublic e"
    and "StatusCode e = c" and "100 \<le> c" and "c \<le> 999"
    and "error_text e = Inr t0" and "error_text (pkg_cause e) = Inr t" and "t \<noteq> []"
    and "rw_status w = None" and "rw_header w ''X-Error-Message'' = []"
  shows "\<exists>w'. Write now w e = Inr w' \<and> error_text (Response st (rw_sent w')) = Inr (st @ '': '' @ t)"
  using Write_public_eq [OF assms(1-7,9)] sent_error_message [of "rw_header w", OF assms(10)] assms(8)
  by (simp add: Let_def)

theorem public_error_roundtrip_witness:
  "\<exists>w'. Write 0 rw_init (WrapPublic (Wrap 418 (Errorf ''cannot frob the grob''))) = Inr w' \<and>
      error_text (Response ''418 Teapot'' (rw_sent w')) = Inr (''418 Teapot: cannot frob the grob'')"
  using public_error_roundtrip [where e = "WrapPublic (Wrap 418 (Errorf ''cannot frob the grob''))"
                                  and c = 418 and t0 = "''cannot frob the grob''"
                                  and t = "''cannot frob the grob''" and w = rw_init and now = 0
                                  and st = "''418 Teapot''"]
  by (simp add: chain_lookups error_ctor_defs rw_init_def)

text \<open>
  C30. When the request carries an \<open>OnError\<close> callback, a malformed body is not
  rendered: the callback receives the 400 public decode error after translation, once,
  and the response writer is left untouched.
\<close>

theorem json_malformed_to_callback:
  assumes "JSONHandler codec ft f = Inr h" and "length (fins ft) = 2"
    and "json_decode codec (fins ft ! 1) (req_body r) = Inl msg"
  shows "serve_handler_func st h (OnError r cb) s =
           Inr (s\<lparr>srv_reports := srv_reports s @ [(cb, TranslateError st (Public 400 (Errorf msg)))]\<rparr>)"
proof -
  from assms(1) have serve: "h = json_serve codec ft f" by (simp add: JSONHandler_Inr)
  have "req_body (OnError r cb) = req_body r" by (simp add: OnError_def)
  with assms(2,3) have "h (OnError r cb) s = Inr (s, Public 400 (Errorf msg))"
    by (simp add: serve json_serve_decode_error)
  then show ?thesis
    by (simp add: serve_handler_func_def ReportError_callback ctx_value_OnError Public_def Wrap_def)
qed

theorem json_malformed_to_callback_witness:
  "serve_handler_func ex_state
     (json_serve (ex_codec\<lparr>json_decode := (\<lambda>t b. Inl ''unexpected EOF'')\<rparr>) ex_sig (\<lambda>args. [VPtr (), VNil]))
     (OnError ex_request 7) ex_served =
   Inr (ex_served\<lparr>srv_reports := [(7, Public 400 (Errorf ''unexpected EOF''))]\<rparr>)"
proof -
  have h: "JSONHandler (ex_codec\<lparr>json_decode := (\<lambda>t b. Inl ''unexpected EOF'')\<rparr>) ex_sig (\<lambda>args. [VPtr (), VNil]) =
           Inr (json_serve (ex_codec\<lparr>json_decode := (\<lambda>t b. Inl ''unexpected EOF'')\<rparr>) ex_sig (\<lambda>args. [VPtr (), VNil]))"
    by (simp add: JSONHandler_def json_handler_check_def request_type_def)
  show ?thesis
    using json_malformed_to_callback [OF h, where msg = "''unexpected EOF''" and st = ex_state
                                        and r = ex_request and cb = 7 and s = ex_served]
    by (simp add: TranslateError_def)
qed

text \<open>
  C36. An upstream failure does not keep its status when a service relays it: without an
  \<open>OnError\<close> hook, \<open>HandleResponse\<close> turns a response of status 400 or more into
  \<open>httperr.Response\<close>, which has no \<open>StatusCode\<close> and no visibility, so
  \<open>Write\<close> renders it as a private 500 whatever the upstream status and message were.
\<close>

theorem relayed_upstream_error:
  assumes "cl_on_error c = None" and "400 \<le> resp_status_code resp" and "rw_status w = None"
  shows "fst (HandleResponse codec c resp t) = Response (resp_status resp) (resp_header resp) \<and>
         Write now w (fst (HandleResponse codec c resp t)) =
           Inr (w\<lparr>rw_header := text_plain_header (rw_header w), rw_status := Some 500,
                  rw_sent := text_plain_header (rw_header w),
                  rw_body := rw_body w @ ''Internal Server Error'' @ LF\<rparr>)"
proof -
  have e: "fst (HandleResponse codec c resp t) = Response (resp_status resp) (resp_header resp)"
    using assms(1,2) by (simp add: HandleResponse_def)
  have "Write now w (Response (resp_status resp) (resp_header resp)) =
          rw_run (http_error (status_text 500) 500) w"
    by (simp add: Write_def write_ops_private chain_lookups)
  with assms(3) e show ?thesis
    by (simp add: rw_run_http_error body_allowed_def status_text_run)
qed

theorem relayed_upstream_error_witness:
  "fst (HandleResponse ex_codec \<lparr>cl_do = (\<lambda>r. Inl Nil), cl_on_error = None\<rparr>
      \<lparr>resp_status = ''404 Not Found'', resp_status_code = 404,
       resp_header = header_set empty_header ''X-Error-Message'' ''no such user'', resp_body = [],
       resp_read_err = None\<rparr> None) =
     Response ''404 Not Found'' (header_set empty_header ''X-Error-Message'' ''no such user'') \<and>
   rw_status (projr (Write 0 rw_init (fst (HandleResponse ex_codec \<lparr>cl_do = (\<lambda>r. Inl Nil), cl_on_error = None\<rparr>
      \<lparr>resp_status = ''404 Not Found'', resp_status_code = 404,
       resp_header = header_set empty_header ''X-Error-Message'' ''no such user'', resp_body = [],
       resp_read_err = None\<rparr> None)))) = Some 500"
proof -
  note r = relayed_upstream_error [where c = "\<lparr>cl_do = (\<lambda>r. Inl Nil), cl_on_error = None\<rparr>" and w = rw_init
      and resp = "\<lparr>resp_status = ''404 Not Found'', resp_status_code = 404,
       resp_header = header_set empty_header ''X-Error-Message'' ''no such user'', resp_body = [],
       resp_read_err = None\<rparr>" and codec = ex_codec and t = None and now = 0]
  have "rw_status rw_init = None" by (simp add: rw_init_def)
  from r [OF _ _ this] show ?thesis by (simp add: HandleResponse_def)
qed

end
